theory Spec2Isabelle
  imports Complex_Main
begin

section \<open>Numbers and arrays\<close>

text \<open>
  The TypeScript sources compute on \<open>number\<close>. Finite numbers are modelled as
  \<^typ>\<open>real\<close> with exact arithmetic, and \<open>number | null\<close> as \<^typ>\<open>real option\<close>. The
  rounding of binary64 is modelled where a claim equates two amounts that the source
  computes along different paths (the conservation of capital in the route's backtest). Array lengths, indices and window sizes
  (\<open>period\<close>) are \<^typ>\<open>nat\<close>; a test such as \<open>i < period - 1\<close> is written
  \<open>i + 1 < period\<close> so that it means the same for \<open>period = 0\<close>.

  Division is the total division of HOL. Where a claim depends on what the source does
  when it divides by zero or reads past the end of an array, the model writes the
  outcome out (the merge test of the support and resistance detector, the NaN of the
  store module's MACD). Elsewhere a theorem that uses the value of a quotient assumes a
  divisor that is not zero (a period of at least 1, positive closes); the theorems on
  lengths, counters and prefixes use no such value.
\<close>

text \<open>\<open>xs.slice(a, b)\<close> for \<open>0 \<le> a\<close>: the elements at indices \<open>a..b-1\<close> that exist.\<close>

definition slice :: "nat \<Rightarrow> nat \<Rightarrow> 'a list \<Rightarrow> 'a list" where
  "slice a b xs = take (b - a) (drop a xs)"

section \<open>Series math utilities (technical-analysis module)\<close>

text \<open>\<open>calculateSMA\<close>: one entry per index, \<open>null\<close> while \<open>i < period - 1\<close>.\<close>

definition calculateSMA :: "real list \<Rightarrow> nat \<Rightarrow> real option list" where
  "calculateSMA data period =
     map (\<lambda>i. if i + 1 < period then None
              else Some (sum_list (slice (i + 1 - period) (i + 1) data) / real period))
         [0..<length data]"

text \<open>
  \<open>calculateEMA\<close>: the loop carries \<open>result\<close> and \<open>ema\<close>. In the last branch the
  source reads \<open>ema as number\<close>; a \<open>null\<close> there would count as 0 in the arithmetic.
\<close>

fun ema_step :: "real list \<Rightarrow> nat \<Rightarrow> nat \<Rightarrow> real option list \<times> real option
                 \<Rightarrow> real option list \<times> real option" where
  "ema_step data period i (result, ema) =
     (if i + 1 < period then (result @ [None], ema)
      else if i + 1 = period then
        (let e = sum_list (slice 0 period data) / real period
         in (result @ [Some e], Some e))
      else
        (let prev = (case ema of None \<Rightarrow> 0 | Some e \<Rightarrow> e);
             e = (data ! i - prev) * (2 / (real period + 1)) + prev
         in (result @ [Some e], Some e)))"

text \<open>The loop state after the iterations \<open>i = 0, ..., n - 1\<close>.\<close>

definition ema_loop :: "real list \<Rightarrow> nat \<Rightarrow> nat \<Rightarrow> real option list \<times> real option" where
  "ema_loop data period n = fold (ema_step data period) [0..<n] ([], None)"

definition calculateEMA :: "real list \<Rightarrow> nat \<Rightarrow> real option list" where
  "calculateEMA data period = fst (ema_loop data period (length data))"

section \<open>RSI\<close>

subsection \<open>Full-array variant (technical-analysis module)\<close>

definition rsi_gains :: "real list \<Rightarrow> real list" where
  "rsi_gains closes =
     map (\<lambda>i. let change = closes ! i - closes ! (i - 1) in if change > 0 then change else 0)
         [1..<length closes]"

definition rsi_losses :: "real list \<Rightarrow> real list" where
  "rsi_losses closes =
     map (\<lambda>i. let change = closes ! i - closes ! (i - 1) in if change < 0 then \<bar>change\<bar> else 0)
         [1..<length closes]"

text \<open>
  The average that the source computes at an index \<open>i \<ge> period\<close> from \<open>gains\<close>
  (respectively \<open>losses\<close>): the branch \<open>i === period\<close> takes the mean of the first
  \<open>period\<close> entries; the branch \<open>i > period\<close> recomputes \<open>prevAvg\<close> as the mean of
  \<open>xs.slice(i - period, i)\<close> and smooths it with \<open>xs[i - 1]\<close>.
\<close>

definition rsi_avg :: "real list \<Rightarrow> nat \<Rightarrow> nat \<Rightarrow> real" where
  "rsi_avg xs period i =
     (if i = period then sum_list (slice 0 period xs) / real period
      else
        (let prevAvg = sum_list (slice (i - period) i xs) / real period;
             current = xs ! (i - 1)
         in (prevAvg * (real period - 1) + current) / real period))"

definition rsi_avgGain :: "real list \<Rightarrow> nat \<Rightarrow> nat \<Rightarrow> real" where
  "rsi_avgGain closes period i = rsi_avg (rsi_gains closes) period i"

definition rsi_avgLoss :: "real list \<Rightarrow> nat \<Rightarrow> nat \<Rightarrow> real" where
  "rsi_avgLoss closes period i = rsi_avg (rsi_losses closes) period i"

text \<open>The value pushed in both branches once \<open>avgGain\<close> and \<open>avgLoss\<close> are known.\<close>

definition rsi_value :: "real \<Rightarrow> real \<Rightarrow> real" where
  "rsi_value avgGain avgLoss =
     (if avgLoss = 0 then 100 else (let rs = avgGain / avgLoss in 100 - 100 / (1 + rs)))"

definition calculateRSI :: "real list \<Rightarrow> nat \<Rightarrow> real option list" where
  "calculateRSI closes period =
     map (\<lambda>i. if i < period then None
              else Some (rsi_value (rsi_avgGain closes period i) (rsi_avgLoss closes period i)))
         [0..<length closes]"

subsection \<open>Single-value variant (store module)\<close>

datatype indicator_signal = SIGNAL_BUY | SIGNAL_SELL | SIGNAL_NEUTRAL

text \<open>
  \<open>IndicatorResult\<close>. The type of the numbers is a parameter: the RSI helper only
  produces finite numbers, the MACD helper of the store module can produce \<open>NaN\<close>.
\<close>

record 'n IndicatorResult =
  ir_value :: 'n
  ir_signal :: indicator_signal
  ir_strength :: 'n

text \<open>\<open>Math.round\<close> rounds half up.\<close>

definition js_round :: "real \<Rightarrow> real" where
  "js_round x = of_int \<lfloor>x + 1 / 2\<rfloor>"

definition store_changes :: "real list \<Rightarrow> real list" where
  "store_changes closes = map (\<lambda>i. closes ! i - closes ! (i - 1)) [1..<length closes]"

text \<open>The first loop accumulates \<open>(gains, losses)\<close> over the first \<open>period\<close> changes.\<close>

fun store_rsi_seed_step :: "real list \<Rightarrow> nat \<Rightarrow> real \<times> real \<Rightarrow> real \<times> real" where
  "store_rsi_seed_step changes i (gains, losses) =
     (if changes ! i > 0 then (gains + changes ! i, losses)
      else (gains, losses + \<bar>changes ! i\<bar>))"

text \<open>The second loop smooths \<open>(avgGain, avgLoss)\<close> over the remaining changes.\<close>

fun store_rsi_smooth_step :: "real list \<Rightarrow> nat \<Rightarrow> nat \<Rightarrow> real \<times> real \<Rightarrow> real \<times> real" where
  "store_rsi_smooth_step changes period i (avgGain, avgLoss) =
     (if changes ! i > 0
      then ((avgGain * (real period - 1) + changes ! i) / real period,
            (avgLoss * (real period - 1)) / real period)
      else ((avgGain * (real period - 1)) / real period,
            (avgLoss * (real period - 1) + \<bar>changes ! i\<bar>) / real period))"

text \<open>\<open>(avgGain, avgLoss)\<close> after both loops.\<close>

definition store_rsi_averages :: "real list \<Rightarrow> nat \<Rightarrow> real \<times> real" where
  "store_rsi_averages closes period =
     (let changes = store_changes closes;
          (gains, losses) = fold (store_rsi_seed_step changes) [0..<period] (0, 0)
      in fold (store_rsi_smooth_step changes period) [period..<length changes]
           (gains / real period, losses / real period))"

definition store_calculateRSI :: "real list \<Rightarrow> nat \<Rightarrow> real IndicatorResult" where
  "store_calculateRSI closes period =
     (if length closes < period + 1
      then \<lparr>ir_value = 50, ir_signal = SIGNAL_NEUTRAL, ir_strength = 0\<rparr>
      else
        (let (avgGain, avgLoss) = store_rsi_averages closes period
         in if avgLoss = 0 then \<lparr>ir_value = 100, ir_signal = SIGNAL_SELL, ir_strength = 100\<rparr>
            else
              (let rs = avgGain / avgLoss;
                   rsi = 100 - 100 / (1 + rs)
               in if rsi < 30
                  then \<lparr>ir_value = rsi, ir_signal = SIGNAL_BUY, ir_strength = js_round ((30 - rsi) / 30 * 100)\<rparr>
                  else if rsi > 70
                  then \<lparr>ir_value = rsi, ir_signal = SIGNAL_SELL, ir_strength = js_round ((rsi - 70) / 30 * 100)\<rparr>
                  else if rsi < 40
                  then \<lparr>ir_value = rsi, ir_signal = SIGNAL_BUY, ir_strength = js_round ((40 - rsi) / 40 * 50)\<rparr>
                  else if rsi > 60
                  then \<lparr>ir_value = rsi, ir_signal = SIGNAL_SELL, ir_strength = js_round ((rsi - 60) / 40 * 50)\<rparr>
                  else \<lparr>ir_value = rsi, ir_signal = SIGNAL_NEUTRAL, ir_strength = 0\<rparr>)))"

subsection \<open>Wilder smoothing as the specification words it\<close>

text \<open>
  Reference definition, written from the specification's sentence and not from the code:
  the average at index \<open>period + k\<close> is seeded (\<open>k = 0\<close>) with the simple mean of the
  first \<open>period\<close> entries and then follows
  \<open>avg = (avg * (period - 1) + current) / period\<close>, where \<open>avg\<close> on the right is the
  smoothed average of the previous index and \<open>current\<close> is the entry of the step that
  ends at the index.
\<close>

fun wilder_avg_spec :: "real list \<Rightarrow> nat \<Rightarrow> nat \<Rightarrow> real" where
  "wilder_avg_spec xs period 0 = sum_list (slice 0 period xs) / real period"
| "wilder_avg_spec xs period (Suc k) =
     (wilder_avg_spec xs period k * (real period - 1) + xs ! (period + k)) / real period"

definition wilder_rsi_spec :: "real list \<Rightarrow> nat \<Rightarrow> nat \<Rightarrow> real" where
  "wilder_rsi_spec closes period i =
     rsi_value (wilder_avg_spec (rsi_gains closes) period (i - period))
               (wilder_avg_spec (rsi_losses closes) period (i - period))"

section \<open>Standard deviation, MACD and Bollinger Bands (technical-analysis module)\<close>

definition calculateStdDev :: "real list \<Rightarrow> nat \<Rightarrow> real option list" where
  "calculateStdDev data period =
     map (\<lambda>i. if i + 1 < period then None
              else
                (let sl = slice (i + 1 - period) (i + 1) data;
                     mean = sum_list sl / real period;
                     squaredDiffs = map (\<lambda>v. (v - mean)\<^sup>2) sl;
                     variance = sum_list squaredDiffs / real period
                 in Some (sqrt variance)))
         [0..<length data]"

record MACDSeries =
  macd :: "real option list"
  signal :: "real option list"
  histogram :: "real option list"

text \<open>The difference pushed when both operands are numbers, \<open>null\<close> otherwise.\<close>

definition diff_or_null :: "real option \<Rightarrow> real option \<Rightarrow> real option" where
  "diff_or_null a b = (case a of None \<Rightarrow> None | Some x \<Rightarrow> (case b of None \<Rightarrow> None | Some y \<Rightarrow> Some (x - y)))"

definition macd_line :: "real list \<Rightarrow> real option list" where
  "macd_line closes =
     (let ema12 = calculateEMA closes 12;
          ema26 = calculateEMA closes 26
      in map (\<lambda>i. diff_or_null (ema12 ! i) (ema26 ! i)) [0..<length closes])"

definition calculateMACD :: "real list \<Rightarrow> MACDSeries" where
  "calculateMACD closes =
     (let macdLine = macd_line closes;
          validMacd = map (\<lambda>v. case v of None \<Rightarrow> 0 | Some x \<Rightarrow> x) macdLine;
          signalLine = calculateEMA validMacd 9
      in \<lparr>macd = macdLine,
          signal = signalLine,
          histogram = map (\<lambda>i. diff_or_null (macdLine ! i) (signalLine ! i)) [0..<length closes]\<rparr>)"

text \<open>
  Reference definition, written from the specification's sentence ``EMA(9) of the MACD
  line = signal line'' and not from the code: the 9-period EMA runs over the values of
  the MACD line that exist, so its first value stands at the ninth of them, and the
  indices before it hold \<open>null\<close>.
\<close>

definition macd_signal_spec :: "real option list \<Rightarrow> real option list" where
  "macd_signal_spec macdLine =
     (let k = length (takeWhile (\<lambda>v. v = None) macdLine);
          vals = concat (map (\<lambda>v. case v of None \<Rightarrow> [] | Some x \<Rightarrow> [x]) macdLine)
      in replicate k None @ calculateEMA vals 9)"

text \<open>Sample series: the closes 1, 2, ..., 34.\<close>

definition ramp_closes :: "real list" where
  "ramp_closes = map real [1..<35]"

record BollingerSeries =
  bb_upper :: "real option list"
  bb_middle :: "real option list"
  bb_lower :: "real option list"
  bb_width :: "real option list"

text \<open>The three values pushed at one index: upper band, lower band and width.\<close>

definition bollinger_row :: "real option \<Rightarrow> real option \<Rightarrow> real
                             \<Rightarrow> real option \<times> real option \<times> real option" where
  "bollinger_row m sd stdDevMultiplier =
     (case m of None \<Rightarrow> (None, None, None)
      | Some mid \<Rightarrow>
         (case sd of None \<Rightarrow> (None, None, None)
          | Some dev \<Rightarrow>
             (let upperBand = mid + stdDevMultiplier * dev;
                  lowerBand = mid - stdDevMultiplier * dev
              in (Some upperBand, Some lowerBand,
                  if mid \<noteq> 0 then Some ((upperBand - lowerBand) / mid) else None))))"

definition calculateBollingerBands :: "real list \<Rightarrow> nat \<Rightarrow> real \<Rightarrow> BollingerSeries" where
  "calculateBollingerBands closes period stdDevMultiplier =
     (let middle = calculateSMA closes period;
          stdDev = calculateStdDev closes period;
          rows = map (\<lambda>i. bollinger_row (middle ! i) (stdDev ! i) stdDevMultiplier) [0..<length closes]
      in \<lparr>bb_upper = map fst rows,
          bb_middle = middle,
          bb_lower = map (\<lambda>r. fst (snd r)) rows,
          bb_width = map (\<lambda>r. snd (snd r)) rows\<rparr>)"

section \<open>Backtesting simulator of the API route\<close>

text \<open>
  Record fields carry a short prefix where two interfaces of the source share a field
  name. Timestamps are integers (milliseconds). The source's field \<open>open\<close> is
  \<open>open_price\<close> here.
\<close>

record CandleData =
  timestamp :: int
  open_price :: real
  high :: real
  low :: real
  close :: real
  volume :: real

record BacktestConfig =
  cryptoId :: string
  startDate :: int
  endDate :: int
  initialCapital :: real
  rsiOversold :: real
  rsiOverbought :: real
  stopLossPercent :: real
  takeProfitPercent :: real
  positionSizePercent :: real
  maxPositions :: real

datatype trade_type = BUY | SELL

text \<open>\<open>pnl\<close> and \<open>pnlPercent\<close> are absent (\<open>None\<close>) on BUY entries.\<close>

record BacktestTrade =
  t_type :: trade_type
  t_timestamp :: int
  t_price :: real
  t_quantity :: real
  t_total :: real
  t_reason :: string
  t_pnl :: "real option"
  t_pnlPercent :: "real option"

text \<open>The local variables of \<open>runBacktest\<close>.\<close>

record backtest_state =
  capital :: real
  position :: real
  entryPrice :: real
  stopLoss :: real
  takeProfit :: real
  trades :: "BacktestTrade list"
  equityCurve :: "(int \<times> real) list"
  winningTrades :: nat
  losingTrades :: nat
  totalPnL :: real
  maxDrawdown :: real
  peakEquity :: real

text \<open>
  Reading \<open>xs[i]\<close> from an indicator array. Past the end JavaScript yields
  \<open>undefined\<close>; every use in the simulator is a comparison guarded by \<open>!== null\<close>,
  and a comparison with \<open>undefined\<close> is false, so \<open>undefined\<close> behaves as \<open>null\<close>.
\<close>

definition at_index :: "real option list \<Rightarrow> nat \<Rightarrow> real option" where
  "at_index xs i = (if i < length xs then xs ! i else None)"

text \<open>\<open>parts.join(sep)\<close>.\<close>

fun join :: "string \<Rightarrow> string list \<Rightarrow> string" where
  "join sep [] = []"
| "join sep [x] = x"
| "join sep (x # y # ys) = x @ sep @ join sep (y # ys)"

text \<open>The equity point and the drawdown bookkeeping at the head of the loop body.\<close>

definition mark_equity :: "CandleData \<Rightarrow> backtest_state \<Rightarrow> backtest_state" where
  "mark_equity candle st =
     (let currentEquity = capital st + position st * close candle;
          peak = (if currentEquity > peakEquity st then currentEquity else peakEquity st);
          drawdown = (peak - currentEquity) / peak
      in st\<lparr>equityCurve := equityCurve st @ [(timestamp candle, currentEquity)],
            peakEquity := peak,
            maxDrawdown := (if drawdown > maxDrawdown st then drawdown else maxDrawdown st)\<rparr>)"

text \<open>The SELL entry pushed when the open position is closed at price \<open>p\<close>.\<close>

definition sell_trade :: "int \<Rightarrow> real \<Rightarrow> string \<Rightarrow> backtest_state \<Rightarrow> BacktestTrade" where
  "sell_trade ts p why st =
     (let pnl = (p - entryPrice st) * position st
      in \<lparr>t_type = SELL, t_timestamp = ts, t_price = p, t_quantity = position st,
          t_total = p * position st, t_reason = why, t_pnl = Some pnl,
          t_pnlPercent = Some ((pnl / (entryPrice st * position st)) * 100)\<rparr>)"

definition stop_loss_exit :: "CandleData \<Rightarrow> backtest_state \<Rightarrow> backtest_state" where
  "stop_loss_exit candle st =
     (let pnl = (stopLoss st - entryPrice st) * position st
      in st\<lparr>capital := capital st + stopLoss st * position st,
            trades := trades st @ [sell_trade (timestamp candle) (stopLoss st) ''Stop Loss'' st],
            losingTrades := (if pnl < 0 then losingTrades st + 1 else losingTrades st),
            totalPnL := totalPnL st + pnl,
            position := 0,
            entryPrice := 0\<rparr>)"

definition take_profit_exit :: "CandleData \<Rightarrow> backtest_state \<Rightarrow> backtest_state" where
  "take_profit_exit candle st =
     (let pnl = (takeProfit st - entryPrice st) * position st
      in st\<lparr>capital := capital st + takeProfit st * position st,
            trades := trades st @ [sell_trade (timestamp candle) (takeProfit st) ''Take Profit'' st],
            winningTrades := (if pnl > 0 then winningTrades st + 1 else winningTrades st),
            totalPnL := totalPnL st + pnl,
            position := 0,
            entryPrice := 0\<rparr>)"

definition buy_signals :: "BacktestConfig \<Rightarrow> CandleData \<Rightarrow> real option \<Rightarrow> real option
                           \<Rightarrow> real option \<Rightarrow> real option \<Rightarrow> string list" where
  "buy_signals config candle rsi macdHistogram prevHistogram lowerBand =
     (case rsi of None \<Rightarrow> []
      | Some r \<Rightarrow> if r < rsiOversold config then [''RSI oversold''] else []) @
     (case macdHistogram of None \<Rightarrow> []
      | Some h \<Rightarrow>
         (case prevHistogram of None \<Rightarrow> []
          | Some ph \<Rightarrow> if h > 0 \<and> ph \<le> 0 then [''MACD bullish crossover''] else [])) @
     (case lowerBand of None \<Rightarrow> []
      | Some lb \<Rightarrow> if close candle < lb then [''Below Bollinger Band''] else [])"

definition sell_signals :: "BacktestConfig \<Rightarrow> real option \<Rightarrow> real option \<Rightarrow> real option
                            \<Rightarrow> string list" where
  "sell_signals config rsi macdHistogram prevHistogram =
     (case rsi of None \<Rightarrow> []
      | Some r \<Rightarrow> if r > rsiOverbought config then [''RSI overbought''] else []) @
     (case macdHistogram of None \<Rightarrow> []
      | Some h \<Rightarrow>
         (case prevHistogram of None \<Rightarrow> []
          | Some ph \<Rightarrow> if h < 0 \<and> ph \<ge> 0 then [''MACD bearish crossover''] else []))"

definition try_buy :: "BacktestConfig \<Rightarrow> CandleData \<Rightarrow> string list \<Rightarrow> backtest_state
                       \<Rightarrow> backtest_state" where
  "try_buy config candle buySignals st =
     (if position st = 0 \<and> capital st > 0 \<and> length buySignals \<ge> 1 then
        (let positionSize = (capital st * positionSizePercent config) / 100;
             quantity = positionSize / close candle
         in st\<lparr>position := quantity,
               entryPrice := close candle,
               stopLoss := close candle * (1 - stopLossPercent config / 100),
               takeProfit := close candle * (1 + takeProfitPercent config / 100),
               capital := capital st - positionSize,
               trades := trades st @
                 [\<lparr>t_type = BUY, t_timestamp = timestamp candle, t_price = close candle,
                   t_quantity = quantity, t_total = positionSize,
                   t_reason = join '', '' buySignals, t_pnl = None, t_pnlPercent = None\<rparr>]\<rparr>)
      else st)"

definition try_sell :: "CandleData \<Rightarrow> string list \<Rightarrow> backtest_state \<Rightarrow> backtest_state" where
  "try_sell candle sellSignals st =
     (if position st > 0 \<and> length sellSignals \<ge> 1 then
        (let pnl = (close candle - entryPrice st) * position st
         in st\<lparr>capital := capital st + close candle * position st,
               trades := trades st @
                 [sell_trade (timestamp candle) (close candle) (join '', '' sellSignals) st],
               winningTrades := (if pnl > 0 then winningTrades st + 1 else winningTrades st),
               losingTrades := (if pnl > 0 then losingTrades st else losingTrades st + 1),
               totalPnL := totalPnL st + pnl,
               position := 0,
               entryPrice := 0\<rparr>)
      else st)"

text \<open>
  One iteration of the main loop at index \<open>i\<close>; the two early exits are the
  \<open>continue\<close> statements of the source.
\<close>

definition backtest_step :: "CandleData list \<Rightarrow> real option list \<Rightarrow> MACDSeries \<Rightarrow> BollingerSeries
                             \<Rightarrow> BacktestConfig \<Rightarrow> nat \<Rightarrow> backtest_state \<Rightarrow> backtest_state" where
  "backtest_step candles rsiValues macdResult bollinger config i st =
     (let candle = candles ! i;
          rsi = at_index rsiValues i;
          macdHistogram = at_index (histogram macdResult) i;
          prevHistogram = at_index (histogram macdResult) (i - 1);
          lowerBand = at_index (bb_lower bollinger) i;
          st1 = mark_equity candle st
      in if position st1 > 0 \<and> low candle \<le> stopLoss st1 then stop_loss_exit candle st1
         else if position st1 > 0 \<and> high candle \<ge> takeProfit st1 then take_profit_exit candle st1
         else try_sell candle (sell_signals config rsi macdHistogram prevHistogram)
                (try_buy config candle
                   (buy_signals config candle rsi macdHistogram prevHistogram lowerBand) st1))"

definition initial_state :: "BacktestConfig \<Rightarrow> backtest_state" where
  "initial_state config =
     \<lparr>capital = initialCapital config, position = 0, entryPrice = 0, stopLoss = 0,
      takeProfit = 0, trades = [], equityCurve = [], winningTrades = 0, losingTrades = 0,
      totalPnL = 0, maxDrawdown = 0, peakEquity = initialCapital config\<rparr>"

text \<open>The state after the iterations \<open>i = 50, ..., n - 1\<close> of the main loop.\<close>

definition simulate :: "CandleData list \<Rightarrow> real option list \<Rightarrow> MACDSeries \<Rightarrow> BollingerSeries
                        \<Rightarrow> BacktestConfig \<Rightarrow> nat \<Rightarrow> backtest_state" where
  "simulate candles rsiValues macdResult bollinger config n =
     fold (backtest_step candles rsiValues macdResult bollinger config) [50..<n]
       (initial_state config)"

text \<open>
  ``Close any remaining position'', after the loop: the SELL entry ``End of backtest''.
  The position variable itself is left as it is.
\<close>

definition close_remaining :: "CandleData list \<Rightarrow> backtest_state \<Rightarrow> backtest_state" where
  "close_remaining candles st =
     (if position st > 0 then
        (let lastCandle = last candles;
             pnl = (close lastCandle - entryPrice st) * position st
         in st\<lparr>capital := capital st + close lastCandle * position st,
               trades := trades st @
                 [sell_trade (timestamp lastCandle) (close lastCandle) ''End of backtest'' st],
               winningTrades := (if pnl > 0 then winningTrades st + 1 else winningTrades st),
               losingTrades := (if pnl > 0 then losingTrades st else losingTrades st + 1),
               totalPnL := totalPnL st + pnl\<rparr>)
      else st)"

text \<open>
  The returned object. The free-text field \<open>analysis\<close>, which only formats the numbers
  below, is left out.
\<close>

record BacktestResult =
  r_config :: BacktestConfig
  totalReturn :: real
  totalReturnPercent :: real
  annualizedReturn :: real
  r_maxDrawdown :: real
  sharpeRatio :: real
  winRate :: real
  totalTrades :: nat
  r_winningTrades :: nat
  r_losingTrades :: nat
  r_trades :: "BacktestTrade list"
  r_equityCurve :: "(int \<times> real) list"

definition sharpe_of_trades :: "BacktestTrade list \<Rightarrow> real" where
  "sharpe_of_trades ts =
     (let returns = map (\<lambda>t. (case t_pnlPercent t of None \<Rightarrow> 0 | Some p \<Rightarrow> p) / 100)
                        (filter (\<lambda>t. t_pnl t \<noteq> None) ts);
          avgReturn = (if length returns > 0 then sum_list returns / real (length returns) else 0);
          stdDev = (if length returns > 1
                    then sqrt (sum_list (map (\<lambda>r. (r - avgReturn)\<^sup>2) returns)
                               / (real (length returns) - 1))
                    else 0)
      in if stdDev > 0 then (avgReturn / stdDev) * sqrt 252 else 0)"

definition summarise :: "BacktestConfig \<Rightarrow> CandleData list \<Rightarrow> backtest_state \<Rightarrow> BacktestResult" where
  "summarise config candles st =
     (let totalReturn = capital st - initialCapital config;
          totalReturnPercent = (totalReturn / initialCapital config) * 100;
          totalTrades = winningTrades st + losingTrades st
      in \<lparr>r_config = config,
          totalReturn = totalReturn,
          totalReturnPercent = totalReturnPercent,
          annualizedReturn = totalReturnPercent * (365 / max 1 (real (length candles) / 24)),
          r_maxDrawdown = maxDrawdown st * 100,
          sharpeRatio = sharpe_of_trades (trades st),
          winRate = (if totalTrades > 0
                     then (real (winningTrades st) / real totalTrades) * 100 else 0),
          totalTrades = totalTrades,
          r_winningTrades = winningTrades st,
          r_losingTrades = losingTrades st,
          r_trades = trades st,
          r_equityCurve = equityCurve st\<rparr>)"

text \<open>The local variables once the loop has run and the remaining position is closed.\<close>

definition final_state :: "CandleData list \<Rightarrow> real option list \<Rightarrow> MACDSeries \<Rightarrow> BollingerSeries
                           \<Rightarrow> BacktestConfig \<Rightarrow> backtest_state" where
  "final_state candles rsiValues macdResult bollinger config =
     close_remaining candles
       (simulate candles rsiValues macdResult bollinger config (length candles))"

definition runBacktest :: "CandleData list \<Rightarrow> real option list \<Rightarrow> MACDSeries \<Rightarrow> BollingerSeries
                           \<Rightarrow> BacktestConfig \<Rightarrow> BacktestResult" where
  "runBacktest candles rsiValues macdResult bollinger config =
     summarise config candles (final_state candles rsiValues macdResult bollinger config)"

text \<open>
  The request handler from the point where the candles are known: it refuses fewer than
  50 candles, computes the three indicator series over all closes and runs the
  simulation.
\<close>

definition backtest_route :: "CandleData list \<Rightarrow> BacktestConfig \<Rightarrow> string + BacktestResult" where
  "backtest_route candles config =
     (if length candles < 50 then Inl ''Not enough historical data for backtesting''
      else
        (let closes = map close candles
         in Inr (runBacktest candles (calculateRSI closes 14) (calculateMACD closes)
                   (calculateBollingerBands closes 20 2) config)))"

text \<open>The loop state of that run after the iterations \<open>50, ..., n - 1\<close>.\<close>

definition route_state :: "CandleData list \<Rightarrow> BacktestConfig \<Rightarrow> nat \<Rightarrow> backtest_state" where
  "route_state candles config n =
     (let closes = map close candles
      in simulate candles (calculateRSI closes 14) (calculateMACD closes)
           (calculateBollingerBands closes 20 2) config n)"

text \<open>
  The decision taken at index \<open>i\<close>: the entries that iteration \<open>i\<close> appends to the trade
  log (none, a BUY, a SELL, or a BUY followed by a SELL), each with type, price and
  quantity.
\<close>

definition route_decision :: "CandleData list \<Rightarrow> BacktestConfig \<Rightarrow> nat \<Rightarrow> BacktestTrade list" where
  "route_decision candles config i =
     drop (length (trades (route_state candles config i)))
          (trades (route_state candles config (Suc i)))"

text \<open>The sum of \<open>pnl\<close> over the SELL entries of a trade log.\<close>

definition realized_pnl :: "BacktestTrade list \<Rightarrow> real" where
  "realized_pnl ts =
     sum_list (map (\<lambda>t. case t_pnl t of None \<Rightarrow> 0 | Some p \<Rightarrow> p)
                   (filter (\<lambda>t. t_type t = SELL) ts))"

subsection \<open>Invariants of the simulation loop\<close>

text \<open>The number of SELL entries of a trade log.\<close>

definition sells :: "BacktestTrade list \<Rightarrow> nat" where
  "sells ts = length (filter (\<lambda>t. t_type t = SELL) ts)"

text \<open>
  Every SELL entry of the log is counted as a win or as a loss, and while a position is
  open its stop price is below and its target price above the entry price.
\<close>

definition counted :: "backtest_state \<Rightarrow> bool" where
  "counted st \<longleftrightarrow>
     winningTrades st + losingTrades st = sells (trades st) \<and>
     (0 < position st \<longrightarrow> stopLoss st < entryPrice st \<and> entryPrice st < takeProfit st)"

subsection \<open>Sample request\<close>

text \<open>
  Candles whose open, high, low and close coincide, with consecutive timestamps; the
  request handler sets \<open>volume\<close> to 0.
\<close>

definition flat_candle :: "int \<Rightarrow> real \<Rightarrow> CandleData" where
  "flat_candle ts p = \<lparr>timestamp = ts, open_price = p, high = p, low = p, close = p, volume = 0\<rparr>"

fun flat_candles :: "int \<Rightarrow> real list \<Rightarrow> CandleData list" where
  "flat_candles ts [] = []"
| "flat_candles ts (p # ps) = flat_candle ts p # flat_candles (ts + 1) ps"

text \<open>Fifty-one closes: 49 times 100, then 90 twice.\<close>

definition dip_closes :: "real list" where
  "dip_closes = replicate 49 100 @ [90, 90]"

definition dip_candles :: "CandleData list" where
  "dip_candles = flat_candles 0 dip_closes"

text \<open>The handler's default parameters, with the position size left open.\<close>

definition default_config :: "real \<Rightarrow> BacktestConfig" where
  "default_config sizePercent =
     \<lparr>cryptoId = ''bitcoin'', startDate = 0, endDate = 0, initialCapital = 10000,
      rsiOversold = 30, rsiOverbought = 70, stopLossPercent = 5, takeProfitPercent = 20,
      positionSizePercent = sizePercent, maxPositions = 3\<rparr>"

text \<open>What the handler computes for the sample candles.\<close>

definition dip_result :: "real \<Rightarrow> BacktestResult" where
  "dip_result sizePercent =
     runBacktest dip_candles (calculateRSI dip_closes 14) (calculateMACD dip_closes)
       (calculateBollingerBands dip_closes 20 2) (default_config sizePercent)"




section \<open>The route's simulator in binary64 arithmetic\<close>

text \<open>
  A JavaScript \<open>number\<close> is a binary64 value, and \<open>+\<close>, \<open>-\<close>, \<open>*\<close>, \<open>/\<close> and
  \<open>Math.sqrt\<close> return the exact result rounded to the nearest such value. An equation
  between two amounts that the simulator computes along different paths therefore
  depends on the rounding. The definitions of this section repeat the simulator of the
  API route with a rounding function \<open>rnd\<close> applied to the result of every operation, in
  the order in which the source evaluates its expressions; comparisons are exact. With
  the identity for \<open>rnd\<close> they are the definitions of the previous section. The indicator
  arrays are parameters of \<open>runBacktest\<close>, so the theorems about it hold however they
  were rounded. Overflow to \<open>Infinity\<close>, \<open>NaN\<close> and the loss of precision of subnormal
  numbers are left out.
\<close>

definition mark_equity_fl :: "(real \<Rightarrow> real) \<Rightarrow> CandleData \<Rightarrow> backtest_state \<Rightarrow> backtest_state" where
  "mark_equity_fl rnd candle st =
     (let currentEquity = rnd (capital st + rnd (position st * close candle));
          peak = (if currentEquity > peakEquity st then currentEquity else peakEquity st);
          drawdown = rnd (rnd (peak - currentEquity) / peak)
      in st\<lparr>equityCurve := equityCurve st @ [(timestamp candle, currentEquity)],
            peakEquity := peak,
            maxDrawdown := (if drawdown > maxDrawdown st then drawdown else maxDrawdown st)\<rparr>)"

definition sell_trade_fl :: "(real \<Rightarrow> real) \<Rightarrow> int \<Rightarrow> real \<Rightarrow> string \<Rightarrow> backtest_state
                             \<Rightarrow> BacktestTrade" where
  "sell_trade_fl rnd ts p why st =
     (let pnl = rnd (rnd (p - entryPrice st) * position st)
      in \<lparr>t_type = SELL, t_timestamp = ts, t_price = p, t_quantity = position st,
          t_total = rnd (p * position st), t_reason = why, t_pnl = Some pnl,
          t_pnlPercent = Some (rnd (rnd (pnl / rnd (entryPrice st * position st)) * 100))\<rparr>)"

definition stop_loss_exit_fl :: "(real \<Rightarrow> real) \<Rightarrow> CandleData \<Rightarrow> backtest_state \<Rightarrow> backtest_state" where
  "stop_loss_exit_fl rnd candle st =
     (let pnl = rnd (rnd (stopLoss st - entryPrice st) * position st)
      in st\<lparr>capital := rnd (capital st + rnd (stopLoss st * position st)),
            trades := trades st @
              [sell_trade_fl rnd (timestamp candle) (stopLoss st) ''Stop Loss'' st],
            losingTrades := (if pnl < 0 then losingTrades st + 1 else losingTrades st),
            totalPnL := rnd (totalPnL st + pnl),
            position := 0,
            entryPrice := 0\<rparr>)"

definition take_profit_exit_fl :: "(real \<Rightarrow> real) \<Rightarrow> CandleData \<Rightarrow> backtest_state \<Rightarrow> backtest_state" where
  "take_profit_exit_fl rnd candle st =
     (let pnl = rnd (rnd (takeProfit st - entryPrice st) * position st)
      in st\<lparr>capital := rnd (capital st + rnd (takeProfit st * position st)),
            trades := trades st @
              [sell_trade_fl rnd (timestamp candle) (takeProfit st) ''Take Profit'' st],
            winningTrades := (if pnl > 0 then winningTrades st + 1 else winningTrades st),
            totalPnL := rnd (totalPnL st + pnl),
            position := 0,
            entryPrice := 0\<rparr>)"

definition try_buy_fl :: "(real \<Rightarrow> real) \<Rightarrow> BacktestConfig \<Rightarrow> CandleData \<Rightarrow> string list
                          \<Rightarrow> backtest_state \<Rightarrow> backtest_state" where
  "try_buy_fl rnd config candle buySignals st =
     (if position st = 0 \<and> capital st > 0 \<and> length buySignals \<ge> 1 then
        (let positionSize = rnd (rnd (capital st * positionSizePercent config) / 100);
             quantity = rnd (positionSize / close candle)
         in st\<lparr>position := quantity,
               entryPrice := close candle,
               stopLoss := rnd (close candle * rnd (1 - rnd (stopLossPercent config / 100))),
               takeProfit := rnd (close candle * rnd (1 + rnd (takeProfitPercent config / 100))),
               capital := rnd (capital st - positionSize),
               trades := trades st @
                 [\<lparr>t_type = BUY, t_timestamp = timestamp candle, t_price = close candle,
                   t_quantity = quantity, t_total = positionSize,
                   t_reason = join '', '' buySignals, t_pnl = None, t_pnlPercent = None\<rparr>]\<rparr>)
      else st)"

definition try_sell_fl :: "(real \<Rightarrow> real) \<Rightarrow> CandleData \<Rightarrow> string list \<Rightarrow> backtest_state
                           \<Rightarrow> backtest_state" where
  "try_sell_fl rnd candle sellSignals st =
     (if position st > 0 \<and> length sellSignals \<ge> 1 then
        (let pnl = rnd (rnd (close candle - entryPrice st) * position st)
         in st\<lparr>capital := rnd (capital st + rnd (close candle * position st)),
               trades := trades st @
                 [sell_trade_fl rnd (timestamp candle) (close candle) (join '', '' sellSignals) st],
               winningTrades := (if pnl > 0 then winningTrades st + 1 else winningTrades st),
               losingTrades := (if pnl > 0 then losingTrades st else losingTrades st + 1),
               totalPnL := rnd (totalPnL st + pnl),
               position := 0,
               entryPrice := 0\<rparr>)
      else st)"

definition backtest_step_fl :: "(real \<Rightarrow> real) \<Rightarrow> CandleData list \<Rightarrow> real option list \<Rightarrow> MACDSeries
                                \<Rightarrow> BollingerSeries \<Rightarrow> BacktestConfig \<Rightarrow> nat \<Rightarrow> backtest_state
                                \<Rightarrow> backtest_state" where
  "backtest_step_fl rnd candles rsiValues macdResult bollinger config i st =
     (let candle = candles ! i;
          rsi = at_index rsiValues i;
          macdHistogram = at_index (histogram macdResult) i;
          prevHistogram = at_index (histogram macdResult) (i - 1);
          lowerBand = at_index (bb_lower bollinger) i;
          st1 = mark_equity_fl rnd candle st
      in if position st1 > 0 \<and> low candle \<le> stopLoss st1 then stop_loss_exit_fl rnd candle st1
         else if position st1 > 0 \<and> high candle \<ge> takeProfit st1
           then take_profit_exit_fl rnd candle st1
         else try_sell_fl rnd candle (sell_signals config rsi macdHistogram prevHistogram)
                (try_buy_fl rnd config candle
                   (buy_signals config candle rsi macdHistogram prevHistogram lowerBand) st1))"

definition simulate_fl :: "(real \<Rightarrow> real) \<Rightarrow> CandleData list \<Rightarrow> real option list \<Rightarrow> MACDSeries
                           \<Rightarrow> BollingerSeries \<Rightarrow> BacktestConfig \<Rightarrow> nat \<Rightarrow> backtest_state" where
  "simulate_fl rnd candles rsiValues macdResult bollinger config n =
     fold (backtest_step_fl rnd candles rsiValues macdResult bollinger config) [50..<n]
       (initial_state config)"

definition close_remaining_fl :: "(real \<Rightarrow> real) \<Rightarrow> CandleData list \<Rightarrow> backtest_state
                                  \<Rightarrow> backtest_state" where
  "close_remaining_fl rnd candles st =
     (if position st > 0 then
        (let lastCandle = last candles;
             pnl = rnd (rnd (close lastCandle - entryPrice st) * position st)
         in st\<lparr>capital := rnd (capital st + rnd (close lastCandle * position st)),
               trades := trades st @
                 [sell_trade_fl rnd (timestamp lastCandle) (close lastCandle)
                    ''End of backtest'' st],
               winningTrades := (if pnl > 0 then winningTrades st + 1 else winningTrades st),
               losingTrades := (if pnl > 0 then losingTrades st else losingTrades st + 1),
               totalPnL := rnd (totalPnL st + pnl)\<rparr>)
      else st)"

text \<open>\<open>xs.reduce((a, b) => a + b, 0)\<close>: the additions from left to right, each rounded.\<close>

definition reduce_add :: "(real \<Rightarrow> real) \<Rightarrow> real list \<Rightarrow> real" where
  "reduce_add rnd xs = foldl (\<lambda>a b. rnd (a + b)) 0 xs"

text \<open>\<open>Math.pow(d, 2)\<close> is taken as the rounded square.\<close>

definition sharpe_of_trades_fl :: "(real \<Rightarrow> real) \<Rightarrow> BacktestTrade list \<Rightarrow> real" where
  "sharpe_of_trades_fl rnd ts =
     (let returns = map (\<lambda>t. rnd ((case t_pnlPercent t of None \<Rightarrow> 0 | Some p \<Rightarrow> p) / 100))
                        (filter (\<lambda>t. t_pnl t \<noteq> None) ts);
          avgReturn = (if length returns > 0
                       then rnd (reduce_add rnd returns / real (length returns)) else 0);
          stdDev = (if length returns > 1
                    then rnd (sqrt (rnd (reduce_add rnd
                                           (map (\<lambda>r. rnd ((rnd (r - avgReturn))\<^sup>2)) returns)
                                         / (real (length returns) - 1))))
                    else 0)
      in if stdDev > 0 then rnd (rnd (avgReturn / stdDev) * rnd (sqrt 252)) else 0)"

definition summarise_fl :: "(real \<Rightarrow> real) \<Rightarrow> BacktestConfig \<Rightarrow> CandleData list \<Rightarrow> backtest_state
                            \<Rightarrow> BacktestResult" where
  "summarise_fl rnd config candles st =
     (let totalReturn = rnd (capital st - initialCapital config);
          totalReturnPercent = rnd (rnd (totalReturn / initialCapital config) * 100);
          totalTrades = winningTrades st + losingTrades st
      in \<lparr>r_config = config,
          totalReturn = totalReturn,
          totalReturnPercent = totalReturnPercent,
          annualizedReturn =
            rnd (totalReturnPercent * rnd (365 / max 1 (rnd (real (length candles) / 24)))),
          r_maxDrawdown = rnd (maxDrawdown st * 100),
          sharpeRatio = sharpe_of_trades_fl rnd (trades st),
          winRate = (if totalTrades > 0
                     then rnd (rnd (real (winningTrades st) / real totalTrades) * 100) else 0),
          totalTrades = totalTrades,
          r_winningTrades = winningTrades st,
          r_losingTrades = losingTrades st,
          r_trades = trades st,
          r_equityCurve = equityCurve st\<rparr>)"

definition final_state_fl :: "(real \<Rightarrow> real) \<Rightarrow> CandleData list \<Rightarrow> real option list \<Rightarrow> MACDSeries
                              \<Rightarrow> BollingerSeries \<Rightarrow> BacktestConfig \<Rightarrow> backtest_state" where
  "final_state_fl rnd candles rsiValues macdResult bollinger config =
     close_remaining_fl rnd candles
       (simulate_fl rnd candles rsiValues macdResult bollinger config (length candles))"

definition runBacktest_fl :: "(real \<Rightarrow> real) \<Rightarrow> CandleData list \<Rightarrow> real option list \<Rightarrow> MACDSeries
                              \<Rightarrow> BollingerSeries \<Rightarrow> BacktestConfig \<Rightarrow> BacktestResult" where
  "runBacktest_fl rnd candles rsiValues macdResult bollinger config =
     summarise_fl rnd config candles
       (final_state_fl rnd candles rsiValues macdResult bollinger config)"

subsection \<open>The cash account replayed from the trade log\<close>

text \<open>
  The cash after an entry of the log: a BUY takes its \<open>total\<close> out of the cash and a
  SELL puts its \<open>total\<close> in, as \<open>capital -= positionSize\<close> and
  \<open>capital += price * position\<close> do.
\<close>

definition cash_after :: "(real \<Rightarrow> real) \<Rightarrow> real \<Rightarrow> BacktestTrade \<Rightarrow> real" where
  "cash_after rnd c t =
     (case t_type t of BUY \<Rightarrow> rnd (c - t_total t) | SELL \<Rightarrow> rnd (c + t_total t))"

text \<open>The cash before the first entry and after each entry of the log.\<close>

fun balances :: "(real \<Rightarrow> real) \<Rightarrow> real \<Rightarrow> BacktestTrade list \<Rightarrow> real list" where
  "balances rnd c [] = [c]"
| "balances rnd c (t # ts) = c # balances rnd (cash_after rnd c t) ts"

text \<open>The sum, over the entries of the log, of the cash before the entry and its total.\<close>

fun turnover :: "(real \<Rightarrow> real) \<Rightarrow> real \<Rightarrow> BacktestTrade list \<Rightarrow> real" where
  "turnover rnd c [] = 0"
| "turnover rnd c (t # ts) = \<bar>c\<bar> + \<bar>t_total t\<bar> + turnover rnd (cash_after rnd c t) ts"

text \<open>
  The invariant of the loop for a rounding with relative error at most \<open>u\<close>: the
  position is not negative, the cash is the replayed balance, and cash plus the cost of
  the open position differs from the initial capital plus the logged profit by at most
  \<open>9 u\<close> times the turnover, less a reserve of \<open>3 u\<close> times the cost of the open position
  for the error of the profit that its sale will log.
\<close>

definition booked :: "(real \<Rightarrow> real) \<Rightarrow> real \<Rightarrow> BacktestConfig \<Rightarrow> backtest_state \<Rightarrow> bool" where
  "booked rnd u config st \<longleftrightarrow>
     0 \<le> position st \<and>
     capital st = last (balances rnd (initialCapital config) (trades st)) \<and>
     \<bar>capital st + entryPrice st * position st
        - (initialCapital config + realized_pnl (trades st))\<bar>
       + 3 * u * \<bar>entryPrice st * position st\<bar>
       \<le> 9 * u * turnover rnd (initialCapital config) (trades st)"

subsection \<open>Rounding to binary64\<close>

text \<open>The nearest integer, a tie going to the even one.\<close>

definition round_even :: "real \<Rightarrow> int" where
  "round_even y =
     (let n = \<lfloor>y\<rfloor>; r = y - of_int n
      in if r < 1 / 2 then n else if r > 1 / 2 then n + 1 else if even n then n else n + 1)"

text \<open>
  Rounding to 53 significant binary digits, to nearest with ties to even: the spacing
  of the binary64 values around \<open>x\<close> is \<open>2\<close> to the power \<open>\<lfloor>log\<^sub>2 |x|\<rfloor> - 52\<close>. The range
  of the exponent is not bounded.
\<close>

definition binary64 :: "real \<Rightarrow> real" where
  "binary64 x =
     (if x = 0 then 0
      else (let ulp = 2 powr (of_int \<lfloor>log 2 \<bar>x\<bar>\<rfloor> - 52)
            in of_int (round_even (x / ulp)) * ulp))"

subsection \<open>Sample request\<close>

text \<open>
  The sample candles followed by a candle at 95, between the stop and the target of a
  position bought at 90, and what \<open>runBacktest\<close> returns for them with the handler's
  default parameters under the rounding \<open>rnd\<close>. The indicator arrays are those of the
  exact model.
\<close>

definition rebound_closes :: "real list" where
  "rebound_closes = dip_closes @ [95]"

definition rebound_candles :: "CandleData list" where
  "rebound_candles = dip_candles @ [flat_candle 51 95]"

definition rebound_result :: "(real \<Rightarrow> real) \<Rightarrow> BacktestResult" where
  "rebound_result rnd =
     runBacktest_fl rnd rebound_candles (calculateRSI rebound_closes 14)
       (calculateMACD rebound_closes) (calculateBollingerBands rebound_closes 20 2)
       (default_config 10)"

section \<open>MACD and backtest helper of the store module\<close>

subsection \<open>Numbers that may be NaN\<close>

text \<open>
  The MACD helper of the store module subtracts an array element that may lie past the
  end of the array; in JavaScript that element is \<open>undefined\<close> and the difference is
  \<open>NaN\<close>. Its numbers are therefore modelled with an explicit \<open>NaN\<close>, which every
  arithmetic operation propagates and every comparison answers with false.
\<close>

datatype jsnum = Num real | NaN

fun js_lift2 :: "(real \<Rightarrow> real \<Rightarrow> real) \<Rightarrow> jsnum \<Rightarrow> jsnum \<Rightarrow> jsnum" where
  "js_lift2 f (Num a) (Num b) = Num (f a b)"
| "js_lift2 f _ _ = NaN"

definition js_add :: "jsnum \<Rightarrow> jsnum \<Rightarrow> jsnum" where
  "js_add = js_lift2 (+)"

definition js_sub :: "jsnum \<Rightarrow> jsnum \<Rightarrow> jsnum" where
  "js_sub = js_lift2 (-)"

definition js_mul :: "jsnum \<Rightarrow> jsnum \<Rightarrow> jsnum" where
  "js_mul = js_lift2 (*)"

text \<open>Division by a positive count (the divisors of the helper are its period arguments).\<close>

definition js_div :: "jsnum \<Rightarrow> nat \<Rightarrow> jsnum" where
  "js_div a n = (case a of Num x \<Rightarrow> Num (x / real n) | NaN \<Rightarrow> NaN)"

fun js_gt :: "jsnum \<Rightarrow> real \<Rightarrow> bool" where
  "js_gt (Num x) y = (x > y)"
| "js_gt NaN y = False"

fun js_lt :: "jsnum \<Rightarrow> real \<Rightarrow> bool" where
  "js_lt (Num x) y = (x < y)"
| "js_lt NaN y = False"

text \<open>\<open>xs[k]\<close> used as an operand: \<open>undefined\<close> outside the array counts as \<open>NaN\<close>.\<close>

definition js_nth :: "real list \<Rightarrow> int \<Rightarrow> jsnum" where
  "js_nth xs k = (if 0 \<le> k \<and> k < int (length xs) then Num (xs ! nat k) else NaN)"

definition js_nth_num :: "jsnum list \<Rightarrow> int \<Rightarrow> jsnum" where
  "js_nth_num xs k = (if 0 \<le> k \<and> k < int (length xs) then xs ! nat k else NaN)"

text \<open>Truthiness and comparison of a \<open>number | null\<close> value.\<close>

fun js_truthy :: "jsnum option \<Rightarrow> bool" where
  "js_truthy (Some (Num x)) = (x \<noteq> 0)"
| "js_truthy _ = False"

fun js_opt_gt :: "jsnum option \<Rightarrow> real \<Rightarrow> bool" where
  "js_opt_gt (Some v) y = js_gt v y"
| "js_opt_gt None y = (0 > y)"

fun js_opt_lt :: "jsnum option \<Rightarrow> real \<Rightarrow> bool" where
  "js_opt_lt (Some v) y = js_lt v y"
| "js_opt_lt None y = (0 < y)"

subsection \<open>\<open>calculateMACD\<close> of the store module\<close>

record store_macd =
  sm_macd :: "jsnum option"
  sm_signal :: "jsnum option"
  sm_histogram :: "jsnum option"
  sm_result :: "jsnum IndicatorResult"

text \<open>
  The loop over \<open>i = fastPeriod, ..., closes.length - 1\<close> that fills \<open>fastEMA\<close> and
  \<open>slowEMA\<close>; the state is \<open>(fastSMA, fastEMA, slowSMA, slowEMA)\<close>.
\<close>

fun store_ema_step :: "real list \<Rightarrow> nat \<Rightarrow> nat \<Rightarrow> nat \<Rightarrow> real \<times> real list \<times> real \<times> real list
                        \<Rightarrow> real \<times> real list \<times> real \<times> real list" where
  "store_ema_step closes fastPeriod slowPeriod i (fastSMA, fastEMA, slowSMA, slowEMA) =
     (let fastMultiplier = 2 / (real fastPeriod + 1);
          slowMultiplier = 2 / (real slowPeriod + 1);
          fastSMA' = (closes ! i - fastSMA) * fastMultiplier + fastSMA;
          fastEMA' = fastEMA @ [fastSMA']
      in if i + 1 \<ge> slowPeriod then
           (let slowSMA' = (closes ! i - slowSMA) * slowMultiplier + slowSMA
            in (fastSMA', fastEMA', slowSMA', slowEMA @ [slowSMA']))
         else (fastSMA', fastEMA', slowSMA, slowEMA))"

definition store_emas :: "real list \<Rightarrow> nat \<Rightarrow> nat \<Rightarrow> real list \<times> real list" where
  "store_emas closes fastPeriod slowPeriod =
     (let fastSMA = sum_list (slice 0 fastPeriod closes) / real fastPeriod;
          slowSMA = sum_list (slice 0 slowPeriod closes) / real slowPeriod;
          (fastSMA', fastEMA, slowSMA', slowEMA) =
             fold (store_ema_step closes fastPeriod slowPeriod) [fastPeriod..<length closes]
               (fastSMA, [fastSMA], slowSMA, [slowSMA])
      in (fastEMA, slowEMA))"

text \<open>The two arrays inside the loop state.\<close>

definition fastEMA_of :: "real \<times> real list \<times> real \<times> real list \<Rightarrow> real list" where
  "fastEMA_of st = fst (snd st)"

definition slowEMA_of :: "real \<times> real list \<times> real \<times> real list \<Rightarrow> real list" where
  "slowEMA_of st = snd (snd (snd st))"

text \<open>
  \<open>macdLine[i] = fastEMA[i + startIndex] - slowEMA[i]\<close> for every index of \<open>slowEMA\<close>;
  the read from \<open>fastEMA\<close> is not bounded by the length of \<open>fastEMA\<close>.
\<close>

definition store_macd_line :: "real list \<Rightarrow> nat \<Rightarrow> nat \<Rightarrow> jsnum list" where
  "store_macd_line closes fastPeriod slowPeriod =
     (let (fastEMA, slowEMA) = store_emas closes fastPeriod slowPeriod;
          startIndex = int slowPeriod - int fastPeriod
      in map (\<lambda>i. js_sub (js_nth fastEMA (int i + startIndex)) (Num (slowEMA ! i)))
             [0..<length slowEMA])"

definition store_signal_value :: "jsnum list \<Rightarrow> nat \<Rightarrow> jsnum" where
  "store_signal_value macdLine signalPeriod =
     (let signalMultiplier = 2 / (real signalPeriod + 1);
          seed = js_div (foldl js_add (Num 0) (slice 0 signalPeriod macdLine)) signalPeriod
      in fold (\<lambda>i signalValue.
                 js_add (js_mul (js_sub (macdLine ! i) signalValue) (Num signalMultiplier))
                        signalValue)
              [signalPeriod..<length macdLine] seed)"

definition store_calculateMACD :: "real list \<Rightarrow> nat \<Rightarrow> nat \<Rightarrow> nat \<Rightarrow> store_macd" where
  "store_calculateMACD closes fastPeriod slowPeriod signalPeriod =
     (if length closes < slowPeriod + signalPeriod
      then \<lparr>sm_macd = None, sm_signal = None, sm_histogram = None,
            sm_result = \<lparr>ir_value = Num 0, ir_signal = SIGNAL_NEUTRAL, ir_strength = Num 0\<rparr>\<rparr>
      else
        (let macdLine = store_macd_line closes fastPeriod slowPeriod;
             signalValue = store_signal_value macdLine signalPeriod;
             macd = js_nth_num macdLine (int (length macdLine) - 1);
             histogram = js_sub macd signalValue;
             prevDiff = js_sub (js_nth_num macdLine (int (length macdLine) - 2)) signalValue;
             strength = (case histogram of Num h \<Rightarrow> Num (min 50 (\<bar>h\<bar> * 1000)) | NaN \<Rightarrow> NaN);
             (sig, str) =
               (if js_gt histogram 0 \<and> js_lt prevDiff 0 then (SIGNAL_BUY, Num 80)
                else if js_lt histogram 0 \<and> js_gt prevDiff 0 then (SIGNAL_SELL, Num 80)
                else if js_gt histogram 0 then (SIGNAL_BUY, strength)
                else if js_lt histogram 0 then (SIGNAL_SELL, strength)
                else (SIGNAL_NEUTRAL, Num 0))
         in \<lparr>sm_macd = Some macd, sm_signal = Some signalValue, sm_histogram = Some histogram,
             sm_result = \<lparr>ir_value = macd, ir_signal = sig, ir_strength = str\<rparr>\<rparr>))"

subsection \<open>\<open>runBacktest\<close> of the store module\<close>

text \<open>
  The parameters \<open>initialCapital\<close>, \<open>rsiOversold\<close> and \<open>rsiOverbought\<close> are called
  \<open>startCapital\<close>, \<open>oversold\<close> and \<open>overbought\<close>. The \<open>reason\<close> of a trade is a
  text that embeds the RSI value formatted with \<open>toFixed(1)\<close>; the model keeps the
  kind of reason and the unformatted value.
\<close>

datatype store_reason = Entry_RSI_MACD real | Exit_RSI_overbought real | Exit_MACD_bearish

record store_trade =
  st_type :: trade_type
  st_price :: real
  st_timestamp :: int
  st_quantity :: real
  st_reason :: store_reason

record store_state =
  s_trades :: "store_trade list"
  s_capital :: real
  s_position :: real
  s_maxCapital :: real
  s_maxDrawdown :: real
  s_returns :: "real list"

text \<open>
  The two guarded branches of the loop body, given the indicator results of the
  iteration: the decision and its effect on the local variables.
\<close>

definition store_decide :: "real \<Rightarrow> real \<Rightarrow> real IndicatorResult \<Rightarrow> store_macd \<Rightarrow> real \<Rightarrow> int
                            \<Rightarrow> store_state \<Rightarrow> store_state" where
  "store_decide oversold overbought rsiResult macdResult currentPrice ts st =
     (if s_position st = 0 \<and> ir_value rsiResult < oversold \<and>
         js_truthy (sm_histogram macdResult) \<and> js_opt_gt (sm_histogram macdResult) 0
      then
        (let quantity = s_capital st / currentPrice
         in st\<lparr>s_position := quantity,
               s_capital := 0,
               s_trades := s_trades st @
                 [\<lparr>st_type = BUY, st_price = currentPrice, st_timestamp = ts,
                   st_quantity = quantity, st_reason = Entry_RSI_MACD (ir_value rsiResult)\<rparr>]\<rparr>)
      else if s_position st > 0 \<and>
              (ir_value rsiResult > overbought \<or>
               (js_truthy (sm_histogram macdResult) \<and> js_opt_lt (sm_histogram macdResult) 0))
      then
        (let trades' = s_trades st @
               [\<lparr>st_type = SELL, st_price = currentPrice, st_timestamp = ts,
                 st_quantity = s_position st,
                 st_reason = (if ir_value rsiResult > overbought
                              then Exit_RSI_overbought (ir_value rsiResult)
                              else Exit_MACD_bearish)\<rparr>];
             buys = filter (\<lambda>t. st_type t = BUY) trades'
         in st\<lparr>s_capital := s_position st * currentPrice,
               s_trades := trades',
               s_position := 0,
               s_returns := (if buys = [] then s_returns st
                             else s_returns st @
                                    [(currentPrice - st_price (last buys)) / st_price (last buys)])\<rparr>)
      else st)"

definition store_track :: "real \<Rightarrow> store_state \<Rightarrow> store_state" where
  "store_track currentPrice st =
     (let currentValue = (if s_position st > 0 then s_position st * currentPrice else s_capital st);
          maxCapital = (if currentValue > s_maxCapital st then currentValue else s_maxCapital st);
          drawdown = (maxCapital - currentValue) / maxCapital
      in st\<lparr>s_maxCapital := maxCapital,
            s_maxDrawdown := (if drawdown > s_maxDrawdown st then drawdown else s_maxDrawdown st)\<rparr>)"

text \<open>
  One iteration at index \<open>i\<close>: the indicators are computed from the closes of
  \<open>data.slice(0, i)\<close>, the price is the last of those closes, the timestamp is that of
  \<open>data[i]\<close>.
\<close>

definition store_step :: "CandleData list \<Rightarrow> real \<Rightarrow> real \<Rightarrow> nat \<Rightarrow> store_state \<Rightarrow> store_state" where
  "store_step data oversold overbought i st =
     (let historicalData = slice 0 i data;
          closes = map close historicalData;
          currentPrice = closes ! (length closes - 1);
          rsiResult = store_calculateRSI closes 14;
          macdResult = store_calculateMACD closes 12 26 9
      in store_track currentPrice
           (store_decide oversold overbought rsiResult macdResult currentPrice
              (timestamp (data ! i)) st))"

definition store_initial :: "real \<Rightarrow> store_state" where
  "store_initial startCapital =
     \<lparr>s_trades = [], s_capital = startCapital, s_position = 0,
      s_maxCapital = startCapital, s_maxDrawdown = 0, s_returns = []\<rparr>"

text \<open>The state after the iterations \<open>i = 50, ..., n - 1\<close>.\<close>

definition store_loop :: "CandleData list \<Rightarrow> real \<Rightarrow> real \<Rightarrow> real \<Rightarrow> nat \<Rightarrow> store_state" where
  "store_loop data startCapital oversold overbought n =
     fold (store_step data oversold overbought) [50..<n] (store_initial startCapital)"

record store_result =
  sr_trades :: "store_trade list"
  sr_totalReturn :: real
  sr_totalReturnPercent :: real
  sr_winRate :: real
  sr_maxDrawdown :: real
  sr_sharpeRatio :: real
  sr_totalTrades :: nat
  sr_winningTrades :: nat
  sr_losingTrades :: nat

definition store_sharpe :: "real list \<Rightarrow> real" where
  "store_sharpe returns =
     (let avgReturn = (if length returns > 0 then sum_list returns / real (length returns) else 0);
          stdReturn = (if length returns > 1
                       then sqrt (sum_list (map (\<lambda>b. (b - avgReturn)\<^sup>2) returns)
                                  / (real (length returns) - 1))
                       else 0)
      in if stdReturn > 0 then (avgReturn / stdReturn) * sqrt 252 else 0)"

definition store_runBacktest :: "CandleData list \<Rightarrow> real \<Rightarrow> real \<Rightarrow> real \<Rightarrow> store_result" where
  "store_runBacktest data startCapital oversold overbought =
     (if length data < 50
      then \<lparr>sr_trades = [], sr_totalReturn = 0, sr_totalReturnPercent = 0, sr_winRate = 0,
            sr_maxDrawdown = 0, sr_sharpeRatio = 0, sr_totalTrades = 0, sr_winningTrades = 0,
            sr_losingTrades = 0\<rparr>
      else
        (let st = store_loop data startCapital oversold overbought (length data);
             finalValue = (if s_position st > 0
                           then s_position st * close (data ! (length data - 1))
                           else s_capital st);
             totalReturn = finalValue - startCapital;
             buyTrades = filter (\<lambda>t. st_type t = BUY) (s_trades st);
             sellTrades = filter (\<lambda>t. st_type t = SELL) (s_trades st);
             pairs = zip buyTrades sellTrades;
             winningTrades = length (filter (\<lambda>(b, s). st_price s > st_price b) pairs);
             losingTrades = length (filter (\<lambda>(b, s). \<not> st_price s > st_price b) pairs)
         in \<lparr>sr_trades = s_trades st,
             sr_totalReturn = totalReturn,
             sr_totalReturnPercent = (totalReturn / startCapital) * 100,
             sr_winRate = (if winningTrades + losingTrades > 0
                           then (real winningTrades / real (winningTrades + losingTrades)) * 100
                           else 0),
             sr_maxDrawdown = s_maxDrawdown st * 100,
             sr_sharpeRatio = store_sharpe (s_returns st),
             sr_totalTrades = length (s_trades st),
             sr_winningTrades = winningTrades,
             sr_losingTrades = losingTrades\<rparr>))"

text \<open>
  The part of \<open>runBacktest\<close> after the loop (``Calculate metrics'' and the \<open>return\<close>
  statement) as a function of the variables that the loop leaves behind.
\<close>

definition store_summary :: "CandleData list \<Rightarrow> real \<Rightarrow> store_state \<Rightarrow> store_result" where
  "store_summary data startCapital st =
     (let finalValue = (if s_position st > 0
                        then s_position st * close (data ! (length data - 1))
                        else s_capital st);
          totalReturn = finalValue - startCapital;
          buyTrades = filter (\<lambda>t. st_type t = BUY) (s_trades st);
          sellTrades = filter (\<lambda>t. st_type t = SELL) (s_trades st);
          pairs = zip buyTrades sellTrades;
          winningTrades = length (filter (\<lambda>(b, s). st_price s > st_price b) pairs);
          losingTrades = length (filter (\<lambda>(b, s). \<not> st_price s > st_price b) pairs)
      in \<lparr>sr_trades = s_trades st,
          sr_totalReturn = totalReturn,
          sr_totalReturnPercent = (totalReturn / startCapital) * 100,
          sr_winRate = (if winningTrades + losingTrades > 0
                        then (real winningTrades / real (winningTrades + losingTrades)) * 100
                        else 0),
          sr_maxDrawdown = s_maxDrawdown st * 100,
          sr_sharpeRatio = store_sharpe (s_returns st),
          sr_totalTrades = length (s_trades st),
          sr_winningTrades = winningTrades,
          sr_losingTrades = losingTrades\<rparr>)"

text \<open>The entries that iteration \<open>i\<close> appends to the trade log.\<close>

definition store_decision :: "CandleData list \<Rightarrow> real \<Rightarrow> real \<Rightarrow> real \<Rightarrow> nat \<Rightarrow> store_trade list" where
  "store_decision data startCapital oversold overbought i =
     drop (length (s_trades (store_loop data startCapital oversold overbought i)))
          (s_trades (store_loop data startCapital oversold overbought (Suc i)))"

subsection \<open>The MACD histogram as the specification words it, and a sample series\<close>

text \<open>
  Reference definition, written from the specification's sentence ``EMA(12) minus EMA(26)
  = MACD line; EMA(9) of the MACD line = signal line; histogram = MACD - signal'' and
  not from the store module's code.
\<close>

definition macd_histogram_spec :: "real list \<Rightarrow> real option list" where
  "macd_histogram_spec closes =
     (let macdLine = macd_line closes;
          signalLine = macd_signal_spec macdLine
      in map (\<lambda>i. diff_or_null (macdLine ! i) (signalLine ! i)) [0..<length closes])"

text \<open>
  Fifty closes: a fall by 10 per candle from 1000 to 530, then 529 and 528. The sample
  data are these closes followed by one more candle.
\<close>

definition slowdown_closes :: "real list" where
  "slowdown_closes = map (\<lambda>k. 1000 - 10 * real k) [0..<48] @ [529, 528]"

definition slowdown_candles :: "CandleData list" where
  "slowdown_candles = flat_candles 0 (slowdown_closes @ [527])"

section \<open>Support and resistance (technical-analysis module)\<close>

datatype level_type = Support | Resistance

record PriceLevel =
  pl_price :: real
  pl_type :: level_type
  pl_strength :: nat
  pl_touches :: nat
  pl_lastTouch :: int

record SupportResistanceLevels =
  supports :: "PriceLevel list"
  resistances :: "PriceLevel list"
  pivotPoint :: real

record PivotPoints =
  pp_pivot :: real
  pp_r1 :: real
  pp_r2 :: real
  pp_r3 :: real
  pp_s1 :: real
  pp_s2 :: real
  pp_s3 :: real

definition calculatePivotPoints :: "real \<Rightarrow> real \<Rightarrow> real \<Rightarrow> PivotPoints" where
  "calculatePivotPoints h l c =
     (let pivot = (h + l + c) / 3
      in \<lparr>pp_pivot = pivot,
          pp_r1 = 2 * pivot - l,
          pp_r2 = pivot + (h - l),
          pp_r3 = h + 2 * (pivot - l),
          pp_s1 = 2 * pivot - h,
          pp_s2 = pivot - (h - l),
          pp_s3 = l - 2 * (h - pivot)\<rparr>)"

text \<open>
  \<open>candles.slice(-lookback)\<close>: the last \<open>lookback\<close> candles; \<open>slice(-0)\<close> is
  \<open>slice(0)\<close>, the whole array.
\<close>

definition last_candles :: "nat \<Rightarrow> 'a list \<Rightarrow> 'a list" where
  "last_candles lookback candles =
     (if lookback = 0 then candles else drop (length candles - lookback) candles)"

text \<open>The levels pushed at index \<open>i\<close> of the scan: a local high, then a local low.\<close>

definition local_levels :: "CandleData list \<Rightarrow> nat \<Rightarrow> PriceLevel list" where
  "local_levels recentCandles i =
     (let candle = recentCandles ! i;
          prev1 = recentCandles ! (i - 1);
          prev2 = recentCandles ! (i - 2);
          next1 = recentCandles ! (i + 1);
          next2 = recentCandles ! (i + 2)
      in (if high candle > high prev1 \<and> high candle > high prev2 \<and>
             high candle > high next1 \<and> high candle > high next2
          then [\<lparr>pl_price = high candle, pl_type = Resistance, pl_strength = 1,
                 pl_touches = 1, pl_lastTouch = timestamp candle\<rparr>]
          else []) @
         (if low candle < low prev1 \<and> low candle < low prev2 \<and>
             low candle < low next1 \<and> low candle < low next2
          then [\<lparr>pl_price = low candle, pl_type = Support, pl_strength = 1,
                 pl_touches = 1, pl_lastTouch = timestamp candle\<rparr>]
          else []))"

text \<open>
  The test of \<open>mergedLevels.find\<close>. A level price of 0 makes the quotient NaN or
  infinite, and the comparison false.
\<close>

definition nearby :: "real \<Rightarrow> PriceLevel \<Rightarrow> PriceLevel \<Rightarrow> bool" where
  "nearby threshold l level \<longleftrightarrow>
     pl_type l = pl_type level \<and> pl_price level \<noteq> 0 \<and>
     \<bar>pl_price l - pl_price level\<bar> / pl_price level < threshold"

text \<open>The in-place update of the level that was found.\<close>

definition absorb :: "PriceLevel \<Rightarrow> PriceLevel \<Rightarrow> PriceLevel" where
  "absorb nearbyLevel level =
     nearbyLevel\<lparr>pl_price := (pl_price nearbyLevel * real (pl_touches nearbyLevel) + pl_price level)
                              / (real (pl_touches nearbyLevel) + 1),
                 pl_touches := pl_touches nearbyLevel + 1,
                 pl_strength := min 5 (pl_touches nearbyLevel + 1)\<rparr>"

text \<open>
  One iteration of the merge loop: the first merged level that is near is updated, and
  if there is none the level is pushed at the end.
\<close>

fun merge_level :: "real \<Rightarrow> PriceLevel \<Rightarrow> PriceLevel list \<Rightarrow> PriceLevel list" where
  "merge_level threshold level [] = [level]"
| "merge_level threshold level (l # ls) =
     (if nearby threshold l level then absorb l level # ls
      else l # merge_level threshold level ls)"

text \<open>
  \<open>Array.prototype.sort\<close> with a comparator on the price is a stable sort; it is
  modelled by the stable insertion sort \<open>sort_key\<close>, with the negated price as key for
  the descending order.
\<close>

definition findSupportResistance :: "CandleData list \<Rightarrow> nat \<Rightarrow> real \<Rightarrow> SupportResistanceLevels" where
  "findSupportResistance candles lookback threshold =
     (if length candles < 10
      then \<lparr>supports = [], resistances = [],
            pivotPoint = (if candles = [] then 0 else close (last candles))\<rparr>
      else
        (let recentCandles = last_candles lookback candles;
             levels = concat (map (local_levels recentCandles) [2..<length recentCandles - 2]);
             sortedLevels = sort_key pl_price levels;
             mergedLevels = fold (merge_level threshold) sortedLevels [];
             lastRecent = recentCandles ! (length recentCandles - 1);
             pivotData = calculatePivotPoints (high lastRecent) (low lastRecent) (close lastRecent)
         in \<lparr>supports = sort_key (\<lambda>l. - pl_price l)
                         (filter (\<lambda>l. pl_type l = Support) mergedLevels),
             resistances = sort_key pl_price
                         (filter (\<lambda>l. pl_type l = Resistance) mergedLevels),
             pivotPoint = pp_pivot pivotData\<rparr>))"

text \<open>
  Prices of one type of level in which each one is at most \<open>1 - threshold\<close> times the
  next: the shape the merge loop keeps.
\<close>

fun gapped :: "real \<Rightarrow> real list \<Rightarrow> bool" where
  "gapped t [] = True"
| "gapped t [p] = True"
| "gapped t (p # q # ps) = (p \<le> (1 - t) * q \<and> gapped t (q # ps))"

text \<open>Merged levels of one type, bounded by the price reached so far.\<close>

definition settled :: "real \<Rightarrow> real \<Rightarrow> level_type \<Rightarrow> PriceLevel list \<Rightarrow> bool" where
  "settled t bound ty ls \<longleftrightarrow>
     gapped t (map pl_price ls) \<and>
     list_all (\<lambda>l. pl_type l = ty \<and> 0 < pl_price l \<and> pl_price l \<le> bound \<and> 1 \<le> pl_touches l) ls"

record NearestLevels =
  nearestSupport :: "PriceLevel option"
  nearestResistance :: "PriceLevel option"
  distanceToSupport :: real
  distanceToResistance :: real

definition getNearestLevels :: "real \<Rightarrow> SupportResistanceLevels \<Rightarrow> NearestLevels" where
  "getNearestLevels currentPrice levels =
     (let nearestSupport = find (\<lambda>s. pl_price s < currentPrice) (supports levels);
          nearestResistance = find (\<lambda>r. pl_price r > currentPrice) (resistances levels)
      in \<lparr>nearestSupport = nearestSupport,
          nearestResistance = nearestResistance,
          distanceToSupport =
            (case nearestSupport of None \<Rightarrow> 100
             | Some s \<Rightarrow> ((currentPrice - pl_price s) / currentPrice) * 100),
          distanceToResistance =
            (case nearestResistance of None \<Rightarrow> 100
             | Some r \<Rightarrow> ((pl_price r - currentPrice) / currentPrice) * 100)\<rparr>)"

text \<open>Sample candles: twelve candles whose high and low lie 1 above and below the close.\<close>

fun band_candles :: "int \<Rightarrow> real list \<Rightarrow> CandleData list" where
  "band_candles ts [] = []"
| "band_candles ts (p # ps) =
     \<lparr>timestamp = ts, open_price = p, high = p + 1, low = p - 1, close = p, volume = 1\<rparr>
       # band_candles (ts + 1) ps"

definition zigzag_candles :: "CandleData list" where
  "zigzag_candles = band_candles 0 [100, 98, 90, 98, 100, 97, 80, 97, 110, 105, 104, 103]"

text \<open>
  Sample candles with two wicks down to a low of 0: open and close 5, high 6, and the
  lows 4, 3, 0, 3, 4, 3, 0, 3, 4, 4, 4, 4.
\<close>

fun wick_candles_from :: "int \<Rightarrow> real list \<Rightarrow> CandleData list" where
  "wick_candles_from ts [] = []"
| "wick_candles_from ts (l # ls) =
     \<lparr>timestamp = ts, open_price = 5, high = 6, low = l, close = 5, volume = 1\<rparr>
       # wick_candles_from (ts + 1) ls"

definition wick_candles :: "CandleData list" where
  "wick_candles = wick_candles_from 0 [4, 3, 0, 3, 4, 3, 0, 3, 4, 4, 4, 4]"

section \<open>Complete analysis (technical-analysis module)\<close>

subsection \<open>Signal helpers\<close>

definition getRSISignal :: "real \<Rightarrow> string \<times> int" where
  "getRSISignal rsi =
     (if rsi \<le> 20 then (''STRONG_OVERSOLD'', 5)
      else if rsi \<le> 30 then (''OVERSOLD'', 4)
      else if rsi \<le> 40 then (''SLIGHTLY_OVERSOLD'', 2)
      else if rsi \<ge> 80 then (''STRONG_OVERBOUGHT'', - 5)
      else if rsi \<ge> 70 then (''OVERBOUGHT'', - 4)
      else if rsi \<ge> 60 then (''SLIGHTLY_OVERBOUGHT'', - 2)
      else (''NEUTRAL'', 0))"

definition getMACDSignal :: "real option \<Rightarrow> real option \<Rightarrow> real option \<Rightarrow> real option
                             \<Rightarrow> string \<times> int" where
  "getMACDSignal m sg hist prevHistogram =
     (case hist of None \<Rightarrow> (''NEUTRAL'', 0)
      | Some h \<Rightarrow>
         if m = None \<or> sg = None then (''NEUTRAL'', 0)
         else if (case prevHistogram of None \<Rightarrow> False | Some ph \<Rightarrow> h > 0 \<and> ph \<le> 0)
           then (''BULLISH_CROSSOVER'', 4)
         else if (case prevHistogram of None \<Rightarrow> False | Some ph \<Rightarrow> h < 0 \<and> ph \<ge> 0)
           then (''BEARISH_CROSSOVER'', - 4)
         else if h > 0 then (''BULLISH'', if h > 1 / 2 then 2 else 1)
         else (''BEARISH'', if h < - (1 / 2) then - 2 else - 1))"

text \<open>
  The third component is \<open>%B\<close>; the source divides by \<open>upper - lower\<close> without a
  guard, and the caller below does not read it.
\<close>

definition getBollingerSignal :: "real \<Rightarrow> real option \<Rightarrow> real option \<Rightarrow> real option
                                  \<Rightarrow> string \<times> int \<times> real" where
  "getBollingerSignal price upper middle lower =
     (case upper of None \<Rightarrow> (''NEUTRAL'', 0, 1 / 2)
      | Some u \<Rightarrow>
         (case middle of None \<Rightarrow> (''NEUTRAL'', 0, 1 / 2)
          | Some m \<Rightarrow>
             (case lower of None \<Rightarrow> (''NEUTRAL'', 0, 1 / 2)
              | Some l \<Rightarrow>
                 (let percentB = (price - l) / (u - l)
                  in if price > u then (''ABOVE_UPPER'', - 3, percentB)
                     else if price < l then (''BELOW_LOWER'', 3, percentB)
                     else if price > m then (''UPPER_HALF'', 1, percentB)
                     else (''LOWER_HALF'', - 1, percentB)))))"

record VolumeSeries =
  vs_sma :: "real option list"
  vs_ratio :: "real option list"

definition analyzeVolume :: "real list \<Rightarrow> nat \<Rightarrow> VolumeSeries" where
  "analyzeVolume volumes period =
     (let sma = calculateSMA volumes period
      in \<lparr>vs_sma = sma,
          vs_ratio = map (\<lambda>i. case sma ! i of None \<Rightarrow> None
                               | Some m \<Rightarrow> if m = 0 then None else Some (volumes ! i / m))
                         [0..<length volumes]\<rparr>)"

definition getVolumeSignal :: "real option \<Rightarrow> real \<Rightarrow> string \<times> int" where
  "getVolumeSignal volumeRatio priceChange =
     (case volumeRatio of None \<Rightarrow> (''NEUTRAL'', 0)
      | Some vr \<Rightarrow>
         if vr > 2 \<and> priceChange > 0 then (''HIGH_VOLUME_BULLISH'', 3)
         else if vr > 2 \<and> priceChange < 0 then (''HIGH_VOLUME_BEARISH'', - 3)
         else if vr < 1 / 2 then (''LOW_VOLUME'', 0)
         else (''NORMAL'', 0))"

subsection \<open>\<open>performTechnicalAnalysis\<close>\<close>

datatype trend = BULLISH | BEARISH | SIDEWAYS

datatype analysis_signal = STRONG_BUY | BUY_SIGNAL | NEUTRAL | SELL_SIGNAL | STRONG_SELL

record MACDPoint =
  mp_macd :: "real option"
  mp_signal :: "real option"
  mp_histogram :: "real option"

record BollingerPoint =
  bp_upper :: "real option"
  bp_middle :: "real option"
  bp_lower :: "real option"
  bp_width :: "real option"

record MovingAverages =
  sma20 :: "real option"
  sma50 :: "real option"
  sma200 :: "real option"
  ema20 :: "real option"
  ema50 :: "real option"
  ema200 :: "real option"

record VolumePoint =
  vp_sma20 :: "real option"
  vp_ratio :: "real option"

record SupportResistanceSummary =
  support1 :: "real option"
  support2 :: "real option"
  resistance1 :: "real option"
  resistance2 :: "real option"
  pivot :: real

record TechnicalIndicators =
  ti_rsi :: "real option"
  ti_macd :: MACDPoint
  ti_bollingerBands :: BollingerPoint
  ti_movingAverages :: MovingAverages
  ti_volume :: VolumePoint
  ti_supportResistance :: SupportResistanceSummary
  ti_trend :: trend
  ti_signal :: analysis_signal
  ti_signalScore :: int

text \<open>
  The module-level constant \<open>levels\<close>, declared after the function
  (``Import for levels reference''): two empty arrays.
\<close>

record LevelArrays =
  la_supports :: "PriceLevel list"
  la_resistances :: "PriceLevel list"

definition levels :: LevelArrays where
  "levels = \<lparr>la_supports = [], la_resistances = []\<rparr>"

text \<open>
  \<open>xs[xs.length - 1]\<close> of a series (\<open>undefined\<close> for the empty array counts as
  \<open>null\<close>: each use below tests for \<open>null\<close> or falls back with \<open>||\<close>), and
  \<open>x || null\<close> on a number, where 0 is falsy.
\<close>

definition last_entry :: "real option list \<Rightarrow> real option" where
  "last_entry xs = (if xs = [] then None else xs ! (length xs - 1))"

definition or_null :: "real option \<Rightarrow> real option" where
  "or_null x = (case x of None \<Rightarrow> None | Some v \<Rightarrow> if v = 0 then None else Some v)"

text \<open>\<open>ls[1]?.price || null\<close>.\<close>

definition second_price :: "PriceLevel list \<Rightarrow> real option" where
  "second_price ls = or_null (if 1 < length ls then Some (pl_price (ls ! 1)) else None)"

datatype js_error = TypeError

text \<open>
  The score, accumulated in the order of the source. \<open>priceChange\<close> is the difference
  of the last two closes; with a single candle the source computes NaN, which is not
  read because the volume ratio is \<open>null\<close> then, and the model passes 0.
\<close>

definition signal_score :: "real \<Rightarrow> real option \<Rightarrow> MACDPoint \<Rightarrow> real option \<Rightarrow> BollingerPoint
                            \<Rightarrow> MovingAverages \<Rightarrow> real option \<Rightarrow> real \<Rightarrow> NearestLevels \<Rightarrow> int" where
  "signal_score lastClose rsi m prevHistogram b ma volumeRatio priceChange nearest =
     (let s1 = snd (getRSISignal (case or_null rsi of None \<Rightarrow> 50 | Some r \<Rightarrow> r)) * 4;
          s2 = s1 + snd (getMACDSignal (mp_macd m) (mp_signal m) (mp_histogram m) prevHistogram) * 3;
          s3 = s2 + fst (snd (getBollingerSignal lastClose (bp_upper b) (bp_middle b) (bp_lower b))) * 2;
          s4 = (case sma20 ma of None \<Rightarrow> s3
                | Some a \<Rightarrow> (case sma50 ma of None \<Rightarrow> s3
                              | Some c \<Rightarrow> if a > c then s3 + 2 else s3 - 2));
          s5 = (case sma50 ma of None \<Rightarrow> s4
                | Some a \<Rightarrow> (case sma200 ma of None \<Rightarrow> s4
                              | Some c \<Rightarrow> if a > c then s4 + 2 else s4 - 2));
          s6 = (case sma20 ma of None \<Rightarrow> s5
                | Some a \<Rightarrow> if lastClose > a then s5 + 1 else s5 - 1);
          s7 = s6 + snd (getVolumeSignal volumeRatio priceChange) * 3;
          s8 = (case ema200 ma of None \<Rightarrow> s7
                | Some e \<Rightarrow> if lastClose < e then s7 - 6 else s7 + 4);
          s9 = (if distanceToSupport nearest < 3 / 2
                then s8 + 2 + (case nearestSupport nearest of None \<Rightarrow> 1
                               | Some l \<Rightarrow> if pl_strength l = 0 then 1 else int (pl_strength l))
                else s8)
      in if distanceToResistance nearest < 3 / 2 then s9 - 5 else s9)"

definition performTechnicalAnalysis :: "CandleData list \<Rightarrow> js_error + TechnicalIndicators" where
  "performTechnicalAnalysis candles =
     (if candles = [] then Inl TypeError
      else
        (let closes = map close candles;
             volumes = map volume candles;
             lastCandle = candles ! (length candles - 1);
             rsi = last_entry (calculateRSI closes 14);
             macdResult = calculateMACD closes;
             m = \<lparr>mp_macd = last_entry (macd macdResult),
                  mp_signal = last_entry (signal macdResult),
                  mp_histogram = last_entry (histogram macdResult)\<rparr>;
             prevHistogram = (if 2 \<le> length closes
                              then histogram macdResult ! (length closes - 2) else None);
             bollinger = calculateBollingerBands closes 20 2;
             b = \<lparr>bp_upper = last_entry (bb_upper bollinger),
                  bp_middle = last_entry (bb_middle bollinger),
                  bp_lower = last_entry (bb_lower bollinger),
                  bp_width = last_entry (bb_width bollinger)\<rparr>;
             ma = \<lparr>sma20 = last_entry (calculateSMA closes 20),
                   sma50 = last_entry (calculateSMA closes 50),
                   sma200 = last_entry (calculateSMA closes 200),
                   ema20 = last_entry (calculateEMA closes 20),
                   ema50 = last_entry (calculateEMA closes 50),
                   ema200 = last_entry (calculateEMA closes 200)\<rparr>;
             volumeAnalysis = analyzeVolume volumes 20;
             volumeRatio = last_entry (vs_ratio volumeAnalysis);
             supportResistance = findSupportResistance candles 100 (2 / 100);
             nearest = getNearestLevels (close lastCandle) supportResistance;
             priceChange = (if 2 \<le> length closes
                            then closes ! (length closes - 1) - closes ! (length closes - 2)
                            else 0);
             signalScore = signal_score (close lastCandle) rsi m prevHistogram b ma volumeRatio
                             priceChange nearest;
             trend = (case ema20 ma of None \<Rightarrow> SIDEWAYS
                      | Some e20 \<Rightarrow>
                         (case ema50 ma of None \<Rightarrow> SIDEWAYS
                          | Some e50 \<Rightarrow>
                             if close lastCandle > e20 \<and> e20 > e50 then BULLISH
                             else if close lastCandle < e20 \<and> e20 < e50 then BEARISH
                             else SIDEWAYS));
             sig = (if signalScore \<ge> 22 then STRONG_BUY
                    else if signalScore \<ge> 10 then BUY_SIGNAL
                    else if signalScore \<le> - 22 then STRONG_SELL
                    else if signalScore \<le> - 10 then SELL_SIGNAL
                    else NEUTRAL)
         in Inr \<lparr>ti_rsi = rsi,
                 ti_macd = m,
                 ti_bollingerBands = b,
                 ti_movingAverages = ma,
                 ti_volume = \<lparr>vp_sma20 = last_entry (vs_sma volumeAnalysis), vp_ratio = volumeRatio\<rparr>,
                 ti_supportResistance =
                   \<lparr>support1 = or_null (map_option pl_price (nearestSupport nearest)),
                    support2 = second_price (la_supports levels),
                    resistance1 = or_null (map_option pl_price (nearestResistance nearest)),
                    resistance2 = second_price (la_resistances levels),
                    pivot = pivotPoint supportResistance\<rparr>,
                 ti_trend = trend,
                 ti_signal = sig,
                 ti_signalScore = signalScore\<rparr>))"

section \<open>Properties of the series utilities\<close>

lemma length_calculateSMA: "length (calculateSMA data period) = length data"
  by (simp add: calculateSMA_def)

lemma nth_calculateSMA_None:
  "i < length data \<Longrightarrow> (calculateSMA data period ! i = None) = (i + 1 < period)"
  by (simp add: calculateSMA_def)

lemma ema_loop_0: "ema_loop data period 0 = ([], None)"
  by (simp add: ema_loop_def)

lemma ema_loop_Suc: "ema_loop data period (Suc n) = ema_step data period n (ema_loop data period n)"
  by (simp add: ema_loop_def)

lemma ema_step_fst:
  "\<exists>v. fst (ema_step data period i st) = fst st @ [v] \<and> (v = None) = (i + 1 < period)"
  by (cases st) (simp add: Let_def)

lemma ema_loop_shape:
  "length (fst (ema_loop data period n)) = n \<and>
   (\<forall>i<n. (fst (ema_loop data period n) ! i = None) = (i + 1 < period))"
proof (induction n)
  case 0
  show ?case by (simp add: ema_loop_0)
next
  case (Suc n)
  obtain v where v: "fst (ema_step data period n (ema_loop data period n)) = fst (ema_loop data period n) @ [v]"
    "(v = None) = (n + 1 < period)"
    using ema_step_fst by blast
  show ?case
    using Suc v by (auto simp: ema_loop_Suc nth_append less_Suc_eq)
qed

lemma length_calculateEMA: "length (calculateEMA data period) = length data"
  using ema_loop_shape [of data period "length data"] by (simp add: calculateEMA_def)

lemma nth_calculateEMA_None:
  "i < length data \<Longrightarrow> (calculateEMA data period ! i = None) = (i + 1 < period)"
  using ema_loop_shape [of data period "length data"] by (simp add: calculateEMA_def)

lemma null_prefix_shape:
  fixes r :: "real option list"
  assumes len: "length r = n" and nth: "\<And>i. i < n \<Longrightarrow> (r ! i = None) = (i + 1 < period)"
  shows "(period \<le> n \<longrightarrow> take (period - 1) r = replicate (period - 1) None \<and>
            (\<forall>i. period - 1 \<le> i \<and> i < n \<longrightarrow> r ! i \<noteq> None)) \<and>
         (n < period \<longrightarrow> r = replicate n None)"
proof (intro conjI impI)
  assume "period \<le> n"
  then show "take (period - 1) r = replicate (period - 1) None"
    using len nth by (auto simp: list_eq_iff_nth_eq)
next
  assume "period \<le> n"
  show "\<forall>i. period - 1 \<le> i \<and> i < n \<longrightarrow> r ! i \<noteq> None"
    using nth by auto
next
  assume "n < period"
  then show "r = replicate n None"
    using len nth by (auto simp: list_eq_iff_nth_eq)
qed

text \<open>
  Claim C9. \<open>calculateSMA\<close> and \<open>calculateEMA\<close> return one entry per input value. If
  the series has at least \<open>period\<close> values, the first \<open>period - 1\<close> entries are \<open>null\<close>
  and every later entry is a number; if the series is shorter than \<open>period\<close>, every
  entry is \<open>null\<close>. (The periods are natural numbers; for the period 0, where the
  claim's count \<open>period - 1\<close> is not a length, no entry is \<open>null\<close>.)
\<close>

theorem sma_ema_null_prefix:
  "length (calculateSMA data period) = length data \<and>
   length (calculateEMA data period) = length data \<and>
   (period \<le> length data \<longrightarrow>
      take (period - 1) (calculateSMA data period) = replicate (period - 1) None \<and>
      (\<forall>i. period - 1 \<le> i \<and> i < length data \<longrightarrow> calculateSMA data period ! i \<noteq> None) \<and>
      take (period - 1) (calculateEMA data period) = replicate (period - 1) None \<and>
      (\<forall>i. period - 1 \<le> i \<and> i < length data \<longrightarrow> calculateEMA data period ! i \<noteq> None)) \<and>
   (length data < period \<longrightarrow>
      calculateSMA data period = replicate (length data) None \<and>
      calculateEMA data period = replicate (length data) None)"
  using null_prefix_shape [OF length_calculateSMA nth_calculateSMA_None, of data]
        null_prefix_shape [OF length_calculateEMA nth_calculateEMA_None, of data]
  by (simp add: length_calculateSMA length_calculateEMA)

text \<open>Period 3 on five values and on two values.\<close>

theorem sma_ema_null_prefix_witness:
  "(3::nat) \<le> length [1, 2, 3, 4, 5 :: real] \<and>
   take 2 (calculateSMA [1, 2, 3, 4, 5] 3) = [None, None] \<and>
   calculateSMA [1, 2, 3, 4, 5] 3 ! 2 \<noteq> None \<and>
   take 2 (calculateEMA [1, 2, 3, 4, 5] 3) = [None, None] \<and>
   calculateEMA [1, 2, 3, 4, 5] 3 ! 4 \<noteq> None \<and>
   length [1, 2 :: real] < 3 \<and>
   calculateSMA [1, 2] 3 = [None, None] \<and> calculateEMA [1, 2] 3 = [None, None]"
proof -
  have r: "replicate (3 - 1) (None :: real option) = [None, None]"
    by (simp add: numeral_eq_Suc)
  have t: "(3::nat) - 1 = 2" by simp
  show ?thesis
    using sma_ema_null_prefix [where data = "[1, 2, 3, 4, 5]" and period = 3]
          sma_ema_null_prefix [where data = "[1, 2]" and period = 3]
    unfolding r t by (simp add: numeral_eq_Suc)
qed

text \<open>Unfolding \<open>replicate\<close> at a numeral, for evaluating sample series.\<close>

lemma replicate_numeral: "replicate (numeral k) x = x # replicate (pred_numeral k) x"
  by (simp add: numeral_eq_Suc)

section \<open>Properties of RSI\<close>

lemma sum_list_slice_nonneg:
  fixes xs :: "real list"
  assumes "\<forall>x\<in>set xs. 0 \<le> x"
  shows "0 \<le> sum_list (slice a b xs)"
proof -
  have "set (slice a b xs) \<subseteq> set xs"
    unfolding slice_def by (meson set_take_subset set_drop_subset subset_trans)
  then show ?thesis using assms by (intro sum_list_nonneg) auto
qed

lemma rsi_gains_nonneg: "\<forall>x\<in>set (rsi_gains closes). 0 \<le> x"
  by (auto simp: rsi_gains_def Let_def)

lemma rsi_losses_nonneg: "\<forall>x\<in>set (rsi_losses closes). 0 \<le> x"
  by (auto simp: rsi_losses_def Let_def)

lemma length_rsi_gains: "length (rsi_gains closes) = length closes - 1"
  by (simp add: rsi_gains_def)

lemma length_rsi_losses: "length (rsi_losses closes) = length closes - 1"
  by (simp add: rsi_losses_def)

lemma rsi_avg_nonneg:
  fixes xs :: "real list"
  assumes nn: "\<forall>x\<in>set xs. 0 \<le> x" and p: "1 \<le> period" and i: "period \<le> i" "i \<le> length xs"
  shows "0 \<le> rsi_avg xs period i"
proof (cases "i = period")
  case True
  then show ?thesis
    using sum_list_slice_nonneg [OF nn, of 0 period] by (simp add: rsi_avg_def)
next
  case False
  have cur: "0 \<le> xs ! (i - 1)"
    using nn i p by (simp add: nth_mem)
  have prev: "0 \<le> sum_list (slice (i - period) i xs) / real period"
    using sum_list_slice_nonneg [OF nn, of "i - period" i] by simp
  have "0 \<le> (sum_list (slice (i - period) i xs) / real period) * (real period - 1) + xs ! (i - 1)"
    using cur prev p by (intro add_nonneg_nonneg mult_nonneg_nonneg) auto
  then show ?thesis
    using False by (simp add: rsi_avg_def Let_def)
qed

lemma rsi_value_bounds:
  assumes "0 \<le> g" "0 \<le> l"
  shows "0 \<le> rsi_value g l \<and> rsi_value g l \<le> 100"
proof (cases "l = 0")
  case True
  then show ?thesis by (simp add: rsi_value_def)
next
  case False
  then have l: "0 < l" using assms by simp
  have rs: "0 \<le> g / l" using assms l by simp
  have "100 / (1 + g / l) \<le> 100 / 1"
    using rs by (intro divide_left_mono) auto
  moreover have "0 \<le> 100 / (1 + g / l)" using rs by simp
  ultimately show ?thesis using False by (simp add: rsi_value_def Let_def)
qed

lemma rsi_value_zero_loss: "rsi_value g 0 = 100"
  by (simp add: rsi_value_def)

lemma nth_calculateRSI:
  "i < length closes \<Longrightarrow> calculateRSI closes period ! i =
     (if i < period then None
      else Some (rsi_value (rsi_avgGain closes period i) (rsi_avgLoss closes period i)))"
  by (simp add: calculateRSI_def)

lemma calculateRSI_in_range:
  assumes p: "1 \<le> period" and i: "i < length closes" and r: "calculateRSI closes period ! i = Some r"
  shows "0 \<le> r \<and> r \<le> 100"
proof -
  have pi: "period \<le> i" and req: "r = rsi_value (rsi_avgGain closes period i) (rsi_avgLoss closes period i)"
    using r i by (auto simp: nth_calculateRSI split: if_splits)
  have "0 \<le> rsi_avgGain closes period i"
    unfolding rsi_avgGain_def using p pi i
    by (intro rsi_avg_nonneg rsi_gains_nonneg) (auto simp: length_rsi_gains)
  moreover have "0 \<le> rsi_avgLoss closes period i"
    unfolding rsi_avgLoss_def using p pi i
    by (intro rsi_avg_nonneg rsi_losses_nonneg) (auto simp: length_rsi_losses)
  ultimately show ?thesis using rsi_value_bounds req by blast
qed

lemma store_seed_nonneg:
  "0 \<le> fst st \<and> 0 \<le> snd st \<Longrightarrow>
   0 \<le> fst (fold (store_rsi_seed_step changes) is st) \<and> 0 \<le> snd (fold (store_rsi_seed_step changes) is st)"
proof (induction "is" arbitrary: st)
  case Nil
  then show ?case by simp
next
  case (Cons i "is")
  obtain g l where st: "st = (g, l)" by (cases st)
  have "0 \<le> fst (store_rsi_seed_step changes i st) \<and> 0 \<le> snd (store_rsi_seed_step changes i st)"
    using Cons.prems by (auto simp: st)
  then show ?case using Cons.IH by simp
qed

lemma store_smooth_step_nonneg:
  assumes "1 \<le> period" "0 \<le> g" "0 \<le> l"
  shows "0 \<le> fst (store_rsi_smooth_step changes period i (g, l)) \<and>
         0 \<le> snd (store_rsi_smooth_step changes period i (g, l))"
proof -
  have a: "0 \<le> g * (real period - 1)" and b: "0 \<le> l * (real period - 1)"
    using assms by (auto intro!: mult_nonneg_nonneg)
  show ?thesis
  proof (cases "changes ! i > 0")
    case True
    then have "0 \<le> g * (real period - 1) + changes ! i" using a by linarith
    then show ?thesis using True b by (simp del: of_nat_diff)
  next
    case False
    then have "0 \<le> l * (real period - 1) + \<bar>changes ! i\<bar>" using b by linarith
    then show ?thesis using False a by (simp del: of_nat_diff)
  qed
qed

lemma store_smooth_nonneg:
  "1 \<le> period \<Longrightarrow> 0 \<le> fst st \<and> 0 \<le> snd st \<Longrightarrow>
   0 \<le> fst (fold (store_rsi_smooth_step changes period) is st) \<and>
   0 \<le> snd (fold (store_rsi_smooth_step changes period) is st)"
proof (induction "is" arbitrary: st)
  case Nil
  then show ?case by simp
next
  case (Cons i "is")
  obtain g l where st: "st = (g, l)" by (cases st)
  have "0 \<le> fst (store_rsi_smooth_step changes period i st) \<and>
        0 \<le> snd (store_rsi_smooth_step changes period i st)"
    unfolding st using Cons.prems store_smooth_step_nonneg [of period g l changes i] by (simp add: st)
  then show ?case using Cons.IH Cons.prems(1) by simp
qed

lemma store_rsi_averages_nonneg:
  assumes "1 \<le> period"
  shows "0 \<le> fst (store_rsi_averages closes period) \<and> 0 \<le> snd (store_rsi_averages closes period)"
proof -
  define seed where "seed = fold (store_rsi_seed_step (store_changes closes)) [0..<period] (0, 0)"
  have s: "0 \<le> fst seed \<and> 0 \<le> snd seed"
    unfolding seed_def by (rule store_seed_nonneg) simp
  have "0 \<le> fst (fst seed / real period, snd seed / real period) \<and>
        0 \<le> snd (fst seed / real period, snd seed / real period)"
    using s by simp
  from store_smooth_nonneg [OF assms this]
  show ?thesis
    by (simp add: store_rsi_averages_def Let_def seed_def [symmetric] case_prod_beta)
qed

lemma store_calculateRSI_value:
  "ir_value (store_calculateRSI closes period) =
     (if length closes < period + 1 then 50
      else rsi_value (fst (store_rsi_averages closes period)) (snd (store_rsi_averages closes period)))"
  by (simp add: store_calculateRSI_def rsi_value_def Let_def case_prod_beta)

lemma store_calculateRSI_in_range:
  assumes "1 \<le> period"
  shows "0 \<le> ir_value (store_calculateRSI closes period) \<and> ir_value (store_calculateRSI closes period) \<le> 100"
  using store_rsi_averages_nonneg [OF assms, of closes]
        rsi_value_bounds [of "fst (store_rsi_averages closes period)" "snd (store_rsi_averages closes period)"]
  by (simp add: store_calculateRSI_value)

text \<open>
  Claim C1. For every close series and every period of at least 1: each number in the
  array returned by \<open>calculateRSI\<close> lies in \<open>[0, 100]\<close>, and at every index whose
  computed average loss is 0 the entry is exactly 100. The single-value variant of the
  store module obeys the same bounds and the same pin to 100.
\<close>

theorem calculateRSI_bounds:
  assumes "1 \<le> period"
  shows "(\<forall>i r. i < length closes \<and> calculateRSI closes period ! i = Some r \<longrightarrow> 0 \<le> r \<and> r \<le> 100) \<and>
         (\<forall>i. period \<le> i \<and> i < length closes \<and> rsi_avgLoss closes period i = 0 \<longrightarrow>
                calculateRSI closes period ! i = Some 100) \<and>
         0 \<le> ir_value (store_calculateRSI closes period) \<and>
         ir_value (store_calculateRSI closes period) \<le> 100 \<and>
         (period + 1 \<le> length closes \<and> snd (store_rsi_averages closes period) = 0 \<longrightarrow>
            ir_value (store_calculateRSI closes period) = 100)"
  using calculateRSI_in_range [OF assms] store_calculateRSI_in_range [OF assms, of closes]
  by (auto simp: nth_calculateRSI store_calculateRSI_value rsi_value_zero_loss)

theorem calculateRSI_bounds_witness:
  "(1::nat) \<le> 2 \<and>
   calculateRSI [1, 2, 1, 3] 2 ! 3 = Some (600 / 7) \<and> (0::real) \<le> 600 / 7 \<and> (600 / 7 :: real) \<le> 100 \<and>
   rsi_avgLoss [1, 2, 3, 4] 2 3 = 0 \<and> calculateRSI [1, 2, 3, 4] 2 ! 3 = Some 100 \<and>
   snd (store_rsi_averages [1, 2, 3, 4] 2) = 0 \<and> ir_value (store_calculateRSI [1, 2, 3, 4] 2) = 100"
proof -
  have e: "calculateRSI [1, 2, 1, 3] 2 ! 3 = Some (600 / 7)" by code_simp
  have z: "rsi_avgLoss [1, 2, 3, 4] 2 3 = 0" by code_simp
  have s: "snd (store_rsi_averages [1, 2, 3, 4] 2) = 0" by code_simp
  show ?thesis
    using calculateRSI_bounds [of 2 "[1, 2, 1, 3]"] calculateRSI_bounds [of 2 "[1, 2, 3, 4]"] e z s
    by simp
qed

text \<open>
  Claim C2 says that, in the full-array calculator, the average used at an index
  \<open>i > period\<close> is the smoothed average carried forward from index \<open>i - 1\<close>. The
  code does not carry it: at every such index it recomputes \<open>prevAvgGain\<close> and
  \<open>prevAvgLoss\<close> as plain means of the last \<open>period\<close> entries (a window that already
  contains the current entry) and smooths those once. The theorem evaluates the code and
  the specification's recurrence on sixteen closes with the default period 14: at index
  15 the code returns 63.6 where the recurrence, and the single-value variant of the
  store module, give 59.375.
\<close>

theorem calculateRSI_smoothing_restarts:
  "calculateRSI [10, 11, 10, 11, 10, 11, 10, 11, 10, 11, 10, 11, 10, 11, 10, 13] 14 ! 15 = Some (318 / 5) \<and>
   wilder_rsi_spec [10, 11, 10, 11, 10, 11, 10, 11, 10, 11, 10, 11, 10, 11, 10, 13] 14 15 = 475 / 8 \<and>
   ir_value (store_calculateRSI [10, 11, 10, 11, 10, 11, 10, 11, 10, 11, 10, 11, 10, 11, 10, 13] 14) = 475 / 8 \<and>
   rsi_avgGain [10, 11, 10, 11, 10, 11, 10, 11, 10, 11, 10, 11, 10, 11, 10, 13] 14 15 = 159 / 196 \<and>
   wilder_avg_spec (rsi_gains [10, 11, 10, 11, 10, 11, 10, 11, 10, 11, 10, 11, 10, 11, 10, 13]) 14 1 = 19 / 28"
  by code_simp

section \<open>Properties of the route's backtest\<close>




subsection \<open>Equity curve\<close>

lemma equityCurve_branches [simp]:
  "equityCurve (stop_loss_exit candle st) = equityCurve st"
  "equityCurve (take_profit_exit candle st) = equityCurve st"
  "equityCurve (try_buy config candle sigs st) = equityCurve st"
  "equityCurve (try_sell candle sigs st) = equityCurve st"
  "equityCurve (close_remaining candles st) = equityCurve st"
  "equityCurve (mark_equity candle st) = equityCurve st @ [(timestamp candle, capital st + position st * close candle)]"
  by (simp_all add: stop_loss_exit_def take_profit_exit_def try_buy_def try_sell_def
      close_remaining_def mark_equity_def Let_def)



subsection \<open>Counters and the trade log\<close>

lemma t_type_sell_trade [simp]: "t_type (sell_trade ts p why st) = SELL"
  by (simp add: sell_trade_def Let_def)

lemma t_pnl_sell_trade [simp]: "t_pnl (sell_trade ts p why st) = Some ((p - entryPrice st) * position st)"
  by (simp add: sell_trade_def Let_def)

lemma sells_snoc [simp]:
  "sells (ts @ [t]) = (if t_type t = SELL then Suc (sells ts) else sells ts)"
  by (simp add: sells_def)









subsection \<open>Lengths and entries of the indicator series\<close>

lemma length_dip_closes: "length dip_closes = 51"
  by (simp add: dip_closes_def)

lemma closes_flat_candles: "map close (flat_candles ts ps) = ps"
  by (induction ps arbitrary: ts) (simp_all add: flat_candle_def)

lemma length_flat_candles: "length (flat_candles ts ps) = length ps"
  by (induction ps arbitrary: ts) simp_all

lemma nth_flat_candles:
  "i < length ps \<Longrightarrow> flat_candles ts ps ! i = flat_candle (ts + int i) (ps ! i)"
proof (induction ps arbitrary: ts i)
  case Nil
  then show ?case by simp
next
  case (Cons p ps)
  then show ?case by (cases i) (simp_all add: algebra_simps)
qed

lemma length_calculateRSI: "length (calculateRSI closes period) = length closes"
  by (simp add: calculateRSI_def)

lemma length_calculateStdDev: "length (calculateStdDev data period) = length data"
  by (simp add: calculateStdDev_def)

lemma length_histogram: "length (histogram (calculateMACD closes)) = length closes"
  by (simp add: calculateMACD_def Let_def)

lemma length_bb_lower: "length (bb_lower (calculateBollingerBands closes period m)) = length closes"
  by (simp add: calculateBollingerBands_def Let_def)

lemma nth_bb_lower:
  "i < length closes \<Longrightarrow> bb_lower (calculateBollingerBands closes period m) ! i =
     fst (snd (bollinger_row (calculateSMA closes period ! i) (calculateStdDev closes period ! i) m))"
  by (simp add: calculateBollingerBands_def Let_def)

lemma nth_calculateSMA:
  "i < length data \<Longrightarrow> calculateSMA data period ! i =
     (if i + 1 < period then None
      else Some (sum_list (slice (i + 1 - period) (i + 1) data) / real period))"
  by (simp add: calculateSMA_def)

lemma nth_calculateStdDev:
  "i < length data \<Longrightarrow> calculateStdDev data period ! i =
     (if i + 1 < period then None
      else (let sl = slice (i + 1 - period) (i + 1) data;
                mean = sum_list sl / real period;
                squaredDiffs = map (\<lambda>v. (v - mean)\<^sup>2) sl;
                variance = sum_list squaredDiffs / real period
            in Some (sqrt variance)))"
  by (simp add: calculateStdDev_def)

lemma sqrt_9: "sqrt 9 = 3"
  using real_sqrt_abs [of 3] by simp

subsection \<open>The sample request\<close>

lemma dip_rsi_50: "calculateRSI dip_closes 14 ! 50 = Some 0"
  by (simp add: nth_calculateRSI length_dip_closes rsi_avgGain_def rsi_avgLoss_def rsi_avg_def
      rsi_gains_def rsi_losses_def rsi_value_def slice_def Let_def upt_conv_Cons
      dip_closes_def replicate_numeral)

lemma dip_hist: "histogram (calculateMACD dip_closes) ! 49 = Some (- (224 / 351)) \<and>
   histogram (calculateMACD dip_closes) ! 50 = Some (- (618016 / 616005))"
  by (simp add: calculateMACD_def macd_line_def diff_or_null_def calculateEMA_def ema_loop_def
      slice_def upt_conv_Cons Let_def dip_closes_def replicate_numeral)

lemma dip_lower_50: "bb_lower (calculateBollingerBands dip_closes 20 2) ! 50 = Some 93"
  by (simp add: nth_bb_lower nth_calculateSMA nth_calculateStdDev length_dip_closes
      bollinger_row_def slice_def Let_def dip_closes_def replicate_numeral sqrt_9)

lemma dip_closes_50: "dip_closes ! 50 = 90"
  by (simp add: dip_closes_def nth_append)

lemma length_dip_candles: "length dip_candles = 51"
  by (simp add: dip_candles_def length_flat_candles length_dip_closes)

lemma dip_candles_50: "dip_candles ! 50 = flat_candle 50 90"
  by (simp add: dip_candles_def nth_flat_candles length_dip_closes dip_closes_50)

lemma last_dip_candles: "last dip_candles = flat_candle 50 90"
proof -
  have "dip_candles \<noteq> []" using length_dip_candles by auto
  then have "last dip_candles = dip_candles ! 50"
    by (simp add: last_conv_nth length_dip_candles)
  then show ?thesis by (simp add: dip_candles_50)
qed

lemma dip_route: "backtest_route dip_candles (default_config sz) = Inr (dip_result sz)"
  by (simp add: backtest_route_def length_dip_candles dip_result_def Let_def)
     (simp add: dip_candles_def closes_flat_candles)

text \<open>With 51 candles the loop runs once, at index 50.\<close>

lemma dip_loop:
  "simulate dip_candles rsiValues macdResult bollinger config 51 =
     backtest_step dip_candles rsiValues macdResult bollinger config 50 (initial_state config)"
  by (simp add: simulate_def)

lemmas dip_eval =
  backtest_step_def Let_def at_index_def length_calculateRSI length_histogram length_bb_lower
  length_dip_closes dip_rsi_50 dip_hist dip_lower_50 dip_candles_50 last_dip_candles
  flat_candle_def mark_equity_def initial_state_def default_config_def buy_signals_def
  sell_signals_def try_buy_def try_sell_def close_remaining_def sell_trade_def summarise_def
  realized_pnl_def

lemma dip_result_short:
  "totalReturn (dip_result (- 10)) = 1000 \<and> map t_type (r_trades (dip_result (- 10))) = [BUY] \<and>
   realized_pnl (r_trades (dip_result (- 10))) = 0"
  unfolding dip_result_def runBacktest_def final_state_def length_dip_candles dip_loop
  by (simp add: dip_eval)


subsection \<open>The closes of the sample request are positive\<close>

lemma flat_candles_close_pos:
  "list_all (\<lambda>c. 0 < close c) (flat_candles ts ps) = list_all (\<lambda>p. 0 < p) ps"
  by (induction ps arbitrary: ts) (simp_all add: flat_candle_def)

lemma list_all_replicate: "list_all P (replicate n x) = (n = 0 \<or> P x)"
  by (induction n) auto

lemma dip_candles_pos: "list_all (\<lambda>c. 0 < close c) dip_candles"
  by (simp add: dip_candles_def flat_candles_close_pos dip_closes_def list_all_replicate)

section \<open>No lookahead\<close>

lemma slice_take: "b \<le> n \<Longrightarrow> slice a b (take n xs) = slice a b xs"
  by (simp add: slice_def drop_take min_def)

lemma map_upt_take:
  assumes "n \<le> m" and "\<And>i. i < n \<Longrightarrow> f i = g i"
  shows "map f [0..<n] = take n (map g [0..<m])"
proof -
  have "take n (map g [0..<m]) = map g [0..<n]"
    using assms(1) by (simp add: take_map)
  then show ?thesis using assms(2) by simp
qed

lemma at_index_take: "j < n \<Longrightarrow> at_index (take n xs) j = at_index xs j"
  by (simp add: at_index_def)

subsection \<open>RSI reads only the closes up to the index\<close>

lemma rsi_gains_take:
  "n \<le> length closes \<Longrightarrow> rsi_gains (take n closes) = take (n - 1) (rsi_gains closes)"
  by (auto simp: rsi_gains_def list_eq_iff_nth_eq Let_def)

lemma rsi_losses_take:
  "n \<le> length closes \<Longrightarrow> rsi_losses (take n closes) = take (n - 1) (rsi_losses closes)"
  by (auto simp: rsi_losses_def list_eq_iff_nth_eq Let_def)

lemma rsi_avg_take:
  assumes "period \<le> j" "j \<le> m"
  shows "rsi_avg (take m xs) period j = rsi_avg xs period j"
proof (cases "j = period")
  case True
  then show ?thesis using assms by (simp add: rsi_avg_def slice_take)
next
  case False
  then have "j - 1 < m" using assms by simp
  then show ?thesis using False assms by (simp add: rsi_avg_def slice_take Let_def)
qed

lemma calculateRSI_take:
  assumes "n \<le> length closes"
  shows "calculateRSI (take n closes) period = take n (calculateRSI closes period)"
proof (rule nth_equalityI)
  show "length (calculateRSI (take n closes) period) = length (take n (calculateRSI closes period))"
    using assms by (simp add: length_calculateRSI)
next
  fix j
  assume "j < length (calculateRSI (take n closes) period)"
  then have j: "j < n" using assms by (simp add: length_calculateRSI)
  then have jm: "j \<le> n - 1" by simp
  have "rsi_avg (take (n - 1) xs) period j = rsi_avg xs period j" if "\<not> j < period" for xs
    using that jm by (intro rsi_avg_take) auto
  then show "calculateRSI (take n closes) period ! j = take n (calculateRSI closes period) ! j"
    using j assms
    by (simp add: nth_calculateRSI rsi_avgGain_def rsi_avgLoss_def rsi_gains_take rsi_losses_take)
qed

subsection \<open>EMA reads only the values up to the index\<close>

lemma ema_step_take:
  "i < n \<Longrightarrow> ema_step (take n data) period i st = ema_step data period i st"
  by (cases st) (auto simp: slice_take Let_def)

lemma ema_loop_take:
  "m \<le> n \<Longrightarrow> ema_loop (take n data) period m = ema_loop data period m"
  by (induction m) (simp_all add: ema_loop_0 ema_loop_Suc ema_step_take)

lemma ema_loop_prefix:
  "take m (fst (ema_loop data period (m + k))) = fst (ema_loop data period m)"
proof (induction k)
  case 0
  show ?case using ema_loop_shape [of data period m] by simp
next
  case (Suc k)
  obtain v where "fst (ema_loop data period (Suc (m + k))) = fst (ema_loop data period (m + k)) @ [v]"
    using ema_step_fst [of data period "m + k" "ema_loop data period (m + k)"]
    by (auto simp: ema_loop_Suc)
  then show ?case
    using Suc ema_loop_shape [of data period "m + k"] by simp
qed

lemma calculateEMA_take:
  assumes "n \<le> length data"
  shows "calculateEMA (take n data) period = take n (calculateEMA data period)"
proof -
  have "calculateEMA (take n data) period = fst (ema_loop data period n)"
    using assms by (simp add: calculateEMA_def ema_loop_take min_def)
  also have "\<dots> = take n (fst (ema_loop data period (n + (length data - n))))"
    by (simp only: ema_loop_prefix)
  finally show ?thesis using assms by (simp add: calculateEMA_def)
qed

subsection \<open>MACD and Bollinger Bands read only the closes up to the index\<close>

lemma length_macd_line: "length (macd_line closes) = length closes"
  by (simp add: macd_line_def Let_def)

lemma macd_line_take:
  assumes "n \<le> length closes"
  shows "macd_line (take n closes) = take n (macd_line closes)"
proof -
  have len: "length (take n closes) = n" using assms by simp
  show ?thesis
    unfolding macd_line_def Let_def len calculateEMA_take [OF assms]
    by (rule map_upt_take) (use assms in simp_all)
qed

lemma histogram_take:
  assumes "n \<le> length closes"
  shows "histogram (calculateMACD (take n closes)) = take n (histogram (calculateMACD closes))"
proof -
  have len: "length (take n closes) = n" using assms by simp
  have sig: "calculateEMA (map (\<lambda>v. case v of None \<Rightarrow> 0 | Some x \<Rightarrow> x) (take n (macd_line closes))) 9 =
        take n (calculateEMA (map (\<lambda>v. case v of None \<Rightarrow> 0 | Some x \<Rightarrow> x) (macd_line closes)) 9)"
    using assms by (simp add: take_map [symmetric] calculateEMA_take length_macd_line)
  have "map (\<lambda>i. diff_or_null (take n (macd_line closes) ! i)
               (take n (calculateEMA (map (\<lambda>v. case v of None \<Rightarrow> 0 | Some x \<Rightarrow> x)
                                       (macd_line closes)) 9) ! i)) [0..<n] =
        take n (map (\<lambda>i. diff_or_null (macd_line closes ! i)
               (calculateEMA (map (\<lambda>v. case v of None \<Rightarrow> 0 | Some x \<Rightarrow> x)
                                (macd_line closes)) 9 ! i)) [0..<length closes])"
    by (rule map_upt_take) (use assms in simp_all)
  then show ?thesis
    using assms by (simp add: calculateMACD_def Let_def macd_line_take [OF assms] sig min_absorb2)
qed

lemma calculateSMA_take:
  assumes "n \<le> length data"
  shows "calculateSMA (take n data) period = take n (calculateSMA data period)"
proof -
  have len: "length (take n data) = n" using assms by simp
  show ?thesis
    unfolding calculateSMA_def len
    by (rule map_upt_take) (use assms in \<open>simp_all add: slice_take\<close>)
qed

lemma calculateStdDev_take:
  assumes "n \<le> length data"
  shows "calculateStdDev (take n data) period = take n (calculateStdDev data period)"
proof -
  have len: "length (take n data) = n" using assms by simp
  show ?thesis
    unfolding calculateStdDev_def len
    by (rule map_upt_take) (use assms in \<open>simp_all add: slice_take\<close>)
qed

lemma bb_lower_take:
  assumes "n \<le> length closes"
  shows "bb_lower (calculateBollingerBands (take n closes) period m) =
           take n (bb_lower (calculateBollingerBands closes period m))"
proof -
  have len: "length (take n closes) = n" using assms by simp
  have "map (\<lambda>i. fst (snd (bollinger_row (take n (calculateSMA closes period) ! i)
                                (take n (calculateStdDev closes period) ! i) m))) [0..<n] =
        take n (map (\<lambda>i. fst (snd (bollinger_row (calculateSMA closes period ! i)
                                (calculateStdDev closes period ! i) m))) [0..<length closes])"
    by (rule map_upt_take) (use assms in simp_all)
  then show ?thesis
    using assms
    by (simp add: calculateBollingerBands_def Let_def calculateSMA_take [OF assms]
        calculateStdDev_take [OF assms] min_absorb2 comp_def)
qed

subsection \<open>The simulation reads only the candles up to the index\<close>

lemma route_step_take:
  assumes "j < n" "n \<le> length candles"
  shows "backtest_step (take n candles) (calculateRSI (map close (take n candles)) 14)
           (calculateMACD (map close (take n candles)))
           (calculateBollingerBands (map close (take n candles)) 20 2) config j st =
         backtest_step candles (calculateRSI (map close candles) 14)
           (calculateMACD (map close candles))
           (calculateBollingerBands (map close candles) 20 2) config j st"
proof -
  have n: "n \<le> length (map close candles)" using assms by simp
  have j1: "j - 1 < n" using assms by simp
  show ?thesis
    using assms
    by (simp add: backtest_step_def take_map [symmetric] calculateRSI_take [OF n]
        histogram_take [OF n] bb_lower_take [OF n] at_index_take j1)
qed

lemma route_state_take:
  assumes "m \<le> n" "n \<le> length candles"
  shows "route_state (take n candles) config m = route_state candles config m"
proof -
  have "fold (backtest_step (take n candles) (calculateRSI (map close (take n candles)) 14)
           (calculateMACD (map close (take n candles)))
           (calculateBollingerBands (map close (take n candles)) 20 2) config) [50..<m]
          (initial_state config) =
        fold (backtest_step candles (calculateRSI (map close candles) 14)
           (calculateMACD (map close candles))
           (calculateBollingerBands (map close candles) 20 2) config) [50..<m]
          (initial_state config)"
  proof (rule fold_cong [OF refl refl])
    fix j
    assume "j \<in> set [50..<m]"
    then have "j < n" using assms by simp
    then show "backtest_step (take n candles) (calculateRSI (map close (take n candles)) 14)
           (calculateMACD (map close (take n candles)))
           (calculateBollingerBands (map close (take n candles)) 20 2) config j =
        backtest_step candles (calculateRSI (map close candles) 14)
           (calculateMACD (map close candles))
           (calculateBollingerBands (map close candles) 20 2) config j"
      using route_step_take [OF _ assms(2)] by blast
  qed
  then show ?thesis by (simp add: route_state_def simulate_def Let_def)
qed

lemma store_step_take:
  assumes "j < n"
  shows "store_step (take n data) oversold overbought j st = store_step data oversold overbought j st"
  using assms by (simp add: store_step_def slice_take)

lemma store_loop_take:
  assumes "m \<le> n"
  shows "store_loop (take n data) startCapital oversold overbought m =
         store_loop data startCapital oversold overbought m"
proof -
  have "fold (store_step (take n data) oversold overbought) [50..<m] (store_initial startCapital) =
        fold (store_step data oversold overbought) [50..<m] (store_initial startCapital)"
  proof (rule fold_cong [OF refl refl])
    fix j
    assume "j \<in> set [50..<m]"
    then have "j < n" using assms by simp
    then show "store_step (take n data) oversold overbought j = store_step data oversold overbought j"
      using store_step_take by blast
  qed
  then show ?thesis by (simp add: store_loop_def)
qed

text \<open>
  After its loop the route's run on a truncated series closes an open position; that
  adds one SELL entry, ``End of backtest'', behind the entries of the loop.
\<close>

lemma close_remaining_trades:
  "trades (close_remaining candles st) =
     trades st @ (if position st > 0
                  then [sell_trade (timestamp (last candles)) (close (last candles))
                          ''End of backtest'' st]
                  else [])"
  by (simp add: close_remaining_def Let_def)

text \<open>
  Claim C7. For every candle series and every index \<open>i\<close> inside it, the run on the first
  \<open>i + 1\<close> candles reaches, after iteration \<open>i\<close> of its loop, the same state as the
  run on the full series, and iteration \<open>i\<close> appends the same entries (type, price,
  quantity) to the trade log. This holds for the API route, whose indicator series are
  computed over all closes before the loop, and for the helper of the store module.
  The loop index starts at 50, so the statement speaks about the indices from 50 on.
\<close>

theorem backtest_no_lookahead:
  assumes "i < length candles"
  shows "route_state (take (Suc i) candles) config (Suc i) = route_state candles config (Suc i) \<and>
         route_decision (take (Suc i) candles) config i = route_decision candles config i \<and>
         store_loop (take (Suc i) candles) startCapital oversold overbought (Suc i) =
           store_loop candles startCapital oversold overbought (Suc i) \<and>
         store_decision (take (Suc i) candles) startCapital oversold overbought i =
           store_decision candles startCapital oversold overbought i"
proof -
  have n: "Suc i \<le> length candles" using assms by simp
  show ?thesis
    by (simp add: route_decision_def store_decision_def route_state_take [OF _ n] store_loop_take)
qed

lemma route_state_50: "route_state candles config 50 = initial_state config"
  by (simp add: route_state_def simulate_def)

lemma dip_decision: "map t_type (route_decision dip_candles (default_config 10) 50) = [BUY]"
proof -
  have "route_state dip_candles (default_config 10) 51 =
        backtest_step dip_candles (calculateRSI dip_closes 14) (calculateMACD dip_closes)
          (calculateBollingerBands dip_closes 20 2) (default_config 10) 50
          (initial_state (default_config 10))"
    by (simp add: route_state_def dip_loop) (simp add: dip_candles_def closes_flat_candles)
  then show ?thesis
    by (simp add: route_decision_def route_state_50) (simp add: dip_eval)
qed

text \<open>
  The sample candles followed by one more candle: the decision at index 50 is the BUY of
  the run on the first 51 candles.
\<close>

theorem backtest_no_lookahead_witness:
  "50 < length (dip_candles @ [flat_candle 51 95]) \<and>
   take 51 (dip_candles @ [flat_candle 51 95]) = dip_candles \<and>
   route_decision (dip_candles @ [flat_candle 51 95]) (default_config 10) 50 =
     route_decision dip_candles (default_config 10) 50 \<and>
   map t_type (route_decision (dip_candles @ [flat_candle 51 95]) (default_config 10) 50) = [BUY]"
proof -
  have len: "50 < length (dip_candles @ [flat_candle 51 95])"
    by (simp add: length_dip_candles)
  have tk: "take (Suc 50) (dip_candles @ [flat_candle 51 95]) = dip_candles"
    by (simp add: length_dip_candles)
  have "route_decision (dip_candles @ [flat_candle 51 95]) (default_config 10) 50 =
        route_decision dip_candles (default_config 10) 50"
    using backtest_no_lookahead [OF len, of "default_config 10"] by (simp only: tk)
  then show ?thesis using len tk dip_decision by simp
qed

section \<open>The shape of the backtest result\<close>

subsection \<open>The sample request followed by one more candle\<close>

text \<open>The indicators at the indices up to 50 are those of the sample request.\<close>

lemma dip_extended_rsi_50: "calculateRSI (dip_closes @ [x]) 14 ! 50 = Some 0"
proof -
  have "calculateRSI (take 51 (dip_closes @ [x])) 14 = take 51 (calculateRSI (dip_closes @ [x]) 14)"
    by (rule calculateRSI_take) (simp add: length_dip_closes)
  then have "calculateRSI dip_closes 14 ! 50 = calculateRSI (dip_closes @ [x]) 14 ! 50"
    by (simp add: length_dip_closes)
  then show ?thesis by (simp add: dip_rsi_50)
qed

lemma dip_extended_hist:
  "histogram (calculateMACD (dip_closes @ [x])) ! 49 = Some (- (224 / 351)) \<and>
   histogram (calculateMACD (dip_closes @ [x])) ! 50 = Some (- (618016 / 616005))"
proof -
  have "histogram (calculateMACD (take 51 (dip_closes @ [x]))) =
        take 51 (histogram (calculateMACD (dip_closes @ [x])))"
    by (rule histogram_take) (simp add: length_dip_closes)
  then have "histogram (calculateMACD dip_closes) ! 49 = histogram (calculateMACD (dip_closes @ [x])) ! 49"
    "histogram (calculateMACD dip_closes) ! 50 = histogram (calculateMACD (dip_closes @ [x])) ! 50"
    by (simp_all add: length_dip_closes)
  then show ?thesis using dip_hist by simp
qed

lemma dip_extended_lower_50:
  "bb_lower (calculateBollingerBands (dip_closes @ [x]) 20 2) ! 50 = Some 93"
proof -
  have "bb_lower (calculateBollingerBands (take 51 (dip_closes @ [x])) 20 2) =
        take 51 (bb_lower (calculateBollingerBands (dip_closes @ [x]) 20 2))"
    by (rule bb_lower_take) (simp add: length_dip_closes)
  then have "bb_lower (calculateBollingerBands dip_closes 20 2) ! 50 =
             bb_lower (calculateBollingerBands (dip_closes @ [x]) 20 2) ! 50"
    by (simp add: length_dip_closes)
  then show ?thesis by (simp add: dip_lower_50)
qed

lemma dip_extended_candles:
  "(dip_candles @ [c]) ! 50 = flat_candle 50 90" "(dip_candles @ [c]) ! 51 = c"
  "last (dip_candles @ [c]) = c" "length (dip_candles @ [c]) = 52"
  by (simp_all add: nth_append length_dip_candles dip_candles_50)

text \<open>No exit signal while the histogram was negative one candle earlier.\<close>

lemma sell_signals_falling:
  "r \<le> rsiOverbought config \<Longrightarrow> ph < 0 \<Longrightarrow> sell_signals config (Some r) h (Some ph) = []"
  by (cases h) (simp_all add: sell_signals_def)


subsection \<open>A position closed by its stop\<close>






subsection \<open>The equity curve and the number of trades\<close>

text \<open>The store module's \<open>runBacktest\<close> is its loop followed by the summary.\<close>

lemma store_runBacktest_summary:
  "50 \<le> length data \<Longrightarrow>
   store_runBacktest data startCapital oversold overbought =
     store_summary data startCapital
       (store_loop data startCapital oversold overbought (length data))"
  unfolding store_runBacktest_def store_summary_def Let_def
  by (simp only: not_less [symmetric] if_False)




section \<open>Conservation of capital in the route's backtest\<close>

subsection \<open>With no rounding the definitions are those of the exact simulator\<close>

lemma reduce_add_exact: "reduce_add (\<lambda>x. x) xs = sum_list xs"
proof -
  have "foldl (\<lambda>a b. a + b) a xs = a + sum_list xs" for a :: real
    by (induction xs arbitrary: a) simp_all
  then show ?thesis by (simp add: reduce_add_def)
qed

lemma sell_trade_fl_exact: "sell_trade_fl (\<lambda>x. x) = sell_trade"
  by (intro ext) (simp add: sell_trade_fl_def sell_trade_def)

lemma mark_equity_fl_exact: "mark_equity_fl (\<lambda>x. x) = mark_equity"
  by (intro ext) (simp add: mark_equity_fl_def mark_equity_def)

lemma stop_loss_exit_fl_exact: "stop_loss_exit_fl (\<lambda>x. x) = stop_loss_exit"
  by (intro ext) (simp add: stop_loss_exit_fl_def stop_loss_exit_def sell_trade_fl_exact)

lemma take_profit_exit_fl_exact: "take_profit_exit_fl (\<lambda>x. x) = take_profit_exit"
  by (intro ext) (simp add: take_profit_exit_fl_def take_profit_exit_def sell_trade_fl_exact)

lemma try_buy_fl_exact: "try_buy_fl (\<lambda>x. x) = try_buy"
  by (intro ext) (simp add: try_buy_fl_def try_buy_def)

lemma try_sell_fl_exact: "try_sell_fl (\<lambda>x. x) = try_sell"
  by (intro ext) (simp add: try_sell_fl_def try_sell_def sell_trade_fl_exact)

lemma close_remaining_fl_exact: "close_remaining_fl (\<lambda>x. x) = close_remaining"
  by (intro ext) (simp add: close_remaining_fl_def close_remaining_def sell_trade_fl_exact)

lemma backtest_step_fl_exact: "backtest_step_fl (\<lambda>x. x) = backtest_step"
  by (intro ext)
    (simp only: backtest_step_fl_def backtest_step_def mark_equity_fl_exact
      stop_loss_exit_fl_exact take_profit_exit_fl_exact try_buy_fl_exact try_sell_fl_exact)

lemma sharpe_of_trades_fl_exact: "sharpe_of_trades_fl (\<lambda>x. x) = sharpe_of_trades"
  by (intro ext) (simp only: sharpe_of_trades_fl_def sharpe_of_trades_def reduce_add_exact)

lemma summarise_fl_exact: "summarise_fl (\<lambda>x. x) = summarise"
  by (intro ext) (simp add: summarise_fl_def summarise_def sharpe_of_trades_fl_exact)

lemma runBacktest_fl_exact: "runBacktest_fl (\<lambda>x. x) = runBacktest"
  by (intro ext)
    (simp only: runBacktest_fl_def runBacktest_def final_state_fl_def final_state_def
      simulate_fl_def simulate_def backtest_step_fl_exact close_remaining_fl_exact
      summarise_fl_exact)

subsection \<open>The error of one purchase and of one sale\<close>

text \<open>
  In both lemmas \<open>u\<close> bounds the relative error of each rounded operation and \<open>k\<close> is
  the initial capital plus the profit logged so far. A purchase of \<open>q\<close> units for the
  amount \<open>p\<close> at the price \<open>e\<close> turns the cash \<open>c\<close> into \<open>c'\<close>; a sale of \<open>q\<close> units at
  the price \<open>s\<close> logs the proceeds \<open>T\<close> and the profit \<open>g\<close>.
\<close>

lemma scaled_half:
  fixes u x :: real
  assumes "u \<le> 1 / 2" "0 \<le> x"
  shows "u * x \<le> x / 2"
  using mult_right_mono [OF assms] by simp

lemma buy_drift:
  fixes c p q e c' u k :: real
  assumes u: "0 \<le> u" "u \<le> 1 / 2" and e: "0 < e"
    and c': "\<bar>c' - (c - p)\<bar> \<le> u * \<bar>c - p\<bar>"
    and q: "\<bar>q - p / e\<bar> \<le> u * \<bar>p / e\<bar>"
  shows "\<bar>c' + e * q - k\<bar> + 3 * u * \<bar>e * q\<bar> \<le> \<bar>c - k\<bar> + 9 * u * (\<bar>c\<bar> + \<bar>p\<bar>)"
proof -
  define P where "P = \<bar>p\<bar>"
  define C where "C = \<bar>c\<bar>"
  define Y where "Y = \<bar>e * q\<bar>"
  have nn: "0 \<le> P" "0 \<le> C" "0 \<le> Y" by (simp_all add: P_def C_def Y_def)
  have "e * q - p = e * (q - p / e)" using e by (simp add: algebra_simps)
  then have "\<bar>e * q - p\<bar> = e * \<bar>q - p / e\<bar>" using e by (simp add: abs_mult)
  also have "\<dots> \<le> e * (u * \<bar>p / e\<bar>)" using e by (intro mult_left_mono q) simp
  also have "\<dots> = u * P" using e by (simp add: abs_mult P_def)
  finally have cost: "\<bar>e * q - p\<bar> \<le> u * P" .
  have up: "u * P \<le> P / 2" by (rule scaled_half [OF u(2) nn(1)])
  have "Y \<le> P + \<bar>e * q - p\<bar>" unfolding Y_def P_def by linarith
  then have eq: "Y \<le> 3 / 2 * P" using cost up by linarith
  have uY: "u * Y \<le> u * (3 / 2 * P)" by (rule mult_left_mono [OF eq u(1)])
  have "\<bar>c - p\<bar> \<le> C + P" unfolding C_def P_def by linarith
  then have "u * \<bar>c - p\<bar> \<le> u * (C + P)" by (rule mult_left_mono [OF _ u(1)])
  then have cc: "\<bar>c' - (c - p)\<bar> \<le> u * C + u * P" using c' by (simp add: algebra_simps)
  have pos: "0 \<le> u * C" "0 \<le> u * P" using u nn by simp_all
  have "\<bar>c' + e * q - k\<bar> \<le> \<bar>c - k\<bar> + \<bar>c' - (c - p)\<bar> + \<bar>e * q - p\<bar>" by linarith
  then have "\<bar>c' + e * q - k\<bar> + 3 * (u * Y) \<le> \<bar>c - k\<bar> + 9 * (u * C + u * P)"
    using cc cost uY pos by (simp add: algebra_simps)
  then show ?thesis by (simp add: Y_def C_def P_def algebra_simps)
qed

lemma sell_drift:
  fixes c c' s e q T a g u k :: real
  assumes u: "0 \<le> u" "u \<le> 1 / 2"
    and T: "\<bar>T - s * q\<bar> \<le> u * \<bar>s * q\<bar>"
    and c': "\<bar>c' - (c + T)\<bar> \<le> u * \<bar>c + T\<bar>"
    and a: "\<bar>a - (s - e)\<bar> \<le> u * \<bar>s - e\<bar>"
    and g: "\<bar>g - a * q\<bar> \<le> u * \<bar>a * q\<bar>"
  shows "\<bar>c' - k - g\<bar> \<le> \<bar>c + e * q - k\<bar> + 3 * u * \<bar>e * q\<bar> + 9 * u * (\<bar>c\<bar> + \<bar>T\<bar>)"
proof -
  define X where "X = s * q"
  define Y where "Y = e * q"
  define A where "A = a * q"
  define mX where "mX = \<bar>X\<bar>"
  define mY where "mY = \<bar>Y\<bar>"
  define mA where "mA = \<bar>A\<bar>"
  define mT where "mT = \<bar>T\<bar>"
  define mC where "mC = \<bar>c\<bar>"
  define mD where "mD = \<bar>X - Y\<bar>"
  have nn: "0 \<le> mX" "0 \<le> mY" "0 \<le> mA" "0 \<le> mT" "0 \<le> mC" "0 \<le> mD"
    by (simp_all add: mX_def mY_def mA_def mT_def mC_def mD_def)
  have "A - (X - Y) = (a - (s - e)) * q" by (simp add: A_def X_def Y_def algebra_simps)
  then have "\<bar>A - (X - Y)\<bar> = \<bar>a - (s - e)\<bar> * \<bar>q\<bar>" by (simp add: abs_mult)
  also have "\<dots> \<le> (u * \<bar>s - e\<bar>) * \<bar>q\<bar>" by (intro mult_right_mono a) simp
  also have "\<dots> = u * mD" by (simp add: mD_def X_def Y_def abs_mult [symmetric] algebra_simps)
  finally have A: "\<bar>A - (X - Y)\<bar> \<le> u * mD" .
  have T': "\<bar>T - X\<bar> \<le> u * mX" using T by (simp add: X_def mX_def)
  have g': "\<bar>g - A\<bar> \<le> u * mA" using g by (simp add: A_def mA_def)
  have uX: "u * mX \<le> mX / 2" by (rule scaled_half [OF u(2) nn(1)])
  have "mX \<le> mT + \<bar>T - X\<bar>" unfolding mX_def mT_def by linarith
  then have X2: "mX \<le> 2 * mT" using uX T' by linarith
  have uXT: "u * mX \<le> u * (2 * mT)" by (rule mult_left_mono [OF X2 u(1)])
  have "mD \<le> mX + mY" unfolding mD_def mX_def mY_def by linarith
  then have uD: "u * mD \<le> u * (mX + mY)" by (rule mult_left_mono [OF _ u(1)])
  have uD2: "u * mD \<le> mD / 2" by (rule scaled_half [OF u(2) nn(6)])
  have "mA \<le> mD + \<bar>A - (X - Y)\<bar>" unfolding mA_def mD_def by linarith
  then have "mA \<le> 3 / 2 * mD" using A uD2 by linarith
  then have uA: "u * mA \<le> u * (3 / 2 * mD)" by (rule mult_left_mono [OF _ u(1)])
  have "\<bar>c + T\<bar> \<le> mC + mT" unfolding mC_def mT_def by linarith
  then have "u * \<bar>c + T\<bar> \<le> u * (mC + mT)" by (rule mult_left_mono [OF _ u(1)])
  then have cc: "\<bar>c' - (c + T)\<bar> \<le> u * (mC + mT)" using c' by linarith
  have pos: "0 \<le> u * mC" "0 \<le> u * mT" "0 \<le> u * mY" "0 \<le> u * mX" "0 \<le> u * mD"
    using u nn by simp_all
  have "c' - k - g = (c + Y - k) + (c' - (c + T)) + (T - X) + ((X - Y) - A) + (A - g)"
    by simp
  then have "\<bar>c' - k - g\<bar> \<le> \<bar>c + Y - k\<bar> + \<bar>c' - (c + T)\<bar> + \<bar>T - X\<bar> + \<bar>A - (X - Y)\<bar> + \<bar>g - A\<bar>"
    by linarith
  then have "\<bar>c' - k - g\<bar> \<le> \<bar>c + Y - k\<bar> + u * (mC + mT) + u * mX + u * mD + u * mA"
    using cc T' A g' by linarith
  moreover have "u * (mC + mT) + u * mX + u * mD + u * mA \<le> 3 * (u * mY) + 9 * (u * mC + u * mT)"
    using uA uD uXT pos by (simp add: algebra_simps)
  ultimately have "\<bar>c' - k - g\<bar> \<le> \<bar>c + Y - k\<bar> + 3 * (u * mY) + 9 * (u * mC + u * mT)"
    by linarith
  then show ?thesis by (simp add: Y_def mY_def mC_def mT_def algebra_simps)
qed

subsection \<open>The replayed cash account\<close>

lemma balances_not_Nil [simp]: "balances rnd c ts \<noteq> []"
  by (cases ts) simp_all

lemma last_balances_snoc:
  "last (balances rnd c (ts @ [t])) = cash_after rnd (last (balances rnd c ts)) t"
  by (induction ts arbitrary: c) simp_all

lemma turnover_snoc:
  "turnover rnd c (ts @ [t]) =
     turnover rnd c ts + (\<bar>last (balances rnd c ts)\<bar> + \<bar>t_total t\<bar>)"
  by (induction ts arbitrary: c) simp_all

lemma hd_balances [simp]: "hd (balances rnd c ts) = c"
  by (cases ts) simp_all

lemma turnover_bound:
  assumes "\<forall>b\<in>set (balances rnd c ts). \<bar>b\<bar> \<le> M" "\<forall>t\<in>set ts. \<bar>t_total t\<bar> \<le> M"
  shows "turnover rnd c ts \<le> 2 * M * real (length ts)"
  using assms
proof (induction ts arbitrary: c)
  case Nil
  then show ?case by simp
next
  case (Cons t ts)
  have "turnover rnd (cash_after rnd c t) ts \<le> 2 * M * real (length ts)"
    using Cons.prems by (intro Cons.IH) simp_all
  moreover have "\<bar>c\<bar> \<le> M" "\<bar>t_total t\<bar> \<le> M" using Cons.prems by simp_all
  ultimately show ?case by (simp add: algebra_simps)
qed

subsection \<open>Rounding with a bounded relative error\<close>

lemma rounding_nonneg:
  fixes rnd :: "real \<Rightarrow> real"
  assumes "\<And>x. \<bar>rnd x - x\<bar> \<le> u * \<bar>x\<bar>" "u \<le> 1 / 2" "0 \<le> x"
  shows "0 \<le> rnd x"
proof -
  have "u * x \<le> x / 2" by (rule scaled_half [OF assms(2,3)])
  then show ?thesis using assms(1) [of x] assms(3) by simp
qed

lemma unit_roundoff_nonneg:
  fixes rnd :: "real \<Rightarrow> real"
  assumes "\<And>x. \<bar>rnd x - x\<bar> \<le> u * \<bar>x\<bar>"
  shows "0 \<le> u"
  using assms [of 1] by simp

subsection \<open>The books stay within the rounding error of the turnover\<close>

lemma t_fields_sell_trade_fl [simp]:
  "t_type (sell_trade_fl rnd tm p why st) = SELL"
  "t_total (sell_trade_fl rnd tm p why st) = rnd (p * position st)"
  "t_pnl (sell_trade_fl rnd tm p why st) = Some (rnd (rnd (p - entryPrice st) * position st))"
  by (simp_all add: sell_trade_fl_def Let_def)

lemma realized_pnl_snoc:
  "realized_pnl (ts @ [t]) =
     realized_pnl ts + (if t_type t = SELL then (case t_pnl t of None \<Rightarrow> 0 | Some p \<Rightarrow> p) else 0)"
  by (simp add: realized_pnl_def)

lemma bookedD:
  assumes "booked rnd u config st"
  shows "0 \<le> position st"
    and "capital st = last (balances rnd (initialCapital config) (trades st))"
    and "\<bar>capital st + entryPrice st * position st
            - (initialCapital config + realized_pnl (trades st))\<bar>
           + 3 * u * \<bar>entryPrice st * position st\<bar>
         \<le> 9 * u * turnover rnd (initialCapital config) (trades st)"
  using assms unfolding booked_def by blast+

lemma bookedI:
  assumes "0 \<le> position st"
    and "capital st = last (balances rnd (initialCapital config) (trades st))"
    and "\<bar>capital st + entryPrice st * position st
            - (initialCapital config + realized_pnl (trades st))\<bar>
           + 3 * u * \<bar>entryPrice st * position st\<bar>
         \<le> 9 * u * turnover rnd (initialCapital config) (trades st)"
  shows "booked rnd u config st"
  using assms unfolding booked_def by blast

lemma booked_exit:
  fixes rnd :: "real \<Rightarrow> real"
  assumes R: "\<And>x. \<bar>rnd x - x\<bar> \<le> u * \<bar>x\<bar>" and u: "u \<le> 1 / 2"
    and st: "booked rnd u config st"
    and cap: "capital st' = rnd (capital st + rnd (s * position st))"
    and log: "trades st' = trades st @ [sell_trade_fl rnd tm s why st]"
    and pos: "position st' = 0"
  shows "booked rnd u config st'"
proof -
  define k where "k = initialCapital config + realized_pnl (trades st)"
  define T where "T = rnd (s * position st)"
  define g where "g = rnd (rnd (s - entryPrice st) * position st)"
  have u0: "0 \<le> u" by (rule unit_roundoff_nonneg [OF R])
  have bal: "capital st = last (balances rnd (initialCapital config) (trades st))"
    by (rule bookedD(2) [OF st])
  have old: "\<bar>capital st + entryPrice st * position st - k\<bar>
               + 3 * u * \<bar>entryPrice st * position st\<bar>
             \<le> 9 * u * turnover rnd (initialCapital config) (trades st)"
    unfolding k_def by (rule bookedD(3) [OF st])
  have "\<bar>capital st' - k - g\<bar>
        \<le> \<bar>capital st + entryPrice st * position st - k\<bar>
            + 3 * u * \<bar>entryPrice st * position st\<bar> + 9 * u * (\<bar>capital st\<bar> + \<bar>T\<bar>)"
    unfolding cap g_def T_def by (rule sell_drift [OF u0 u R R R R])
  then have "\<bar>capital st' - (k + g)\<bar>
        \<le> 9 * u * turnover rnd (initialCapital config) (trades st)
            + 9 * u * (\<bar>capital st\<bar> + \<bar>T\<bar>)"
    using old by (simp add: algebra_simps)
  moreover have "realized_pnl (trades st') = realized_pnl (trades st) + g"
    by (simp add: log realized_pnl_snoc g_def)
  moreover have "turnover rnd (initialCapital config) (trades st') =
      turnover rnd (initialCapital config) (trades st) + (\<bar>capital st\<bar> + \<bar>T\<bar>)"
    by (simp add: log turnover_snoc bal T_def)
  moreover have "capital st' = last (balances rnd (initialCapital config) (trades st'))"
    by (simp add: log last_balances_snoc cash_after_def cap bal [symmetric])
  ultimately show ?thesis
    by (intro bookedI) (simp_all add: pos k_def algebra_simps)
qed

lemma booked_mark:
  assumes "booked rnd u config st"
  shows "booked rnd u config (mark_equity_fl rnd candle st)"
  using bookedD [OF assms] by (intro bookedI) (simp_all add: mark_equity_fl_def Let_def)

lemma booked_stop:
  fixes rnd :: "real \<Rightarrow> real"
  assumes "\<And>x. \<bar>rnd x - x\<bar> \<le> u * \<bar>x\<bar>" "u \<le> 1 / 2" "booked rnd u config st"
  shows "booked rnd u config (stop_loss_exit_fl rnd candle st)"
  by (rule booked_exit [OF assms, where s = "stopLoss st"])
     (simp_all add: stop_loss_exit_fl_def Let_def)

lemma booked_take:
  fixes rnd :: "real \<Rightarrow> real"
  assumes "\<And>x. \<bar>rnd x - x\<bar> \<le> u * \<bar>x\<bar>" "u \<le> 1 / 2" "booked rnd u config st"
  shows "booked rnd u config (take_profit_exit_fl rnd candle st)"
  by (rule booked_exit [OF assms, where s = "takeProfit st"])
     (simp_all add: take_profit_exit_fl_def Let_def)

lemma booked_sell:
  fixes rnd :: "real \<Rightarrow> real"
  assumes "\<And>x. \<bar>rnd x - x\<bar> \<le> u * \<bar>x\<bar>" "u \<le> 1 / 2" "booked rnd u config st"
  shows "booked rnd u config (try_sell_fl rnd candle sigs st)"
proof (cases "position st > 0 \<and> length sigs \<ge> 1")
  case True
  show ?thesis
    by (rule booked_exit [OF assms, where s = "close candle"])
       (use True in \<open>simp_all add: try_sell_fl_def Let_def\<close>)
next
  case False
  then have "try_sell_fl rnd candle sigs st = st"
    unfolding try_sell_fl_def by (rule if_not_P)
  then show ?thesis using assms(3) by simp
qed

lemma booked_buy:
  fixes rnd :: "real \<Rightarrow> real"
  assumes R: "\<And>x. \<bar>rnd x - x\<bar> \<le> u * \<bar>x\<bar>" and u: "u \<le> 1 / 2"
    and st: "booked rnd u config st"
    and e: "0 < close candle" and sz: "0 \<le> positionSizePercent config"
  shows "booked rnd u config (try_buy_fl rnd config candle sigs st)"
proof (cases "position st = 0 \<and> capital st > 0 \<and> length sigs \<ge> 1")
  case False
  then have "try_buy_fl rnd config candle sigs st = st"
    unfolding try_buy_fl_def by (rule if_not_P)
  then show ?thesis using st by simp
next
  case True
  define k where "k = initialCapital config + realized_pnl (trades st)"
  define p where "p = rnd (rnd (capital st * positionSizePercent config) / 100)"
  define q where "q = rnd (p / close candle)"
  define st' where "st' = try_buy_fl rnd config candle sigs st"
  have u0: "0 \<le> u" by (rule unit_roundoff_nonneg [OF R])
  have fields: "capital st' = rnd (capital st - p)" "position st' = q"
    "entryPrice st' = close candle"
    "\<exists>t. trades st' = trades st @ [t] \<and> t_type t = BUY \<and> t_total t = p"
    using True by (simp_all add: st'_def try_buy_fl_def Let_def p_def q_def)
  then obtain t where t: "trades st' = trades st @ [t]" "t_type t = BUY" "t_total t = p"
    by blast
  have "0 \<le> rnd (capital st * positionSizePercent config)"
    using True sz by (intro rounding_nonneg [OF R u]) simp
  then have p0: "0 \<le> p" unfolding p_def by (intro rounding_nonneg [OF R u]) simp
  have q0: "0 \<le> q" unfolding q_def using p0 e by (intro rounding_nonneg [OF R u]) simp
  have bal: "capital st = last (balances rnd (initialCapital config) (trades st))"
    by (rule bookedD(2) [OF st])
  have old: "\<bar>capital st - k\<bar> \<le> 9 * u * turnover rnd (initialCapital config) (trades st)"
    using bookedD(3) [OF st] True by (simp add: k_def)
  have "\<bar>rnd (capital st - p) + close candle * q - k\<bar> + 3 * u * \<bar>close candle * q\<bar>
        \<le> \<bar>capital st - k\<bar> + 9 * u * (\<bar>capital st\<bar> + \<bar>p\<bar>)"
    unfolding q_def by (rule buy_drift [OF u0 u e R R])
  then have "\<bar>capital st' + entryPrice st' * position st' - k\<bar>
               + 3 * u * \<bar>entryPrice st' * position st'\<bar>
        \<le> 9 * u * turnover rnd (initialCapital config) (trades st)
            + 9 * u * (\<bar>capital st\<bar> + \<bar>p\<bar>)"
    using old by (simp add: fields)
  moreover have "realized_pnl (trades st') = realized_pnl (trades st)"
    by (simp add: t realized_pnl_snoc)
  moreover have "turnover rnd (initialCapital config) (trades st') =
      turnover rnd (initialCapital config) (trades st) + (\<bar>capital st\<bar> + \<bar>p\<bar>)"
    by (simp add: t turnover_snoc bal)
  moreover have "capital st' = last (balances rnd (initialCapital config) (trades st'))"
    by (simp add: t last_balances_snoc cash_after_def fields bal [symmetric])
  ultimately have "booked rnd u config st'"
    using q0 by (intro bookedI) (simp_all add: fields k_def algebra_simps)
  then show ?thesis by (simp add: st'_def)
qed

lemma booked_step:
  fixes rnd :: "real \<Rightarrow> real"
  assumes "\<And>x. \<bar>rnd x - x\<bar> \<le> u * \<bar>x\<bar>" "u \<le> 1 / 2" "booked rnd u config st"
    "0 < close (candles ! i)" "0 \<le> positionSizePercent config"
  shows "booked rnd u config (backtest_step_fl rnd candles rsiValues macdResult bollinger config i st)"
  using assms
  by (simp add: backtest_step_fl_def Let_def booked_mark booked_stop booked_take booked_sell
      booked_buy)

lemma booked_simulate:
  fixes rnd :: "real \<Rightarrow> real"
  assumes R: "\<And>x. \<bar>rnd x - x\<bar> \<le> u * \<bar>x\<bar>" and u: "u \<le> 1 / 2"
    and c: "\<forall>c\<in>set candles. 0 < close c" and sz: "0 \<le> positionSizePercent config"
  shows "n \<le> length candles \<Longrightarrow>
         booked rnd u config (simulate_fl rnd candles rsiValues macdResult bollinger config n)"
proof (induction n)
  case 0
  show ?case
    using unit_roundoff_nonneg [OF R]
    by (simp add: simulate_fl_def booked_def initial_state_def realized_pnl_def)
next
  case (Suc n)
  show ?case
  proof (cases "50 \<le> n")
    case True
    have "0 < close (candles ! n)" using c Suc.prems by simp
    then have "booked rnd u config
        (backtest_step_fl rnd candles rsiValues macdResult bollinger config n
           (simulate_fl rnd candles rsiValues macdResult bollinger config n))"
      using Suc by (intro booked_step [OF R u _ _ sz]) simp_all
    then show ?thesis using True by (simp add: simulate_fl_def)
  next
    case False
    then show ?thesis
      using unit_roundoff_nonneg [OF R]
      by (simp add: simulate_fl_def booked_def initial_state_def realized_pnl_def)
  qed
qed

lemma booked_final:
  fixes rnd :: "real \<Rightarrow> real"
  assumes R: "\<And>x. \<bar>rnd x - x\<bar> \<le> u * \<bar>x\<bar>" and u: "u \<le> 1 / 2"
    and st: "booked rnd u config st"
  shows "capital (close_remaining_fl rnd candles st) =
           last (balances rnd (initialCapital config) (trades (close_remaining_fl rnd candles st))) \<and>
         \<bar>capital (close_remaining_fl rnd candles st)
            - (initialCapital config + realized_pnl (trades (close_remaining_fl rnd candles st)))\<bar>
         \<le> 9 * u * turnover rnd (initialCapital config) (trades (close_remaining_fl rnd candles st))"
proof (cases "position st > 0")
  case True
  define st' where "st' = (close_remaining_fl rnd candles st)\<lparr>position := 0\<rparr>"
  have "booked rnd u config st'"
    by (rule booked_exit [OF R u st, where s = "close (last candles)"])
       (use True in \<open>simp_all add: st'_def close_remaining_fl_def Let_def\<close>)
  from bookedD(2,3) [OF this] show ?thesis by (simp add: st'_def)
next
  case False
  then have "position st = 0" using bookedD(1) [OF st] by simp
  then show ?thesis using bookedD(2,3) [OF st] by (simp add: close_remaining_fl_def)
qed

subsection \<open>Total return and logged profit\<close>

text \<open>
  Claim C4, amended. Let every arithmetic operation of \<open>runBacktest\<close> return its exact
  result with a relative error of at most \<open>u \<le> 1/2\<close> (for binary64, \<open>u = 2\<^sup>-\<^sup>5\<^sup>3\<close>; exact
  arithmetic is \<open>u = 0\<close>). For every candle series with positive closes, every choice of
  the indicator arrays and every configuration whose position size is not negative, the
  capital after the end-of-series close differs from the initial capital plus the sum
  of \<open>pnl\<close> over the SELL entries of the trade log by at most \<open>18 u M n\<close>, and
  \<open>totalReturn\<close> differs from that sum by at most \<open>2 u M (9 n + 1)\<close>, where \<open>n\<close> is the
  number of entries of the log and \<open>M\<close> bounds the initial capital, the cash after every
  entry and the total of every entry.
\<close>

theorem backtest_conservation:
  fixes rnd :: "real \<Rightarrow> real"
  assumes R: "\<forall>x. \<bar>rnd x - x\<bar> \<le> u * \<bar>x\<bar>" and u: "u \<le> 1 / 2"
    and c: "\<forall>c\<in>set candles. 0 < close c" and sz: "0 \<le> positionSizePercent config"
    and b: "\<forall>b\<in>set (balances rnd (initialCapital config)
              (r_trades (runBacktest_fl rnd candles rsiValues macdResult bollinger config))).
              \<bar>b\<bar> \<le> M"
    and t: "\<forall>t\<in>set (r_trades (runBacktest_fl rnd candles rsiValues macdResult bollinger config)).
              \<bar>t_total t\<bar> \<le> M"
  shows "\<bar>capital (final_state_fl rnd candles rsiValues macdResult bollinger config)
           - (initialCapital config +
              realized_pnl (trades (final_state_fl rnd candles rsiValues macdResult bollinger config)))\<bar>
         \<le> 18 * u * M *
            real (length (trades (final_state_fl rnd candles rsiValues macdResult bollinger config))) \<and>
         \<bar>totalReturn (runBacktest_fl rnd candles rsiValues macdResult bollinger config)
           - realized_pnl (r_trades (runBacktest_fl rnd candles rsiValues macdResult bollinger config))\<bar>
         \<le> 2 * u * M *
            (9 * real (length (r_trades (runBacktest_fl rnd candles rsiValues macdResult bollinger config))) + 1)"
proof -
  define fin where "fin = final_state_fl rnd candles rsiValues macdResult bollinger config"
  define c0 where "c0 = initialCapital config"
  have R': "\<And>x. \<bar>rnd x - x\<bar> \<le> u * \<bar>x\<bar>" using R by simp
  have u0: "0 \<le> u" by (rule unit_roundoff_nonneg [OF R'])
  have log: "r_trades (runBacktest_fl rnd candles rsiValues macdResult bollinger config) = trades fin"
    and ret: "totalReturn (runBacktest_fl rnd candles rsiValues macdResult bollinger config) =
                rnd (capital fin - c0)"
    by (simp_all add: runBacktest_fl_def summarise_fl_def Let_def fin_def c0_def)
  have bk: "booked rnd u config (simulate_fl rnd candles rsiValues macdResult bollinger config (length candles))"
    by (rule booked_simulate [OF R' u c sz order_refl])
  have fin: "capital fin = last (balances rnd c0 (trades fin))"
    "\<bar>capital fin - (c0 + realized_pnl (trades fin))\<bar> \<le> 9 * u * turnover rnd c0 (trades fin)"
    using booked_final [OF R' u bk, of candles]
    unfolding fin_def final_state_fl_def c0_def by blast+
  have "turnover rnd c0 (trades fin) \<le> 2 * M * real (length (trades fin))"
    using b t by (intro turnover_bound) (simp_all add: log c0_def)
  then have "u * turnover rnd c0 (trades fin) \<le> u * (2 * M * real (length (trades fin)))"
    by (rule mult_left_mono [OF _ u0])
  then have drift: "\<bar>capital fin - (c0 + realized_pnl (trades fin))\<bar>
      \<le> 18 * (u * M * real (length (trades fin)))"
    using fin(2) by (simp add: algebra_simps)
  have "last (balances rnd c0 (trades fin)) \<in> set (balances rnd c0 (trades fin))"
    by (rule last_in_set) simp
  then have cM: "\<bar>capital fin\<bar> \<le> M" using b by (simp add: log fin(1) c0_def)
  have "hd (balances rnd c0 (trades fin)) \<in> set (balances rnd c0 (trades fin))"
    by (rule hd_in_set) simp
  then have c0M: "\<bar>c0\<bar> \<le> M" using b by (simp add: log c0_def)
  have "\<bar>capital fin - c0\<bar> \<le> 2 * M" using cM c0M by linarith
  then have "u * \<bar>capital fin - c0\<bar> \<le> u * (2 * M)" by (rule mult_left_mono [OF _ u0])
  then have "\<bar>rnd (capital fin - c0) - (capital fin - c0)\<bar> \<le> 2 * (u * M)"
    using R' [of "capital fin - c0"] by (simp add: algebra_simps)
  then have "\<bar>rnd (capital fin - c0) - realized_pnl (trades fin)\<bar>
      \<le> 18 * (u * M * real (length (trades fin))) + 2 * (u * M)"
    using drift by linarith
  then have "\<bar>totalReturn (runBacktest_fl rnd candles rsiValues macdResult bollinger config)
           - realized_pnl (r_trades (runBacktest_fl rnd candles rsiValues macdResult bollinger config))\<bar>
         \<le> 2 * u * M *
            (9 * real (length (r_trades (runBacktest_fl rnd candles rsiValues macdResult bollinger config))) + 1)"
    by (simp add: log ret algebra_simps)
  moreover have "\<bar>capital fin - (initialCapital config + realized_pnl (trades fin))\<bar>
         \<le> 18 * u * M * real (length (trades fin))"
    using drift by (simp add: c0_def algebra_simps)
  ultimately show ?thesis unfolding fin_def by (rule conjI [rotated])
qed

text \<open>
  In exact arithmetic the two sides are equal: the invariant with the identity for
  \<open>rnd\<close> and \<open>u = 0\<close>.
\<close>

lemma runBacktest_exact_conservation:
  assumes "\<forall>c\<in>set candles. 0 < close c" and "0 \<le> positionSizePercent config"
  shows "capital (final_state candles rsiValues macdResult bollinger config) =
           initialCapital config +
           realized_pnl (trades (final_state candles rsiValues macdResult bollinger config)) \<and>
         totalReturn (runBacktest candles rsiValues macdResult bollinger config) =
           realized_pnl (r_trades (runBacktest candles rsiValues macdResult bollinger config))"
proof -
  have R: "\<And>x::real. \<bar>(\<lambda>x. x) x - x\<bar> \<le> 0 * \<bar>x\<bar>" by simp
  have u: "(0::real) \<le> 1 / 2" by simp
  have "booked (\<lambda>x. x) 0 config
          (simulate_fl (\<lambda>x. x) candles rsiValues macdResult bollinger config (length candles))"
    by (rule booked_simulate [OF R u assms order_refl])
  from booked_final [OF R u this, of candles]
  have "capital (final_state_fl (\<lambda>x. x) candles rsiValues macdResult bollinger config) =
          initialCapital config +
          realized_pnl (trades (final_state_fl (\<lambda>x. x) candles rsiValues macdResult bollinger config))"
    by (simp add: final_state_fl_def)
  moreover have "final_state_fl (\<lambda>x. x) = final_state"
    by (intro ext)
      (simp only: final_state_fl_def final_state_def simulate_fl_def simulate_def
        backtest_step_fl_exact close_remaining_fl_exact)
  ultimately show ?thesis
    by (simp add: runBacktest_def summarise_def Let_def)
qed

subsection \<open>The rounding to binary64 has a relative error of at most \<open>2\<^sup>-\<^sup>5\<^sup>3\<close>\<close>

lemma round_even_near: "\<bar>of_int (round_even y) - y\<bar> \<le> 1 / 2"
proof -
  have "of_int \<lfloor>y\<rfloor> \<le> y" "y < of_int \<lfloor>y\<rfloor> + 1" by linarith+
  then show ?thesis by (auto simp add: round_even_def Let_def)
qed

lemma binade_eq:
  assumes "2 powr of_int k \<le> \<bar>x\<bar>" "\<bar>x\<bar> < 2 powr (of_int k + 1)"
  shows "\<lfloor>log 2 \<bar>x\<bar>\<rfloor> = k"
proof -
  have pos: "0 < \<bar>x\<bar>" using assms(1) by (smt (verit) powr_gt_zero)
  have "of_int k \<le> log 2 \<bar>x\<bar>" using assms(1) pos by (simp add: le_log_iff)
  moreover have "log 2 \<bar>x\<bar> < of_int k + 1" using assms(2) pos by (simp add: log_less_iff)
  ultimately show ?thesis by linarith
qed

lemma binary64_error: "\<bar>binary64 x - x\<bar> \<le> \<bar>x\<bar> / 2 ^ 53"
proof (cases "x = 0")
  case True
  then show ?thesis by (simp add: binary64_def)
next
  case False
  define k where "k = \<lfloor>log 2 \<bar>x\<bar>\<rfloor>"
  define ulp :: real where "ulp = 2 powr (of_int k - 52)"
  have pos: "0 < \<bar>x\<bar>" using False by simp
  have ulp: "0 < ulp" by (simp add: ulp_def)
  have "of_int k \<le> log 2 \<bar>x\<bar>" unfolding k_def by linarith
  then have low: "2 powr of_int k \<le> \<bar>x\<bar>" using pos by (simp add: le_log_iff)
  have "ulp = 2 powr of_int k / 2 powr 52" by (simp add: ulp_def powr_diff)
  then have ulp_eq: "ulp = 2 powr of_int k / 2 ^ 52" by simp
  have "binary64 x - x = (of_int (round_even (x / ulp)) - x / ulp) * ulp"
    using ulp False by (simp add: binary64_def k_def ulp_def Let_def algebra_simps)
  then have "\<bar>binary64 x - x\<bar> = \<bar>of_int (round_even (x / ulp)) - x / ulp\<bar> * ulp"
    using ulp by (simp add: abs_mult)
  also have "\<dots> \<le> 1 / 2 * ulp"
    using ulp by (intro mult_right_mono round_even_near) simp
  also have "\<dots> = 2 powr of_int k / 2 ^ 53" by (simp add: ulp_eq)
  also have "\<dots> \<le> \<bar>x\<bar> / 2 ^ 53" using low by (simp add: divide_right_mono)
  finally show ?thesis .
qed

text \<open>
  The value of \<open>binary64 x\<close> for \<open>2\<^sup>k \<le> |x| < 2\<^sup>k\<^sup>+\<^sup>1\<close> and for
  \<open>2\<^sup>-\<^sup>j \<le> |x| < 2\<^sup>1\<^sup>-\<^sup>j\<close>.
\<close>

lemma binary64_ge1:
  assumes "2 ^ k \<le> \<bar>x\<bar>" "\<bar>x\<bar> < 2 * 2 ^ k" "k \<le> 52"
  shows "binary64 x = of_int (round_even (x * 2 ^ (52 - k))) / 2 ^ (52 - k)"
proof -
  have x: "x \<noteq> 0" using assms(1) by (smt (verit) zero_less_power abs_zero)
  have p: "2 powr real k = (2::real) ^ k" by (simp add: powr_realpow)
  have "\<lfloor>log 2 \<bar>x\<bar>\<rfloor> = int k"
    using assms(1,2) by (intro binade_eq) (simp_all add: powr_add p)
  moreover have "2 powr (of_int (int k) - 52) = 1 / (2::real) ^ (52 - k)"
  proof -
    have "(2::real) powr (of_int (int k) - 52) = 2 powr (- real (52 - k))"
      using assms(3) by (simp add: of_nat_diff)
    also have "\<dots> = inverse (2 powr real (52 - k))" by (rule powr_minus)
    also have "\<dots> = 1 / 2 ^ (52 - k)"
      by (simp only: powr_realpow [OF zero_less_numeral] inverse_eq_divide)
    finally show ?thesis .
  qed
  ultimately show ?thesis using x by (simp add: binary64_def Let_def)
qed

lemma binary64_lt1:
  assumes "1 \<le> \<bar>x\<bar> * 2 ^ j" "\<bar>x\<bar> * 2 ^ j < 2"
  shows "binary64 x = of_int (round_even (x * 2 ^ (52 + j))) / 2 ^ (52 + j)"
proof -
  have x: "x \<noteq> 0" using assms(1) by auto
  have p: "2 powr (- real j) = 1 / (2::real) ^ j"
    by (simp add: powr_minus powr_realpow divide_inverse)
  have "(2::real) powr (1 - real j) = 2 powr 1 * 2 powr (- real j)"
    using powr_add [of "2::real" 1 "- real j"] by simp
  then have p1: "2 powr (1 - real j) = 2 / (2::real) ^ j" by (simp add: p)
  have "\<lfloor>log 2 \<bar>x\<bar>\<rfloor> = - int j"
    using assms by (intro binade_eq) (simp_all add: p p1 field_simps)
  moreover have "2 powr (of_int (- int j) - 52) = 1 / (2::real) ^ (52 + j)"
  proof -
    have "of_int (- int j) - 52 = - real (52 + j)" by simp
    then have "(2::real) powr (of_int (- int j) - 52) = 2 powr (- real (52 + j))"
      by (simp only:)
    also have "\<dots> = inverse (2 powr real (52 + j))" by (rule powr_minus)
    also have "\<dots> = 1 / 2 ^ (52 + j)"
      by (simp only: powr_realpow [OF zero_less_numeral] inverse_eq_divide)
    finally show ?thesis .
  qed
  ultimately show ?thesis using x by (simp add: binary64_def Let_def)
qed

lemma binary64_0: "binary64 0 = 0"
  by (simp add: binary64_def)

subsection \<open>The values rounded in the sample run\<close>

text \<open>
  The quantity \<open>1000 / 90\<close>, the stop \<open>90 * (1 - 5 / 100)\<close>, the target
  \<open>90 * (1 + 20 / 100)\<close>, the proceeds \<open>95 * quantity\<close>, the cash \<open>9000 + proceeds\<close>,
  the profit \<open>(95 - 90) * quantity\<close> and the return \<open>cash - 10000\<close>, each operation
  rounded. The profit is a tie, which goes to the even neighbour.
\<close>

lemma binary64_5: "binary64 5 = 5"
  using binary64_ge1 [of 2 5] by (simp add: round_even_def Let_def)

lemma binary64_1000: "binary64 1000 = 1000"
  using binary64_ge1 [of 9 1000] by (simp add: round_even_def Let_def)

lemma binary64_9000: "binary64 9000 = 9000"
  using binary64_ge1 [of 13 9000] by (simp add: round_even_def Let_def)

lemma binary64_10000: "binary64 10000 = 10000"
  using binary64_ge1 [of 13 10000] by (simp add: round_even_def Let_def)

lemma binary64_100000: "binary64 100000 = 100000"
  using binary64_ge1 [of 16 100000] by (simp add: round_even_def Let_def)

lemma binary64_quantity: "binary64 (100 / 9) = 3127499741229511 / 281474976710656"
  using binary64_ge1 [of 3 "100 / 9"] by (simp add: round_even_def Let_def)

lemma binary64_stop_rate: "binary64 (1 / 20) = 3602879701896397 / 72057594037927936"
  using binary64_lt1 [of "1 / 20" 5] by (simp add: round_even_def Let_def)

lemma binary64_stop_factor:
  "binary64 (68454714336031539 / 72057594037927936) = 4278419646001971 / 4503599627370496"
  using binary64_lt1 [of "68454714336031539 / 72057594037927936" 1]
  by (simp add: round_even_def Let_def)

lemma binary64_stop:
  "binary64 (192528884070088695 / 2251799813685248) = 171 / 2"
  using binary64_ge1 [of 6 "192528884070088695 / 2251799813685248"]
  by (simp add: round_even_def Let_def)

lemma binary64_target_rate: "binary64 (1 / 5) = 3602879701896397 / 18014398509481984"
  using binary64_lt1 [of "1 / 5" 3] by (simp add: round_even_def Let_def)

lemma binary64_target_factor:
  "binary64 (21617278211378381 / 18014398509481984) = 5404319552844595 / 4503599627370496"
  using binary64_ge1 [of 0 "21617278211378381 / 18014398509481984"]
  by (simp add: round_even_def Let_def)

lemma binary64_target:
  "binary64 (243194379878006775 / 2251799813685248) = 108"
  using binary64_ge1 [of 6 "243194379878006775 / 2251799813685248"]
  by (simp add: round_even_def Let_def)

lemma binary64_proceeds:
  "binary64 (297112475416803545 / 281474976710656) = 4642382428387555 / 4398046511104"
  using binary64_ge1 [of 10 "297112475416803545 / 281474976710656"]
  by (simp add: round_even_def Let_def)

lemma binary64_cash:
  "binary64 (44224801028323555 / 4398046511104) = 1382025032135111 / 137438953472"
  using binary64_ge1 [of 13 "44224801028323555 / 4398046511104"]
  by (simp add: round_even_def Let_def)

lemma binary64_pnl:
  "binary64 (15637498706147555 / 281474976710656) = 3909374676536889 / 70368744177664"
  using binary64_ge1 [of 5 "15637498706147555 / 281474976710656"]
  by (simp add: round_even_def Let_def)

lemma binary64_return: "binary64 (7635497415111 / 137438953472) = 7635497415111 / 137438953472"
  using binary64_ge1 [of 5 "7635497415111 / 137438953472"] by (simp add: round_even_def Let_def)

lemmas binary64_values =
  binary64_0 binary64_5 binary64_1000 binary64_9000 binary64_10000 binary64_100000
  binary64_quantity binary64_stop_rate binary64_stop_factor binary64_stop binary64_target_rate
  binary64_target_factor binary64_target binary64_proceeds binary64_cash binary64_pnl
  binary64_return

subsection \<open>The sample request followed by a rebound, in binary64\<close>

lemma rebound_indicators:
  "length rebound_closes = 52"
  "calculateRSI rebound_closes 14 ! 50 = Some 0"
  "histogram (calculateMACD rebound_closes) ! 49 = Some (- (224 / 351))"
  "histogram (calculateMACD rebound_closes) ! 50 = Some (- (618016 / 616005))"
  "bb_lower (calculateBollingerBands rebound_closes 20 2) ! 50 = Some 93"
  unfolding rebound_closes_def
  using dip_extended_hist [of 95]
  by (simp_all add: length_dip_closes dip_extended_rsi_50 dip_extended_lower_50)

lemma rebound_candles_nth:
  "rebound_candles ! 50 = flat_candle 50 90" "rebound_candles ! 51 = flat_candle 51 95"
  "last rebound_candles = flat_candle 51 95"
  by (simp_all add: rebound_candles_def dip_extended_candles)

lemma rebound_rsi_51: "calculateRSI rebound_closes 14 ! 51 = Some (2700 / 53)"
  by (simp add: nth_calculateRSI rsi_avgGain_def rsi_avgLoss_def rsi_avg_def
      rsi_gains_def rsi_losses_def rsi_value_def slice_def Let_def upt_conv_Cons
      rebound_closes_def dip_closes_def replicate_numeral)

lemma length_rebound_candles: "length rebound_candles = 52"
  by (simp add: rebound_candles_def length_dip_candles)

lemma rebound_candles_pos: "list_all (\<lambda>c. 0 < close c) rebound_candles"
  using dip_candles_pos by (simp add: rebound_candles_def flat_candle_def)

lemma rebound_loop:
  "simulate_fl rnd rebound_candles rsiValues macdResult bollinger config 52 =
     backtest_step_fl rnd rebound_candles rsiValues macdResult bollinger config 51
       (backtest_step_fl rnd rebound_candles rsiValues macdResult bollinger config 50
          (initial_state config))"
  by (simp add: simulate_fl_def upt_conv_Cons)

lemmas rebound_eval =
  backtest_step_fl_def Let_def at_index_def length_calculateRSI length_histogram length_bb_lower
  rebound_indicators rebound_rsi_51 rebound_candles_nth flat_candle_def mark_equity_fl_def
  initial_state_def default_config_def buy_signals_def sell_signals_falling try_buy_fl_def
  try_sell_fl_def

text \<open>Index 50: the BUY of 1000 at 90. The quantity is 1000 / 90 rounded.\<close>

lemma rebound_bought:
  "backtest_step_fl binary64 rebound_candles (calculateRSI rebound_closes 14)
     (calculateMACD rebound_closes) (calculateBollingerBands rebound_closes 20 2)
     (default_config 10) 50 (initial_state (default_config 10)) =
   \<lparr>capital = 9000, position = 3127499741229511 / 281474976710656, entryPrice = 90,
    stopLoss = 171 / 2, takeProfit = 108,
    trades = [\<lparr>t_type = BUY, t_timestamp = 50, t_price = 90,
               t_quantity = 3127499741229511 / 281474976710656, t_total = 1000,
               t_reason = ''RSI oversold, Below Bollinger Band'', t_pnl = None,
               t_pnlPercent = None\<rparr>],
    equityCurve = [(50, 10000)], winningTrades = 0, losingTrades = 0, totalPnL = 0,
    maxDrawdown = 0, peakEquity = 10000\<rparr>"
  by (simp add: rebound_eval binary64_values)

text \<open>Index 51: the close of 95 is between the stop and the target, and nothing is sold.\<close>

lemma rebound_held:
  "simulate_fl binary64 rebound_candles (calculateRSI rebound_closes 14)
     (calculateMACD rebound_closes) (calculateBollingerBands rebound_closes 20 2)
     (default_config 10) 52 =
   \<lparr>capital = 9000, position = 3127499741229511 / 281474976710656, entryPrice = 90,
    stopLoss = 171 / 2, takeProfit = 108,
    trades = [\<lparr>t_type = BUY, t_timestamp = 50, t_price = 90,
               t_quantity = 3127499741229511 / 281474976710656, t_total = 1000,
               t_reason = ''RSI oversold, Below Bollinger Band'', t_pnl = None,
               t_pnlPercent = None\<rparr>],
    equityCurve = [(50, 10000), (51, 1382025032135111 / 137438953472)],
    winningTrades = 0, losingTrades = 0, totalPnL = 0,
    maxDrawdown = 0, peakEquity = 1382025032135111 / 137438953472\<rparr>"
  unfolding rebound_loop rebound_bought
  by (simp add: rebound_eval binary64_values)

text \<open>
  The end-of-series close at 95: the cash becomes 10055.555555555555, the logged
  profit is 55.55555555555556, and the total return is 55.55555555555475.
\<close>

lemma rebound_result_binary64:
  "totalReturn (rebound_result binary64) = 7635497415111 / 137438953472 \<and>
   map t_type (r_trades (rebound_result binary64)) = [BUY, SELL] \<and>
   map t_total (r_trades (rebound_result binary64)) = [1000, 4642382428387555 / 4398046511104] \<and>
   map t_pnl (r_trades (rebound_result binary64)) = [None, Some (3909374676536889 / 70368744177664)] \<and>
   realized_pnl (r_trades (rebound_result binary64)) = 3909374676536889 / 70368744177664 \<and>
   balances binary64 10000 (r_trades (rebound_result binary64)) =
     [10000, 9000, 1382025032135111 / 137438953472]"
  unfolding rebound_result_def runBacktest_fl_def final_state_fl_def length_rebound_candles
    rebound_held
  by (simp add: close_remaining_fl_def summarise_fl_def sell_trade_fl_def Let_def
      rebound_candles_nth flat_candle_def default_config_def realized_pnl_def cash_after_def
      binary64_values)

text \<open>
  The sample run in binary64 satisfies the hypotheses with \<open>u = 2\<^sup>-\<^sup>5\<^sup>3\<close> and
  \<open>M = 10056\<close>: the total return 55.55555555555475 and the logged profit
  55.55555555555556 differ by about \<open>8.1 \<times> 10\<^sup>-\<^sup>1\<^sup>3\<close>, within the bound of about
  \<open>4.2 \<times> 10\<^sup>-\<^sup>1\<^sup>1\<close>.
\<close>

theorem backtest_conservation_witness:
  "(\<forall>x. \<bar>binary64 x - x\<bar> \<le> 1 / 2 ^ 53 * \<bar>x\<bar>) \<and>
   list_all (\<lambda>c. 0 < close c) rebound_candles \<and>
   0 \<le> positionSizePercent (default_config 10) \<and>
   list_all (\<lambda>b. \<bar>b\<bar> \<le> 10056) (balances binary64 10000 (r_trades (rebound_result binary64))) \<and>
   list_all (\<lambda>t. \<bar>t_total t\<bar> \<le> 10056) (r_trades (rebound_result binary64)) \<and>
   totalReturn (rebound_result binary64) = 7635497415111 / 137438953472 \<and>
   realized_pnl (r_trades (rebound_result binary64)) = 3909374676536889 / 70368744177664 \<and>
   \<bar>totalReturn (rebound_result binary64) - realized_pnl (r_trades (rebound_result binary64))\<bar>
     \<le> 2 * (1 / 2 ^ 53) * 10056 * (9 * real (length (r_trades (rebound_result binary64))) + 1)"
proof -
  have R: "\<forall>x. \<bar>binary64 x - x\<bar> \<le> 1 / 2 ^ 53 * \<bar>x\<bar>"
    using binary64_error by simp
  have u: "(1::real) / 2 ^ 53 \<le> 1 / 2" by simp
  have pos: "\<forall>c\<in>set rebound_candles. 0 < close c"
    using rebound_candles_pos by (simp add: list_all_iff)
  have sz: "0 \<le> positionSizePercent (default_config 10)"
    by (simp add: default_config_def)
  have c0: "initialCapital (default_config 10) = 10000"
    by (simp add: default_config_def)
  have len: "length (r_trades (rebound_result binary64)) = length [BUY, SELL]"
    using rebound_result_binary64 by (metis length_map)
  have tot: "map t_total (r_trades (rebound_result binary64)) =
      [1000, 4642382428387555 / 4398046511104]"
    using rebound_result_binary64 by simp
  have "list_all (\<lambda>x. \<bar>x\<bar> \<le> 10056) (map t_total (r_trades (rebound_result binary64)))"
    unfolding tot by simp
  then have t: "list_all (\<lambda>t. \<bar>t_total t\<bar> \<le> 10056) (r_trades (rebound_result binary64))"
    by (simp add: list_all_iff)
  have b: "list_all (\<lambda>b. \<bar>b\<bar> \<le> 10056)
      (balances binary64 10000 (r_trades (rebound_result binary64)))"
    using rebound_result_binary64 by simp
  have "\<bar>totalReturn (rebound_result binary64) - realized_pnl (r_trades (rebound_result binary64))\<bar>
     \<le> 2 * (1 / 2 ^ 53) * 10056 * (9 * real (length (r_trades (rebound_result binary64))) + 1)"
    unfolding rebound_result_def
    by (rule conjunct2 [OF backtest_conservation [OF R u pos sz]])
       (use b t in \<open>simp_all add: list_all_iff c0 rebound_result_def\<close>)
  then show ?thesis
    using R rebound_candles_pos sz b t rebound_result_binary64 by simp
qed

text \<open>
  The claim as stated fails in two ways. With \<open>positionSizePercent = -10\<close> the sample
  request buys a negative quantity at index 50, which adds 1000 to the cash; a negative
  position is never sold, so the run ends with a total return of 1000 and no SELL entry,
  in exact arithmetic already. With the default position size of 10 percent the sample
  run in binary64 returns 55.55555555555475 while its only SELL entry logs a profit of
  55.55555555555556.
\<close>

theorem backtest_conservation_counterexample:
  "backtest_route dip_candles (default_config (- 10)) = Inr (dip_result (- 10)) \<and>
   map t_type (r_trades (dip_result (- 10))) = [BUY] \<and>
   totalReturn (dip_result (- 10)) = 1000 \<and>
   realized_pnl (r_trades (dip_result (- 10))) = 0 \<and>
   totalReturn (dip_result (- 10)) \<noteq> realized_pnl (r_trades (dip_result (- 10))) \<and>
   map t_type (r_trades (rebound_result binary64)) = [BUY, SELL] \<and>
   totalReturn (rebound_result binary64) = 7635497415111 / 137438953472 \<and>
   realized_pnl (r_trades (rebound_result binary64)) = 3909374676536889 / 70368744177664 \<and>
   totalReturn (rebound_result binary64) \<noteq> realized_pnl (r_trades (rebound_result binary64))"
  using dip_result_short rebound_result_binary64 by (simp add: dip_route)

section \<open>The number of trades in rounded arithmetic\<close>

text \<open>
  A rounding with a relative error below 1 keeps the sign of what it rounds, so the
  tests \<open>pnl < 0\<close> and \<open>pnl > 0\<close> of the stop-loss and take-profit exits see the sign
  of the exact difference between the exit price and the entry price.
\<close>

lemma rounding_sign:
  fixes rnd :: "real \<Rightarrow> real"
  assumes "\<And>x. \<bar>rnd x - x\<bar> \<le> u * \<bar>x\<bar>" "u \<le> 1 / 2"
  shows "x < 0 \<Longrightarrow> rnd x < 0" and "0 < x \<Longrightarrow> 0 < rnd x"
proof -
  have "u * \<bar>x\<bar> \<le> \<bar>x\<bar> / 2" by (rule scaled_half [OF assms(2)]) simp
  then have "\<bar>rnd x - x\<bar> \<le> \<bar>x\<bar> / 2" using assms(1) [of x] by linarith
  then show "x < 0 \<Longrightarrow> rnd x < 0" and "0 < x \<Longrightarrow> 0 < rnd x" by linarith+
qed

lemma counted_mark_fl: "counted st \<Longrightarrow> counted (mark_equity_fl rnd candle st)"
  by (simp add: counted_def mark_equity_fl_def Let_def)

lemma counted_stop_fl:
  fixes rnd :: "real \<Rightarrow> real"
  assumes R: "\<And>x. \<bar>rnd x - x\<bar> \<le> u * \<bar>x\<bar>" and u: "u \<le> 1 / 2"
    and st: "counted st" "0 < position st"
  shows "counted (stop_loss_exit_fl rnd candle st)"
proof -
  have "rnd (stopLoss st - entryPrice st) < 0"
    using st by (intro rounding_sign(1) [OF R u]) (simp add: counted_def)
  then have "rnd (stopLoss st - entryPrice st) * position st < 0"
    using st(2) by (simp add: mult_neg_pos)
  then have "rnd (rnd (stopLoss st - entryPrice st) * position st) < 0"
    by (rule rounding_sign(1) [OF R u])
  then show ?thesis
    using st by (simp add: counted_def stop_loss_exit_fl_def Let_def)
qed

lemma counted_take_fl:
  fixes rnd :: "real \<Rightarrow> real"
  assumes R: "\<And>x. \<bar>rnd x - x\<bar> \<le> u * \<bar>x\<bar>" and u: "u \<le> 1 / 2"
    and st: "counted st" "0 < position st"
  shows "counted (take_profit_exit_fl rnd candle st)"
proof -
  have "0 < rnd (takeProfit st - entryPrice st)"
    using st by (intro rounding_sign(2) [OF R u]) (simp add: counted_def)
  then have "0 < rnd (takeProfit st - entryPrice st) * position st"
    using st(2) by simp
  then have "0 < rnd (rnd (takeProfit st - entryPrice st) * position st)"
    by (rule rounding_sign(2) [OF R u])
  then show ?thesis
    using st by (simp add: counted_def take_profit_exit_fl_def Let_def)
qed

lemma counted_sell_fl: "counted st \<Longrightarrow> counted (try_sell_fl rnd candle sigs st)"
  by (simp add: counted_def try_sell_fl_def Let_def)

lemma counted_close_fl: "counted st \<Longrightarrow> counted (close_remaining_fl rnd candles st)"
  by (simp add: counted_def close_remaining_fl_def Let_def)

lemma counted_buy_fl:
  assumes "counted st"
    "rnd (close candle * rnd (1 - rnd (stopLossPercent config / 100))) < close candle"
    "close candle < rnd (close candle * rnd (1 + rnd (takeProfitPercent config / 100)))"
  shows "counted (try_buy_fl rnd config candle sigs st)"
  using assms by (simp add: counted_def try_buy_fl_def Let_def)

lemma counted_step_fl:
  fixes rnd :: "real \<Rightarrow> real"
  assumes R: "\<And>x. \<bar>rnd x - x\<bar> \<le> u * \<bar>x\<bar>" and u: "u \<le> 1 / 2" and st: "counted st"
    and stop: "rnd (close (candles ! i) * rnd (1 - rnd (stopLossPercent config / 100)))
                 < close (candles ! i)"
    and target: "close (candles ! i)
                 < rnd (close (candles ! i) * rnd (1 + rnd (takeProfitPercent config / 100)))"
  shows "counted (backtest_step_fl rnd candles rsiValues macdResult bollinger config i st)"
proof -
  have st1: "counted (mark_equity_fl rnd (candles ! i) st)"
    by (rule counted_mark_fl [OF st])
  have "counted (stop_loss_exit_fl rnd (candles ! i) (mark_equity_fl rnd (candles ! i) st))"
    if "0 < position (mark_equity_fl rnd (candles ! i) st)"
    by (rule counted_stop_fl [OF R u st1 that])
  moreover have "counted (take_profit_exit_fl rnd (candles ! i) (mark_equity_fl rnd (candles ! i) st))"
    if "0 < position (mark_equity_fl rnd (candles ! i) st)"
    by (rule counted_take_fl [OF R u st1 that])
  moreover have "counted (try_sell_fl rnd (candles ! i) sigs'
      (try_buy_fl rnd config (candles ! i) sigs (mark_equity_fl rnd (candles ! i) st)))"
    for sigs sigs'
    by (intro counted_sell_fl counted_buy_fl st1 stop target)
  ultimately show ?thesis by (simp add: backtest_step_fl_def Let_def)
qed

text \<open>
  In rounded arithmetic \<open>totalTrades\<close> is the number of SELL entries as long as the
  rounded stop price is below and the rounded target price above every close.
\<close>

lemma runBacktest_fl_counts:
  fixes rnd :: "real \<Rightarrow> real"
  assumes R: "\<And>x. \<bar>rnd x - x\<bar> \<le> u * \<bar>x\<bar>" and u: "u \<le> 1 / 2"
    and p: "\<forall>c\<in>set candles.
              rnd (close c * rnd (1 - rnd (stopLossPercent config / 100))) < close c \<and>
              close c < rnd (close c * rnd (1 + rnd (takeProfitPercent config / 100)))"
  shows "totalTrades (runBacktest_fl rnd candles rsiValues macdResult bollinger config) =
           sells (r_trades (runBacktest_fl rnd candles rsiValues macdResult bollinger config))"
proof -
  have "n \<le> length candles \<Longrightarrow>
        counted (simulate_fl rnd candles rsiValues macdResult bollinger config n)" for n
  proof (induction n)
    case 0
    show ?case by (simp add: simulate_fl_def counted_def initial_state_def sells_def)
  next
    case (Suc n)
    show ?case
    proof (cases "50 \<le> n")
      case True
      have "candles ! n \<in> set candles" using Suc.prems by simp
      then have "counted (backtest_step_fl rnd candles rsiValues macdResult bollinger config n
          (simulate_fl rnd candles rsiValues macdResult bollinger config n))"
        using Suc p by (intro counted_step_fl [OF R u]) simp_all
      then show ?thesis using True by (simp add: simulate_fl_def)
    next
      case False
      then show ?thesis by (simp add: simulate_fl_def counted_def initial_state_def sells_def)
    qed
  qed
  then have "counted (final_state_fl rnd candles rsiValues macdResult bollinger config)"
    unfolding final_state_fl_def by (intro counted_close_fl) simp
  then show ?thesis
    by (simp add: runBacktest_fl_def summarise_fl_def Let_def counted_def)
qed

section \<open>Properties of MACD\<close>

subsection \<open>The signal line starts from padding zeros\<close>

lemma nth_calculateEMA_seed:
  assumes "1 \<le> period" "period \<le> length data"
  shows "calculateEMA data period ! (period - 1) = Some (sum_list (slice 0 period data) / real period)"
proof -
  obtain k where k: "period = Suc k" using assms(1) by (cases period) auto
  have len: "length (fst (ema_loop data period k)) = k"
    using ema_loop_shape [of data period k] by simp
  have "fst (ema_loop data period period) ! k = Some (sum_list (slice 0 period data) / real period)"
    unfolding k ema_loop_Suc
    by (cases "ema_loop data (Suc k) k") (use len k in \<open>simp add: Let_def nth_append\<close>)
  moreover have "take period (calculateEMA data period) = fst (ema_loop data period period)"
    using ema_loop_prefix [of period data period "length data - period"] assms(2)
    by (simp add: calculateEMA_def)
  ultimately show ?thesis
    using k by (metis diff_Suc_1 lessI nth_take)
qed

lemma macd_line_null:
  assumes "i < 25" "i < length closes"
  shows "macd_line closes ! i = None"
proof -
  have "calculateEMA closes 26 ! i = None"
    using assms by (simp add: nth_calculateEMA_None)
  then show ?thesis
    using assms by (simp add: macd_line_def Let_def diff_or_null_def split: option.split)
qed

lemma calculateMACD_signal_starts_at_zero:
  assumes "9 \<le> length closes"
  shows "macd (calculateMACD closes) ! 8 = None \<and> signal (calculateMACD closes) ! 8 = Some 0"
proof -
  let ?valid = "map (\<lambda>v. case v of None \<Rightarrow> 0 | Some x \<Rightarrow> x) (macd_line closes)"
  have len: "9 \<le> length ?valid" using assms by (simp add: length_macd_line)
  have "slice 0 9 ?valid = replicate 9 0"
  proof (rule nth_equalityI)
    show "length (slice 0 9 ?valid) = length (replicate 9 (0::real))"
      using len by (simp add: slice_def)
  next
    fix i
    assume "i < length (slice 0 9 ?valid)"
    then have i: "i < 9" by (simp add: slice_def)
    then have "macd_line closes ! i = None" using assms by (intro macd_line_null) auto
    then show "slice 0 9 ?valid ! i = replicate 9 0 ! i"
      using i assms by (simp add: slice_def length_macd_line)
  qed
  then have "calculateEMA ?valid 9 ! 8 = Some 0"
    using nth_calculateEMA_seed [of 9 ?valid] len by (simp add: sum_list_replicate)
  moreover have "macd_line closes ! 8 = None" using assms by (intro macd_line_null) auto
  ultimately show ?thesis by (simp add: calculateMACD_def Let_def)
qed

subsection \<open>A rising series\<close>

lemma calculateMACD_histogram:
  "i < length closes \<Longrightarrow> histogram (calculateMACD closes) ! i =
     diff_or_null (macd (calculateMACD closes) ! i) (signal (calculateMACD closes) ! i)"
  by (simp add: calculateMACD_def Let_def)

lemmas ema_eval = calculateEMA_def ema_loop_def slice_def upt_conv_Cons Let_def

lemma ramp_macd_line: "macd_line ramp_closes = replicate 25 None @ replicate 9 (Some 7)"
  by (simp add: ramp_closes_def macd_line_def diff_or_null_def ema_eval replicate_numeral)

lemma ramp_macd: "macd (calculateMACD ramp_closes) = replicate 25 None @ replicate 9 (Some 7)"
  by (simp add: calculateMACD_def Let_def ramp_macd_line)

lemma ramp_signal:
  "signal (calculateMACD ramp_closes) ! 8 = Some 0 \<and>
   signal (calculateMACD ramp_closes) ! 33 = Some (11836867 / 1953125)"
  by (simp add: calculateMACD_def ramp_macd_line ema_eval replicate_numeral)

lemma ramp_signal_spec:
  "macd_signal_spec (replicate 25 None @ replicate 9 (Some 7)) ! 8 = None \<and>
   macd_signal_spec (replicate 25 None @ replicate 9 (Some 7)) ! 33 = Some 7"
  by (simp add: macd_signal_spec_def ema_eval replicate_numeral)

text \<open>
  Claim C3 says that the signal array is the 9-period EMA of the MACD line itself, first
  defined where nine MACD values exist, and that the histogram is their difference. The
  histogram part holds (\<open>calculateMACD_histogram\<close>). The signal part fails: the code
  replaces the \<open>null\<close> entries of the MACD line by 0 and runs the EMA over that padded
  array, so the signal is a number from index 8 on and starts from 0 instead of from the
  mean of the first nine MACD values (\<open>calculateMACD_signal_starts_at_zero\<close>, for every
  series of at least nine closes). On the closes 1, ..., 34 the MACD line is 7 from
  index 25 on; the EMA of those values is \<open>null\<close> up to index 32 and 7 at index 33,
  where the code returns about 6.06 and a histogram of about 0.94 instead of 0.
\<close>

theorem calculateMACD_signal_zero_padded:
  "macd (calculateMACD ramp_closes) ! 8 = None \<and>
   signal (calculateMACD ramp_closes) ! 8 = Some 0 \<and>
   macd_signal_spec (macd (calculateMACD ramp_closes)) ! 8 = None \<and>
   macd (calculateMACD ramp_closes) ! 33 = Some 7 \<and>
   signal (calculateMACD ramp_closes) ! 33 = Some (11836867 / 1953125) \<and>
   macd_signal_spec (macd (calculateMACD ramp_closes)) ! 33 = Some 7 \<and>
   histogram (calculateMACD ramp_closes) ! 33 = Some (1835008 / 1953125)"
proof -
  have len: "33 < length ramp_closes" by (simp add: ramp_closes_def)
  have m: "macd (calculateMACD ramp_closes) ! 8 = None \<and> macd (calculateMACD ramp_closes) ! 33 = Some 7"
    by (simp add: ramp_macd replicate_numeral)
  show ?thesis
    using m ramp_signal ramp_signal_spec
    by (simp add: calculateMACD_histogram [OF len] diff_or_null_def ramp_macd)
qed

section \<open>Properties of the store module's backtest\<close>

subsection \<open>NaN is absorbing\<close>

lemma js_lift2_NaN [simp]: "js_lift2 f NaN b = NaN" "js_lift2 f a NaN = NaN"
  by (cases a; simp)+

lemma js_NaN [simp]:
  "js_sub NaN b = NaN" "js_sub a NaN = NaN" "js_add NaN b = NaN" "js_add a NaN = NaN"
  "js_mul NaN b = NaN" "js_mul a NaN = NaN"
  by (simp_all add: js_sub_def js_add_def js_mul_def)

subsection \<open>Lengths of \<open>fastEMA\<close> and \<open>slowEMA\<close>\<close>

lemma store_ema_step_lengths:
  "length (fastEMA_of (store_ema_step closes fastPeriod slowPeriod i st)) = Suc (length (fastEMA_of st)) \<and>
   length (slowEMA_of (store_ema_step closes fastPeriod slowPeriod i st)) =
     (if i + 1 \<ge> slowPeriod then Suc (length (slowEMA_of st)) else length (slowEMA_of st))"
  by (cases st) (simp add: fastEMA_of_def slowEMA_of_def Let_def)

lemma store_ema_fold_lengths:
  "a \<le> b \<Longrightarrow>
   length (fastEMA_of (fold (store_ema_step closes fastPeriod slowPeriod) [a..<b] st)) =
     length (fastEMA_of st) + (b - a) \<and>
   length (slowEMA_of (fold (store_ema_step closes fastPeriod slowPeriod) [a..<b] st)) =
     length (slowEMA_of st) + (b - max a (slowPeriod - 1))"
proof (induction b)
  case 0
  then show ?case by simp
next
  case (Suc b)
  show ?case
  proof (cases "a \<le> b")
    case True
    then show ?thesis
      using Suc.IH store_ema_step_lengths [of closes fastPeriod slowPeriod b
          "fold (store_ema_step closes fastPeriod slowPeriod) [a..<b] st"]
      by (auto simp: max_def Suc_diff_le)
  next
    case False
    then have "a = Suc b" using Suc.prems by simp
    then show ?thesis by simp
  qed
qed

lemma store_emas_lengths:
  assumes "26 \<le> length closes"
  shows "length (fst (store_emas closes 12 26)) = length closes - 11 \<and>
         length (snd (store_emas closes 12 26)) = length closes - 24"
proof -
  define st0 where "st0 = (sum_list (slice 0 12 closes) / real 12, [sum_list (slice 0 12 closes) / real 12],
                           sum_list (slice 0 26 closes) / real 26, [sum_list (slice 0 26 closes) / real 26])"
  define st where "st = fold (store_ema_step closes 12 26) [12..<length closes] st0"
  have e: "store_emas closes 12 26 = (fastEMA_of st, slowEMA_of st)"
    by (simp add: store_emas_def Let_def st_def st0_def fastEMA_of_def slowEMA_of_def case_prod_beta)
  have "12 \<le> length closes" using assms by simp
  from store_ema_fold_lengths [OF this, of closes 12 26 st0]
  have "length (fastEMA_of st) = 1 + (length closes - 12) \<and>
        length (slowEMA_of st) = 1 + (length closes - 25)"
    by (simp add: st_def st0_def fastEMA_of_def slowEMA_of_def)
  then have "length (fastEMA_of st) = length closes - 11 \<and>
             length (slowEMA_of st) = length closes - 24"
    using assms by arith
  then show ?thesis by (simp add: e)
qed

subsection \<open>The last entry of \<open>macdLine\<close> is NaN\<close>

lemma store_macd_line_last:
  assumes "26 \<le> length closes"
  shows "length (store_macd_line closes 12 26) = length closes - 24 \<and>
         store_macd_line closes 12 26 ! (length closes - 25) = NaN"
proof -
  obtain fastEMA slowEMA where fs: "store_emas closes 12 26 = (fastEMA, slowEMA)"
    by (cases "store_emas closes 12 26")
  have lf: "length fastEMA = length closes - 11" and ls: "length slowEMA = length closes - 24"
    using store_emas_lengths [OF assms] by (simp_all add: fs)
  have i: "length closes - 25 < length slowEMA" using assms ls by simp
  have "js_nth fastEMA (int (length closes - 25) + (int 26 - int 12)) = NaN"
    using assms lf by (simp add: js_nth_def)
  then show ?thesis
    using i ls by (simp add: store_macd_line_def fs Let_def)
qed

lemma store_signal_value_NaN:
  assumes "signalPeriod < length macdLine" "macdLine ! (length macdLine - 1) = NaN"
  shows "store_signal_value macdLine signalPeriod = NaN"
proof -
  obtain k where k: "length macdLine = Suc k" using assms(1) by (cases "length macdLine") auto
  then have "[signalPeriod..<length macdLine] = [signalPeriod..<k] @ [k]"
    using assms(1) by simp
  then show ?thesis
    using assms(2) k by (simp add: store_signal_value_def Let_def)
qed

lemma store_calculateMACD_NaN:
  assumes "35 \<le> length closes"
  shows "sm_histogram (store_calculateMACD closes 12 26 9) = Some NaN \<and>
         sm_macd (store_calculateMACD closes 12 26 9) = Some NaN"
proof -
  define ml where "ml = store_macd_line closes 12 26"
  have len: "length ml = length closes - 24" and lst: "ml ! (length closes - 25) = NaN"
    using store_macd_line_last [of closes] assms by (simp_all add: ml_def)
  have l1: "length ml - 1 = length closes - 25" using len by simp
  have "9 < length ml" using len assms by simp
  then have sig: "store_signal_value ml 9 = NaN"
    using lst l1 by (intro store_signal_value_NaN) simp_all
  have "0 < length ml" using len assms by simp
  then have "nat (int (length ml) - 1) = length ml - 1" "0 \<le> int (length ml) - 1"
    by simp_all
  then have m: "js_nth_num ml (int (length ml) - 1) = NaN"
    using lst l1 by (simp add: js_nth_num_def)
  show ?thesis
    using assms by (simp add: store_calculateMACD_def Let_def ml_def [symmetric] sig m)
qed

subsection \<open>The helper never trades\<close>

lemma store_decide_idle:
  assumes "s_position st = 0" "\<not> js_truthy (sm_histogram macdResult)"
  shows "store_decide oversold overbought rsiResult macdResult currentPrice ts st = st"
  using assms by (simp add: store_decide_def)

lemma store_step_idle:
  assumes "s_position st = 0" "s_trades st = []" "35 \<le> i" "i \<le> length data"
  shows "s_position (store_step data oversold overbought i st) = 0 \<and>
         s_trades (store_step data oversold overbought i st) = []"
proof -
  have "length (map close (slice 0 i data)) = i"
    using assms(4) by (simp add: slice_def)
  then have "\<not> js_truthy (sm_histogram (store_calculateMACD (map close (slice 0 i data)) 12 26 9))"
    using store_calculateMACD_NaN [of "map close (slice 0 i data)"] assms(3) by simp
  then show ?thesis
    using assms(1,2) by (simp add: store_step_def Let_def store_decide_idle store_track_def)
qed

lemma store_loop_idle:
  "n \<le> length data \<Longrightarrow>
   s_position (store_loop data startCapital oversold overbought n) = 0 \<and>
   s_trades (store_loop data startCapital oversold overbought n) = []"
proof (induction n)
  case 0
  show ?case by (simp add: store_loop_def store_initial_def)
next
  case (Suc n)
  show ?case
  proof (cases "50 \<le> n")
    case True
    have "store_loop data startCapital oversold overbought (Suc n) =
          store_step data oversold overbought n (store_loop data startCapital oversold overbought n)"
      using True by (simp add: store_loop_def)
    then show ?thesis
      using Suc True store_step_idle [of "store_loop data startCapital oversold overbought n" n data]
      by simp
  next
    case False
    then show ?thesis by (simp add: store_loop_def store_initial_def)
  qed
qed

lemma store_runBacktest_no_trades:
  "sr_trades (store_runBacktest data startCapital oversold overbought) = []"
  using store_loop_idle [of "length data" data startCapital oversold overbought]
  by (simp add: store_runBacktest_def Let_def)

subsection \<open>The entry rule\<close>

text \<open>
  The guard of the entry branch, as written: from a flat position the branch is taken
  exactly when the RSI value is below the threshold and the histogram is a number
  greater than 0, and it converts all cash into the position.
\<close>

lemma store_decide_entry_rule:
  assumes "s_position st = 0"
  shows "(s_trades (store_decide oversold overbought rsiResult macdResult currentPrice ts st) \<noteq> s_trades st) =
           (ir_value rsiResult < oversold \<and> js_truthy (sm_histogram macdResult) \<and>
            js_opt_gt (sm_histogram macdResult) 0)"
    and "s_trades (store_decide oversold overbought rsiResult macdResult currentPrice ts st) \<noteq> s_trades st \<Longrightarrow>
           s_capital (store_decide oversold overbought rsiResult macdResult currentPrice ts st) = 0 \<and>
           s_position (store_decide oversold overbought rsiResult macdResult currentPrice ts st) =
             s_capital st / currentPrice"
  using assms by (auto simp: store_decide_def Let_def)

subsection \<open>The sample data\<close>

lemma length_slowdown_closes: "length slowdown_closes = 50"
  by (simp add: slowdown_closes_def)

lemma slowdown_history: "map close (slice 0 50 slowdown_candles) = slowdown_closes"
  by (simp add: slowdown_candles_def slice_def take_map [symmetric] closes_flat_candles
      length_slowdown_closes)

lemma slowdown_rsi: "ir_value (store_calculateRSI slowdown_closes 14) = 0"
  by (simp add: store_calculateRSI_def store_rsi_averages_def store_changes_def
      slowdown_closes_def upt_conv_Cons Let_def)

lemma slowdown_macd_line:
  "macd_line slowdown_closes =
     replicate 25 None @ replicate 23 (Some (- 70)) @ [Some (- (2702 / 39)), Some (- (930986 / 13689))]"
  by (simp add: slowdown_closes_def macd_line_def diff_or_null_def ema_eval replicate_numeral)

lemma slowdown_histogram_spec: "macd_histogram_spec slowdown_closes ! 49 = Some (505568 / 342225)"
proof -
  have "macd_histogram_spec slowdown_closes ! 49 =
        diff_or_null (macd_line slowdown_closes ! 49)
          (macd_signal_spec (macd_line slowdown_closes) ! 49)"
    by (simp add: macd_histogram_spec_def Let_def length_slowdown_closes)
  also have "\<dots> = Some (505568 / 342225)"
    unfolding slowdown_macd_line
    by (simp add: macd_signal_spec_def diff_or_null_def ema_eval replicate_numeral)
  finally show ?thesis .
qed

text \<open>
  Claim C6 says that from the flat state a BUY is executed at candle \<open>i\<close> exactly when the
  RSI over the closes before \<open>i\<close> is below the oversold threshold and the MACD histogram
  is positive, and that the entry converts all cash. The guard is written that way
  (\<open>store_decide_entry_rule\<close>), but the histogram it reads is never a positive number:
  \<open>calculateMACD\<close> of the store module reads \<open>fastEMA\<close> one place past its end, so
  for every series of at least 35 closes its \<open>macd\<close> and \<open>histogram\<close> are NaN
  (\<open>store_calculateMACD_NaN\<close>) and \<open>runBacktest\<close> logs no trade on any input
  (\<open>store_runBacktest_no_trades\<close>). On the sample data the closes before candle 50 have
  RSI 0 and a MACD histogram of about 1.48, and no BUY is executed.
\<close>

theorem store_backtest_never_enters:
  "map close (slice 0 50 slowdown_candles) = slowdown_closes \<and>
   ir_value (store_calculateRSI slowdown_closes 14) = 0 \<and>
   macd_histogram_spec slowdown_closes ! 49 = Some (505568 / 342225) \<and>
   sm_histogram (store_calculateMACD slowdown_closes 12 26 9) = Some NaN \<and>
   store_decision slowdown_candles 10000 30 70 50 = [] \<and>
   sr_trades (store_runBacktest slowdown_candles 10000 30 70) = []"
proof -
  have "s_trades (store_loop slowdown_candles 10000 30 70 50) = [] \<and>
        s_trades (store_loop slowdown_candles 10000 30 70 (Suc 50)) = []"
    using store_loop_idle [of 50 slowdown_candles] store_loop_idle [of "Suc 50" slowdown_candles]
    by (simp add: slowdown_candles_def length_flat_candles length_slowdown_closes)
  then have "store_decision slowdown_candles 10000 30 70 50 = []"
    by (simp add: store_decision_def)
  then show ?thesis
    using store_calculateMACD_NaN [of slowdown_closes]
    by (simp add: slowdown_history slowdown_rsi slowdown_histogram_spec length_slowdown_closes
        store_runBacktest_no_trades)
qed

section \<open>Properties of support and resistance detection\<close>

subsection \<open>Arithmetic of the merge test\<close>

lemma near_quotient:
  fixes p r t :: real
  assumes "0 < r"
  shows "((r - p) / r < t) = ((1 - t) * r < p)"
proof -
  have "((r - p) / r < t) = (r - p < t * r)"
    using assms by (simp add: pos_divide_less_eq)
  also have "\<dots> = ((1 - t) * r < p)"
    by (auto simp: algebra_simps)
  finally show ?thesis .
qed

lemma nearby_iff:
  fixes p r t :: real
  assumes "0 < r" "p \<le> r"
  shows "(\<bar>p - r\<bar> / r < t) = ((1 - t) * r < p)"
proof -
  have "\<bar>p - r\<bar> = r - p" using assms by simp
  then show ?thesis using near_quotient [OF assms(1)] by simp
qed

lemma gap_mono:
  fixes p q r t :: real
  assumes "0 < p" "0 < q" "q \<le> r" "p \<le> (1 - t) * q"
  shows "p \<le> (1 - t) * r"
proof -
  have "0 < (1 - t) * q" using assms(1,4) by linarith
  then have "0 < 1 - t" using assms(2) by (simp add: zero_less_mult_iff)
  then have "(1 - t) * q \<le> (1 - t) * r" using assms(3) by simp
  then show ?thesis using assms(4) by linarith
qed

lemma gap_strict:
  fixes p q t :: real
  assumes "0 < t" "0 < q" "p \<le> (1 - t) * q"
  shows "p < q"
proof -
  have "(1 - t) * q < 1 * q" using assms(1,2) by (intro mult_strict_right_mono) auto
  then show ?thesis using assms(3) by simp
qed

lemma absorb_price:
  assumes "pl_price l \<le> pl_price level" "1 \<le> pl_touches l"
  shows "pl_price l \<le> pl_price (absorb l level) \<and> pl_price (absorb l level) \<le> pl_price level"
proof -
  have n: "0 < real (pl_touches l) + 1" by simp
  have "pl_price l * (real (pl_touches l) + 1) \<le> pl_price l * real (pl_touches l) + pl_price level"
    using assms by (simp add: algebra_simps)
  moreover have "pl_price l * real (pl_touches l) + pl_price level \<le>
                 pl_price level * (real (pl_touches l) + 1)"
    using assms by (simp add: algebra_simps mult_right_mono)
  ultimately show ?thesis
    using n by (simp add: absorb_def pos_le_divide_eq pos_divide_le_eq)
qed

lemma absorb_fields [simp]:
  "pl_type (absorb l level) = pl_type l" "pl_touches (absorb l level) = pl_touches l + 1"
  by (simp_all add: absorb_def)

subsection \<open>One merge step on levels of one type\<close>

lemma merge_level_not_Nil [simp]: "merge_level t level ls \<noteq> []"
  by (cases ls) simp_all

lemma settled_Cons:
  "settled t r ty (l # ls) \<Longrightarrow> settled t r ty ls"
  by (cases ls) (simp_all add: settled_def)

lemma merge_level_settled:
  assumes "settled t (pl_price level) ty ls" "pl_type level = ty" "0 < pl_price level"
    "1 \<le> pl_touches level" "0 < t"
  shows "settled t (pl_price level) ty (merge_level t level ls) \<and>
         (ls \<noteq> [] \<longrightarrow> pl_price (hd ls) \<le> pl_price (hd (merge_level t level ls)))"
  using assms(1)
proof (induction ls)
  case Nil
  show ?case using assms by (simp add: settled_def)
next
  case (Cons l ls)
  let ?r = "pl_price level"
  have l: "pl_type l = ty" "0 < pl_price l" "pl_price l \<le> ?r" "1 \<le> pl_touches l"
    using Cons.prems by (simp_all add: settled_def)
  have near: "nearby t l level = ((1 - t) * ?r < pl_price l)"
    using l assms by (simp add: nearby_def nearby_iff near_quotient)
  show ?case
  proof (cases "nearby t l level")
    case True
    have "ls = []"
    proof (rule ccontr)
      assume "ls \<noteq> []"
      then obtain q qs where ls: "ls = q # qs" by (cases ls) auto
      then have q: "0 < pl_price q" "pl_price q \<le> ?r" "pl_price l \<le> (1 - t) * pl_price q"
        using Cons.prems by (simp_all add: settled_def)
      from gap_mono [OF l(2) q(1) q(2) q(3)] show False
        using True near by simp
    qed
    then show ?thesis
      using True l assms absorb_price [of l level]
      by (simp add: settled_def)
  next
    case False
    have ih: "settled t ?r ty (merge_level t level ls)"
      and hd: "ls \<noteq> [] \<longrightarrow> pl_price (hd ls) \<le> pl_price (hd (merge_level t level ls))"
      using Cons.IH [OF settled_Cons [OF Cons.prems]] by simp_all
    obtain h hs where m: "merge_level t level ls = h # hs"
      by (cases "merge_level t level ls") auto
    have h: "0 < pl_price h" "pl_price h \<le> ?r"
      using ih by (simp_all add: m settled_def)
    have "pl_price l \<le> (1 - t) * pl_price h"
    proof (cases ls)
      case Nil
      then have "h = level" using m by simp
      then show ?thesis using False near by simp
    next
      case (Cons q qs)
      then have q: "0 < pl_price q" "pl_price l \<le> (1 - t) * pl_price q"
        using Cons.prems by (simp_all add: settled_def)
      have "pl_price q \<le> pl_price h" using hd Cons m by simp
      from gap_mono [OF l(2) q(1) this q(2)] show ?thesis .
    qed
    then show ?thesis
      using False ih l by (simp add: m settled_def)
  qed
qed

subsection \<open>Merging looks only at levels of the same type\<close>

lemma filter_merge_level:
  "filter (\<lambda>l. pl_type l = ty) (merge_level t level ls) =
     (if pl_type level = ty then merge_level t level (filter (\<lambda>l. pl_type l = ty) ls)
      else filter (\<lambda>l. pl_type l = ty) ls)"
  by (induction ls) (auto simp: nearby_def)

lemma settled_bound:
  "settled t r ty ls \<Longrightarrow> r \<le> r' \<Longrightarrow> settled t r' ty ls"
  by (auto simp: settled_def list_all_iff)

lemma fold_merge_settled:
  assumes "0 < t"
  shows "sorted (map pl_price sortedLevels) \<Longrightarrow>
         list_all (\<lambda>l. 0 < pl_price l \<and> 1 \<le> pl_touches l \<and> r \<le> pl_price l) sortedLevels \<Longrightarrow>
         settled t r ty (filter (\<lambda>l. pl_type l = ty) merged) \<Longrightarrow>
         \<exists>r'. settled t r' ty (filter (\<lambda>l. pl_type l = ty) (fold (merge_level t) sortedLevels merged))"
proof (induction sortedLevels arbitrary: merged r)
  case Nil
  then show ?case by auto
next
  case (Cons level rest)
  have lv: "0 < pl_price level" "1 \<le> pl_touches level" "r \<le> pl_price level"
    using Cons.prems(2) by simp_all
  have s: "settled t (pl_price level) ty (filter (\<lambda>l. pl_type l = ty) merged)"
    using Cons.prems(3) lv(3) by (rule settled_bound)
  have step: "settled t (pl_price level) ty (filter (\<lambda>l. pl_type l = ty) (merge_level t level merged))"
  proof (cases "pl_type level = ty")
    case True
    then show ?thesis
      using merge_level_settled [OF s True lv(1) lv(2) assms] by (simp add: filter_merge_level)
  next
    case False
    then show ?thesis using s by (simp add: filter_merge_level)
  qed
  have rest: "list_all (\<lambda>l. 0 < pl_price l \<and> 1 \<le> pl_touches l \<and> pl_price level \<le> pl_price l) rest"
    using Cons.prems(1,2) by (auto simp: list_all_iff)
  have "sorted (map pl_price rest)" using Cons.prems(1) by simp
  from Cons.IH [OF this rest step] show ?case by simp
qed

subsection \<open>Settled levels have strictly increasing prices\<close>

lemma settled_strict:
  assumes "0 < t" "settled t r ty ls"
  shows "sorted_wrt (<) (map pl_price ls)"
  using assms(2)
proof (induction ls)
  case Nil
  show ?case by simp
next
  case (Cons l ls)
  have tail: "sorted_wrt (<) (map pl_price ls)"
    using Cons.IH [OF settled_Cons [OF Cons.prems]] .
  show ?case
  proof (cases ls)
    case Nil
    then show ?thesis by simp
  next
    case (Cons q qs)
    then have "0 < pl_price q" "pl_price l \<le> (1 - t) * pl_price q"
      using Cons.prems by (simp_all add: settled_def)
    then have "pl_price l < pl_price q" using gap_strict [OF assms(1)] by blast
    moreover have "\<forall>x\<in>set (map pl_price qs). pl_price q < x"
      using tail Cons by simp
    ultimately show ?thesis using tail Cons by auto
  qed
qed

subsection \<open>Sorting distinct keys gives a strict order\<close>

lemma insort_key_strict:
  fixes f :: "'a \<Rightarrow> real"
  assumes "sorted_wrt (\<lambda>a b. f a < f b) ys" "f x \<notin> f ` set ys"
  shows "sorted_wrt (\<lambda>a b. f a < f b) (insort_key f x ys)"
  using assms
proof (induction ys)
  case Nil
  show ?case by simp
next
  case (Cons y ys)
  then show ?case by (auto simp: set_insort_key)
qed

lemma sort_key_strict:
  fixes f :: "'a \<Rightarrow> real"
  assumes "distinct (map f xs)"
  shows "sorted_wrt (\<lambda>a b. f a < f b) (sort_key f xs)"
  using assms
proof (induction xs)
  case Nil
  show ?case by simp
next
  case (Cons x xs)
  then have "f x \<notin> f ` set (sort_key f xs)" by simp
  then show ?case using Cons by (simp add: insort_key_strict)
qed

subsection \<open>The levels found by the scan\<close>

lemma set_last_candles: "set (last_candles lookback candles) \<subseteq> set candles"
  by (auto simp: last_candles_def dest: in_set_dropD)

lemma local_levels_positive:
  assumes "i < length recentCandles" "\<forall>c\<in>set recentCandles. 0 < low c \<and> 0 < high c"
  shows "\<forall>l\<in>set (local_levels recentCandles i). 0 < pl_price l \<and> 1 \<le> pl_touches l"
proof -
  have "recentCandles ! i \<in> set recentCandles" using assms(1) by simp
  then have "0 < low (recentCandles ! i) \<and> 0 < high (recentCandles ! i)" using assms(2) by blast
  then show ?thesis by (auto simp: local_levels_def Let_def)
qed

lemma scan_positive:
  assumes "\<forall>c\<in>set recentCandles. 0 < low c \<and> 0 < high c"
  shows "\<forall>l\<in>set (concat (map (local_levels recentCandles) [2..<length recentCandles - 2])).
           0 < pl_price l \<and> 1 \<le> pl_touches l"
proof -
  have "\<forall>l\<in>set (local_levels recentCandles i). 0 < pl_price l \<and> 1 \<le> pl_touches l"
    if "i \<in> set [2..<length recentCandles - 2]" for i
    using that assms by (intro local_levels_positive) auto
  then show ?thesis by auto
qed

subsection \<open>Ordering of the returned levels\<close>

lemma merged_strict:
  assumes "0 < threshold" "\<forall>l\<in>set ls. 0 < pl_price l \<and> 1 \<le> pl_touches l"
  shows "distinct (map pl_price (filter (\<lambda>l. pl_type l = ty)
                                  (fold (merge_level threshold) (sort_key pl_price ls) [])))"
proof -
  have "list_all (\<lambda>l. 0 < pl_price l \<and> 1 \<le> pl_touches l \<and> 0 \<le> pl_price l) (sort_key pl_price ls)"
    using assms(2) by (auto simp: list_all_iff)
  moreover have "settled threshold 0 ty (filter (\<lambda>l. pl_type l = ty) [])"
    by (simp add: settled_def)
  ultimately obtain r where
    "settled threshold r ty (filter (\<lambda>l. pl_type l = ty)
                               (fold (merge_level threshold) (sort_key pl_price ls) []))"
    using fold_merge_settled [OF assms(1), of "sort_key pl_price ls" 0 ty "[]"] by auto
  from settled_strict [OF assms(1) this] show ?thesis
    by (simp add: strict_sorted_iff)
qed

lemma distinct_negated:
  fixes F :: "PriceLevel list"
  assumes "distinct (map pl_price F)"
  shows "distinct (map (\<lambda>l. - pl_price l) F)"
proof -
  have "distinct (map uminus (map pl_price F))"
    using assms by (subst distinct_map) (simp add: inj_on_def)
  then show ?thesis by (simp add: comp_def)
qed

text \<open>
  Claim C8, amended. For every series of candles with positive highs and lows, every
  lookback and every positive merge threshold (the default is 0.02), the \<open>supports\<close>
  returned by
  \<open>findSupportResistance\<close> are strictly descending by price and the \<open>resistances\<close>
  strictly ascending.
\<close>

theorem findSupportResistance_strictly_ordered:
  assumes "0 < threshold" and "\<forall>c\<in>set candles. 0 < low c \<and> 0 < high c"
  shows "sorted_wrt (\<lambda>a b. pl_price a > pl_price b)
           (supports (findSupportResistance candles lookback threshold)) \<and>
         sorted_wrt (\<lambda>a b. pl_price a < pl_price b)
           (resistances (findSupportResistance candles lookback threshold))"
proof (cases "length candles < 10")
  case True
  then show ?thesis by (simp add: findSupportResistance_def)
next
  case False
  define ls where "ls = concat (map (local_levels (last_candles lookback candles))
                                 [2..<length (last_candles lookback candles) - 2])"
  define merged where "merged = fold (merge_level threshold) (sort_key pl_price ls) []"
  have "\<forall>c\<in>set (last_candles lookback candles). 0 < low c \<and> 0 < high c"
    using assms(2) set_last_candles [of lookback candles] by (meson subsetD)
  then have pos: "\<forall>l\<in>set ls. 0 < pl_price l \<and> 1 \<le> pl_touches l"
    unfolding ls_def by (rule scan_positive)
  have d: "distinct (map pl_price (filter (\<lambda>l. pl_type l = ty) merged))" for ty
    unfolding merged_def by (rule merged_strict [OF assms(1) pos])
  have "sorted_wrt (\<lambda>a b. - pl_price a < - pl_price b)
          (sort_key (\<lambda>l. - pl_price l) (filter (\<lambda>l. pl_type l = Support) merged))"
    by (rule sort_key_strict) (rule distinct_negated [OF d])
  then have s: "sorted_wrt (\<lambda>a b. pl_price a > pl_price b)
          (sort_key (\<lambda>l. - pl_price l) (filter (\<lambda>l. pl_type l = Support) merged))"
    by simp
  have r: "sorted_wrt (\<lambda>a b. pl_price a < pl_price b)
             (sort_key pl_price (filter (\<lambda>l. pl_type l = Resistance) merged))"
    by (rule sort_key_strict) (rule d)
  have es: "supports (findSupportResistance candles lookback threshold) =
              sort_key (\<lambda>l. - pl_price l) (filter (\<lambda>l. pl_type l = Support) merged)"
    using False unfolding findSupportResistance_def Let_def merged_def ls_def by simp
  have er: "resistances (findSupportResistance candles lookback threshold) =
              sort_key pl_price (filter (\<lambda>l. pl_type l = Resistance) merged)"
    using False unfolding findSupportResistance_def Let_def merged_def ls_def by simp
  show ?thesis
    unfolding es er using s r by (rule conjI)
qed

subsection \<open>The sample candles\<close>

lemma zigzag_scan:
  "concat (map (local_levels (last_candles 100 zigzag_candles))
               [2..<length (last_candles 100 zigzag_candles) - 2]) =
   [\<lparr>pl_price = 89, pl_type = Support, pl_strength = 1, pl_touches = 1, pl_lastTouch = 2\<rparr>,
    \<lparr>pl_price = 101, pl_type = Resistance, pl_strength = 1, pl_touches = 1, pl_lastTouch = 4\<rparr>,
    \<lparr>pl_price = 79, pl_type = Support, pl_strength = 1, pl_touches = 1, pl_lastTouch = 6\<rparr>,
    \<lparr>pl_price = 111, pl_type = Resistance, pl_strength = 1, pl_touches = 1, pl_lastTouch = 8\<rparr>]"
  by (simp add: zigzag_candles_def last_candles_def local_levels_def Let_def upt_conv_Cons)

lemma zigzag_levels:
  "map pl_price (supports (findSupportResistance zigzag_candles 100 (2 / 100))) = [89, 79] \<and>
   map pl_price (resistances (findSupportResistance zigzag_candles 100 (2 / 100))) = [101, 111]"
proof -
  have "\<not> length zigzag_candles < 10" by (simp add: zigzag_candles_def)
  then show ?thesis
    unfolding findSupportResistance_def Let_def zigzag_scan
    by (simp add: nearby_def absorb_def)
qed

text \<open>The sample candles yield two supports and two resistances.\<close>

theorem findSupportResistance_strictly_ordered_witness:
  "(0::real) < 2 / 100 \<and> list_all (\<lambda>c. 0 < low c \<and> 0 < high c) zigzag_candles \<and>
   map pl_price (supports (findSupportResistance zigzag_candles 100 (2 / 100))) = [89, 79] \<and>
   map pl_price (resistances (findSupportResistance zigzag_candles 100 (2 / 100))) = [101, 111] \<and>
   sorted_wrt (\<lambda>a b. pl_price a > pl_price b)
     (supports (findSupportResistance zigzag_candles 100 (2 / 100))) \<and>
   sorted_wrt (\<lambda>a b. pl_price a < pl_price b)
     (resistances (findSupportResistance zigzag_candles 100 (2 / 100)))"
proof -
  have t: "(0::real) < 2 / 100" by simp
  have pos: "list_all (\<lambda>c. 0 < low c \<and> 0 < high c) zigzag_candles"
    by (simp add: zigzag_candles_def)
  then have "\<forall>c\<in>set zigzag_candles. 0 < low c \<and> 0 < high c"
    by (simp add: list_all_iff)
  from findSupportResistance_strictly_ordered [OF t this, of 100] show ?thesis
    using pos zigzag_levels by simp
qed

lemma wick_scan:
  "concat (map (local_levels (last_candles 100 wick_candles))
               [2..<length (last_candles 100 wick_candles) - 2]) =
   [\<lparr>pl_price = 0, pl_type = Support, pl_strength = 1, pl_touches = 1, pl_lastTouch = 2\<rparr>,
    \<lparr>pl_price = 0, pl_type = Support, pl_strength = 1, pl_touches = 1, pl_lastTouch = 6\<rparr>]"
  by (simp add: wick_candles_def last_candles_def local_levels_def Let_def upt_conv_Cons)

text \<open>
  Without the hypothesis on the prices the order need not be strict: a level price of 0
  is never near another level (the quotient of the merge test is \<open>0 / 0\<close>), so two
  wicks down to 0 stay two supports with the same price.
\<close>

theorem findSupportResistance_strictly_ordered_counterexample:
  "map pl_price (supports (findSupportResistance wick_candles 100 (2 / 100))) = [0, 0] \<and>
   map pl_lastTouch (supports (findSupportResistance wick_candles 100 (2 / 100))) = [2, 6] \<and>
   \<not> sorted_wrt (\<lambda>a b. pl_price a > pl_price b)
         (supports (findSupportResistance wick_candles 100 (2 / 100)))"
proof -
  have "\<not> length wick_candles < 10" by (simp add: wick_candles_def)
  then have "supports (findSupportResistance wick_candles 100 (2 / 100)) =
     [\<lparr>pl_price = 0, pl_type = Support, pl_strength = 1, pl_touches = 1, pl_lastTouch = 2\<rparr>,
      \<lparr>pl_price = 0, pl_type = Support, pl_strength = 1, pl_touches = 1, pl_lastTouch = 6\<rparr>]"
    unfolding findSupportResistance_def Let_def wick_scan
    by (simp add: nearby_def absorb_def)
  then show ?thesis by simp
qed

section \<open>Properties of the complete analysis\<close>

text \<open>
  Claim C10. For every non-empty series of candles \<open>performTechnicalAnalysis\<close> returns
  a result whose \<open>support2\<close> and \<open>resistance2\<close> are \<open>null\<close>: both are read from the
  module-level constant \<open>levels\<close>, whose two arrays are empty, and not from the levels
  computed for the input.
\<close>

theorem performTechnicalAnalysis_second_levels_null:
  assumes "candles \<noteq> []"
  shows "\<not> isl (performTechnicalAnalysis candles) \<and>
         support2 (ti_supportResistance (projr (performTechnicalAnalysis candles))) = None \<and>
         resistance2 (ti_supportResistance (projr (performTechnicalAnalysis candles))) = None \<and>
         la_supports levels = [] \<and> la_resistances levels = []"
  using assms
  by (simp add: performTechnicalAnalysis_def Let_def second_price_def levels_def or_null_def)

text \<open>
  On the sample candles the computed levels hold a second support and a second
  resistance, and both fields are \<open>null\<close> all the same.
\<close>

theorem performTechnicalAnalysis_second_levels_null_witness:
  "zigzag_candles \<noteq> [] \<and>
   map pl_price (supports (findSupportResistance zigzag_candles 100 (2 / 100))) = [89, 79] \<and>
   map pl_price (resistances (findSupportResistance zigzag_candles 100 (2 / 100))) = [101, 111] \<and>
   support2 (ti_supportResistance (projr (performTechnicalAnalysis zigzag_candles))) = None \<and>
   resistance2 (ti_supportResistance (projr (performTechnicalAnalysis zigzag_candles))) = None"
proof -
  have ne: "zigzag_candles \<noteq> []" by (simp add: zigzag_candles_def)
  from performTechnicalAnalysis_second_levels_null [OF ne] show ?thesis
    using ne zigzag_levels by simp
qed

end
